theory Spec2Isabelle
  imports Main "HOL-Library.Sublist"
begin

section \<open>JavaScript values and strings\<close>

text \<open>
  A string is the list of the bytes of its UTF-8 encoding.

  A value that JavaScript may leave \<open>undefined\<close> (or \<open>false\<close> out of an \<open>&&\<close>) is a
  \<open>string option\<close>: \<open>None\<close> for the missing value, \<open>Some ''''\<close> for the empty string.
  Both are falsy.
\<close>

definition truthy :: "string option \<Rightarrow> bool" where
  "truthy x = (case x of None \<Rightarrow> False | Some s \<Rightarrow> s \<noteq> [])"

text \<open>\<open>a || b\<close> on such values.\<close>

definition js_or :: "string option \<Rightarrow> string option \<Rightarrow> string option" where
  "js_or a b = (if truthy a then a else b)"

text \<open>A value inside a template literal: \<open>undefined\<close> prints as the text "undefined".\<close>

definition js_str :: "string option \<Rightarrow> string" where
  "js_str x = (case x of None \<Rightarrow> ''undefined'' | Some s \<Rightarrow> s)"

text \<open>
  \<open>String.prototype.toUpperCase\<close> maps the letters of every script and belongs to the
  engine: wherever the source calls it, the model takes it as a parameter \<open>upper\<close>, and
  what is proved holds for every such function. On a string of ASCII characters
  \<open>toUpperCase\<close> is the function \<open>toUpperCaseAscii\<close>.
\<close>

definition toUpperChar :: "char \<Rightarrow> char" where
  "toUpperChar c =
     (case map_of (zip ''abcdefghijklmnopqrstuvwxyz'' ''ABCDEFGHIJKLMNOPQRSTUVWXYZ'') c of
        None \<Rightarrow> c | Some u \<Rightarrow> u)"

definition toUpperCaseAscii :: "string \<Rightarrow> string" where
  "toUpperCaseAscii s = map toUpperChar s"



text \<open>
  \<open>String.prototype.trim\<close> removes from both ends the code points that ECMAScript calls
  WhiteSpace and LineTerminator: U+0009 to U+000D, U+0020, U+00A0, U+1680, U+2000 to
  U+200A, U+2028, U+2029, U+202F, U+205F, U+3000 and U+FEFF. \<open>whiteSpace\<close> lists their
  encodings.
\<close>

definition whiteSpace :: "string list" where
  "whiteSpace =
     [[CHR 0x09], [CHR 0x0A], [CHR 0x0B], [CHR 0x0C], [CHR 0x0D], [CHR 0x20],
      [CHR 0xC2, CHR 0xA0],
      [CHR 0xE1, CHR 0x9A, CHR 0x80],
      [CHR 0xE2, CHR 0x80, CHR 0x80], [CHR 0xE2, CHR 0x80, CHR 0x81],
      [CHR 0xE2, CHR 0x80, CHR 0x82], [CHR 0xE2, CHR 0x80, CHR 0x83],
      [CHR 0xE2, CHR 0x80, CHR 0x84], [CHR 0xE2, CHR 0x80, CHR 0x85],
      [CHR 0xE2, CHR 0x80, CHR 0x86], [CHR 0xE2, CHR 0x80, CHR 0x87],
      [CHR 0xE2, CHR 0x80, CHR 0x88], [CHR 0xE2, CHR 0x80, CHR 0x89],
      [CHR 0xE2, CHR 0x80, CHR 0x8A],
      [CHR 0xE2, CHR 0x80, CHR 0xA8], [CHR 0xE2, CHR 0x80, CHR 0xA9],
      [CHR 0xE2, CHR 0x80, CHR 0xAF],
      [CHR 0xE2, CHR 0x81, CHR 0x9F],
      [CHR 0xE3, CHR 0x80, CHR 0x80],
      [CHR 0xEF, CHR 0xBB, CHR 0xBF]]"

text \<open>The string without the members of \<open>ws\<close> that it starts with, one after the other.\<close>

function stripLeading :: "string list \<Rightarrow> string \<Rightarrow> string" where
  "stripLeading ws s =
     (case List.find (\<lambda>w. w \<noteq> [] \<and> prefix w s) ws of
        None \<Rightarrow> s
      | Some w \<Rightarrow> stripLeading ws (drop (length w) s))"
  by pat_completeness auto

termination
  by (relation "measure (\<lambda>(ws, s). length s)") (auto simp: find_Some_iff prefix_def)

declare stripLeading.simps [simp del]

definition trim :: "string \<Rightarrow> string" where
  "trim s = rev (stripLeading (map rev whiteSpace) (rev (stripLeading whiteSpace s)))"



text \<open>
  Objects with string keys are association lists in insertion order. Writing a key
  keeps its place when the object has it and appends it otherwise, as a property
  assignment and an object spread do.
\<close>

fun set_key :: "'k \<Rightarrow> 'v \<Rightarrow> ('k \<times> 'v) list \<Rightarrow> ('k \<times> 'v) list" where
  "set_key k v [] = [(k, v)]"
| "set_key k v ((k', v') # kvs) =
     (if k' = k then (k, v) # kvs else (k', v') # set_key k v kvs)"

text \<open>\<open>{ ...a, ...b }\<close>\<close>

definition spread :: "('k \<times> 'v) list \<Rightarrow> ('k \<times> 'v) list \<Rightarrow> ('k \<times> 'v) list" where
  "spread a b = fold (\<lambda>(k, v) acc. set_key k v acc) b a"

text \<open>\<open>delete o[k]\<close>\<close>

definition delete_key :: "'k \<Rightarrow> ('k \<times> 'v) list \<Rightarrow> ('k \<times> 'v) list" where
  "delete_key k kvs = filter (\<lambda>kv. fst kv \<noteq> k) kvs"

section \<open>Client configuration (types.d.ts)\<close>

text \<open>\<open>TokenOpts = { name?: string, value?: string, type?: string }\<close>\<close>

record TokenOpts =
  tok_name :: "string option"
  tok_value :: "string option"
  tok_type :: "string option"

text \<open>\<open>token?: string | TokenOpts\<close>\<close>

datatype TokenCfg = TokStr string | TokObj TokenOpts

text \<open>
  A value of the \<open>headers\<close> object: a header's string, or the nested record that the key
  \<open>serverOnly\<close> holds.
\<close>

datatype hval = HStr string | HObj "(string \<times> string) list"

type_synonym Headers = "(string \<times> hval) list"

text \<open>The interface \<open>GqlClient\<close>, every member optional as in \<open>Partial<GqlClient>\<close>.\<close>

record GqlClient =
  host :: "string option"
  clientHost :: "string option"
  schema :: "string option"
  token :: "TokenCfg option"
  retainToken :: "bool option"
  proxyCookies :: "bool option"
  headers :: "Headers option"

text \<open>A client of the user's configuration: \<open>string | GqlClient\<close>.\<close>

datatype ClientCfg = HostStr string | ClientObj GqlClient

definition noClient :: GqlClient where
  "noClient = \<lparr> host = None, clientHost = None, schema = None, token = None,
     retainToken = None, proxyCookies = None, headers = None \<rparr>"

text \<open>\<open>v?.token?.value\<close>, \<open>v?.token?.type\<close> and \<open>v.token.name\<close>: a string has no such member.\<close>

definition tokenValue :: "GqlClient \<Rightarrow> string option" where
  "tokenValue v = (case token v of Some (TokObj t) \<Rightarrow> tok_value t | _ \<Rightarrow> None)"

definition tokenType :: "GqlClient \<Rightarrow> string option" where
  "tokenType v = (case token v of Some (TokObj t) \<Rightarrow> tok_type t | _ \<Rightarrow> None)"

definition tokenName :: "GqlClient \<Rightarrow> string option" where
  "tokenName v = (case token v of Some (TokObj t) \<Rightarrow> tok_name t | _ \<Rightarrow> None)"

section \<open>Configuration resolution (module.ts, \<open>setup\<close>)\<close>

text \<open>
  \<open>process.env\<close> is a partial map from names to strings. The variable of client \<open>k\<close>:
  \<open>k === 'default' ? process.env.GQL_HOST : process.env[`GQL_${k.toUpperCase()}_HOST`]\<close>,
  and likewise for \<open>CLIENT_HOST\<close>, \<open>TOKEN\<close> and \<open>TOKEN_NAME\<close>. \<open>upper\<close> is
  \<open>toUpperCase\<close>.
\<close>

definition envName :: "(string \<Rightarrow> string) \<Rightarrow> string \<Rightarrow> string \<Rightarrow> string" where
  "envName upper k var =
     (if k = ''default'' then ''GQL_'' @ var else ''GQL_'' @ upper k @ ''_'' @ var)"

datatype ConfigError = GqlHostNotSet | ClientMissingHost string

text \<open>The text of the \<open>Error\<close> that is thrown.\<close>

fun message :: "ConfigError \<Rightarrow> string" where
  "message GqlHostNotSet = ''GQL_HOST is not set in public runtimeConfig''"
| "message (ClientMissingHost k) = ''GraphQL client ('' @ k @ '') is missing it's host.''"

text \<open>\<open>typeof v === 'string' ? v : v?.host\<close>\<close>

definition userHost :: "ClientCfg \<Rightarrow> string option" where
  "userHost v = (case v of HostStr s \<Rightarrow> Some s | ClientObj c \<Rightarrow> host c)"

text \<open>\<open>typeof v !== 'string' && v.clientHost\<close>\<close>

definition userClientHost :: "ClientCfg \<Rightarrow> string option" where
  "userClientHost v = (case v of HostStr s \<Rightarrow> None | ClientObj c \<Rightarrow> clientHost c)"

text \<open>
  \<open>typeof v !== 'string' && ((typeof v?.token === 'object' && v.token?.value) ||
  (typeof v?.token === 'string' && v.token))\<close>
\<close>

definition userToken :: "ClientCfg \<Rightarrow> string option" where
  "userToken v =
     (case v of
        HostStr s \<Rightarrow> None
      | ClientObj c \<Rightarrow>
          (case token c of
             None \<Rightarrow> None
           | Some (TokObj t) \<Rightarrow> js_or (tok_value t) None
           | Some (TokStr s) \<Rightarrow> Some s))"

text \<open>\<open>typeof v !== 'string' && typeof v?.token === 'object' && v.token.name\<close>\<close>

definition userTokenName :: "ClientCfg \<Rightarrow> string option" where
  "userTokenName v = (case v of HostStr s \<Rightarrow> None | ClientObj c \<Rightarrow> tokenName c)"

text \<open>
  \<open>(typeof v !== 'string' && typeof v?.token === 'object' && v?.token?.type !== undefined)
  ? v?.token?.type : 'Bearer'\<close>
\<close>

definition userTokenType :: "ClientCfg \<Rightarrow> string" where
  "userTokenType v =
     (case v of
        HostStr s \<Rightarrow> ''Bearer''
      | ClientObj c \<Rightarrow> (case tokenType c of None \<Rightarrow> ''Bearer'' | Some t \<Rightarrow> t))"

text \<open>\<open>(typeof v !== 'string' && v?.schema) && srcResolver.resolve(v.schema)\<close>\<close>

definition userSchema :: "(string \<Rightarrow> string) \<Rightarrow> ClientCfg \<Rightarrow> string option" where
  "userSchema resolve v =
     (case v of
        HostStr s \<Rightarrow> None
      | ClientObj c \<Rightarrow> (if truthy (schema c) then map_option resolve (schema c) else None))"

text \<open>\<open>...(typeof v !== 'string' && { ...v })\<close>\<close>

definition userObject :: "ClientCfg \<Rightarrow> GqlClient" where
  "userObject v = (case v of HostStr s \<Rightarrow> noClient | ClientObj c \<Rightarrow> c)"

text \<open>
  The body of the loop over \<open>Object.entries(config.clients)\<close> up to the descriptor
  \<open>conf\<close>: the error it throws, or \<open>conf\<close>. \<open>resolve\<close> is \<open>srcResolver.resolve\<close> and
  \<open>existsSync\<close> the file system's answer, \<open>upper\<close> is \<open>toUpperCase\<close>. The warning
  that is logged for a schema file that does not exist changes nothing and is left out.
\<close>

definition resolveClient ::
  "(string \<Rightarrow> string) \<Rightarrow> (string \<Rightarrow> string) \<Rightarrow> (string \<Rightarrow> bool) \<Rightarrow> (string \<rightharpoonup> string)
     \<Rightarrow> string \<Rightarrow> ClientCfg \<Rightarrow> ConfigError + GqlClient" where
  "resolveClient upper resolve existsSync env k v =
     (let runtimeHost = env (envName upper k ''HOST'');
          runtimeClientHost = env (envName upper k ''CLIENT_HOST'');
          host' = js_or runtimeHost (userHost v);
          clientHost' = js_or runtimeClientHost (userClientHost v)
      in if \<not> truthy host' then Inl (ClientMissingHost k)
         else
           let runtimeToken = env (envName upper k ''TOKEN'');
               token' = js_or runtimeToken (userToken v);
               runtimeTokenName = env (envName upper k ''TOKEN_NAME'');
               tokenName' = js_or (js_or runtimeTokenName (userTokenName v)) (Some ''Authorization'');
               tokenType' = userTokenType v;
               schema' = userSchema resolve v;
               base = userObject v
           in Inr (base
                \<lparr> host := host',
                  clientHost := (if truthy clientHost' then clientHost' else clientHost base),
                  schema := (case schema' of
                               None \<Rightarrow> schema base
                             | Some p \<Rightarrow> if p \<noteq> [] \<and> existsSync p then Some p else schema base),
                  token := Some (TokObj
                     \<lparr> tok_name = (if truthy tokenName' then tokenName' else None),
                       tok_value = (if truthy token' then token' else None),
                       tok_type = Some tokenType' \<rparr>),
                  proxyCookies := Some (case proxyCookies base of None \<Rightarrow> True | Some b \<Rightarrow> b) \<rparr>))"

text \<open>
  Modelled from the spec: \<open>deepmerge\<close> of \<open>runtime/utils\<close>, which is not among the
  sources. \<open>setup\<close> calls it as \<open>deepmerge({}, conf)\<close>: \<open>conf\<close> merged into a fresh empty
  object, a copy that shares nothing with \<open>conf\<close>. Values have no identity here, so the
  copy is the value.
\<close>

definition deepmerge :: "GqlClient \<Rightarrow> GqlClient" where
  "deepmerge conf = conf"

text \<open>
  What \<open>setup\<close> leaves behind: \<open>config.clients\<close>, the clients of
  \<open>runtimeConfig.public['graphql-client']\<close>, the clients of the private
  \<open>runtimeConfig['graphql-client']\<close> (each \<open>{ token }\<close>), and \<open>ctx.clientOps\<close>.
\<close>

record SetupResult =
  clients :: "(string \<times> GqlClient) list"
  publicClients :: "(string \<times> GqlClient) list"
  privateClients :: "(string \<times> TokenCfg option) list"
  clientOps :: "(string \<times> string list) list"

text \<open>\<open>typeof v !== 'string' && v?.retainToken\<close>\<close>

definition userRetainToken :: "ClientCfg \<Rightarrow> bool" where
  "userRetainToken v =
     (case v of HostStr s \<Rightarrow> False | ClientObj c \<Rightarrow> (case retainToken c of None \<Rightarrow> False | Some b \<Rightarrow> b))"

text \<open>\<open>clients[k].token.value = undefined\<close>\<close>

definition dropTokenValue :: "GqlClient \<Rightarrow> GqlClient" where
  "dropTokenValue c =
     c\<lparr> token := (case token c of
                     Some (TokObj t) \<Rightarrow> Some (TokObj (t\<lparr> tok_value := None \<rparr>))
                   | other \<Rightarrow> other) \<rparr>"

text \<open>The rest of the loop body: the three stores after client \<open>k\<close>.\<close>

definition storeClient :: "string \<Rightarrow> ClientCfg \<Rightarrow> GqlClient \<Rightarrow> SetupResult \<Rightarrow> SetupResult" where
  "storeClient k v conf r =
     (let r1 = r\<lparr> clientOps := set_key k [] (clientOps r),
                   clients := set_key k (deepmerge conf) (clients r),
                   publicClients := set_key k (deepmerge conf) (publicClients r) \<rparr>
      in if truthy (tokenValue conf)
         then
           let r2 = r1\<lparr> privateClients := set_key k (token conf) (privateClients r1) \<rparr>
           in if \<not> userRetainToken v
              then r2\<lparr> publicClients := set_key k (dropTokenValue (deepmerge conf)) (publicClients r2) \<rparr>
              else r2
         else r1)"

text \<open>The loop: it stops at the first client that throws.\<close>

fun setupClients ::
  "(string \<Rightarrow> string) \<Rightarrow> (string \<Rightarrow> string) \<Rightarrow> (string \<Rightarrow> bool) \<Rightarrow> (string \<rightharpoonup> string)
     \<Rightarrow> (string \<times> ClientCfg) list \<Rightarrow> SetupResult \<Rightarrow> ConfigError + SetupResult" where
  "setupClients upper resolve existsSync env [] r = Inr r"
| "setupClients upper resolve existsSync env ((k, v) # rest) r =
     (case resolveClient upper resolve existsSync env k v of
        Inl e \<Rightarrow> Inl e
      | Inr conf \<Rightarrow> setupClients upper resolve existsSync env rest (storeClient k v conf r))"

text \<open>
  The branch for a configuration with no client: \<open>host\<close> and \<open>clientHost\<close> come from
  \<open>process.env\<close> or from \<open>runtimeConfig.public\<close> (\<open>publicHost\<close>, \<open>publicClientHost\<close>), and
  \<open>config.clients\<close> becomes the one client \<open>default\<close>.
\<close>

definition implicitClients ::
  "(string \<rightharpoonup> string) \<Rightarrow> string option \<Rightarrow> string option
     \<Rightarrow> ConfigError + (string \<times> ClientCfg) list" where
  "implicitClients env publicHost publicClientHost =
     (let host' = js_or (env ''GQL_HOST'') publicHost;
          clientHost' = js_or (env ''GQL_CLIENT_HOST'') publicClientHost
      in case host' of
           None \<Rightarrow> Inl GqlHostNotSet
         | Some h \<Rightarrow>
             if h = [] then Inl GqlHostNotSet
             else if \<not> truthy clientHost' then Inr [(''default'', HostStr h)]
             else Inr [(''default'', ClientObj (noClient\<lparr> host := Some h, clientHost := clientHost' \<rparr>))])"

text \<open>
  \<open>setup\<close>, up to the end of the loop over the clients. \<open>userClients\<close> is
  \<open>Object.entries(config.clients)\<close> of the merged configuration.
\<close>

definition module_setup ::
  "(string \<Rightarrow> string) \<Rightarrow> (string \<Rightarrow> string) \<Rightarrow> (string \<Rightarrow> bool) \<Rightarrow> (string \<rightharpoonup> string)
     \<Rightarrow> string option \<Rightarrow> string option \<Rightarrow> (string \<times> ClientCfg) list
     \<Rightarrow> ConfigError + SetupResult" where
  "module_setup upper resolve existsSync env publicHost publicClientHost userClients =
     (case (if userClients = [] then implicitClients env publicHost publicClientHost
            else Inr userClients) of
        Inl e \<Rightarrow> Inl e
      | Inr cs \<Rightarrow>
          setupClients upper resolve existsSync env cs
            \<lparr> clients = [], publicClients = [], privateClients = [], clientOps = [] \<rparr>)"

text \<open>
  The \<open>host\<close> of the loop body, \<open>runtimeHost || (typeof v === 'string' ? v : v?.host)\<close>,
  is truthy: a host is found for client \<open>k\<close>.
\<close>

definition hostFound ::
  "(string \<Rightarrow> string) \<Rightarrow> (string \<rightharpoonup> string) \<Rightarrow> string \<Rightarrow> ClientCfg \<Rightarrow> bool" where
  "hostFound upper env k v = truthy (js_or (env (envName upper k ''HOST'')) (userHost v))"

text \<open>
  The precedence as the specification words it (section 4.1): the environment variable
  of the client, then the value of the user's object, then the default; a value counts
  when it is truthy.
\<close>

definition precedence :: "string option \<Rightarrow> string option \<Rightarrow> string option \<Rightarrow> string option" where
  "precedence envVar userValue dflt =
     (if truthy envVar then envVar else if truthy userValue then userValue else dflt)"

text \<open>Every descriptor in \<open>config.clients\<close> and in the public runtime config has a truthy host.\<close>

definition hostsSet :: "SetupResult \<Rightarrow> bool" where
  "hostsSet r = ((\<forall>c\<in>snd ` set (clients r). truthy (host c))
                 \<and> (\<forall>c\<in>snd ` set (publicClients r). truthy (host c)))"

section \<open>Document discovery (module.ts, \<open>allowDocument\<close> and \<open>generateGqlTypes\<close>)\<close>













section \<open>Code generation config (generate.ts, \<open>prepareConfig\<close>)\<close>

text \<open>
  One element of the \<open>schema\<close> array: a string (\<open>v.schema\<close> or \<open>v.host\<close>, which may be
  \<open>undefined\<close>), or \<open>{ [v.host]: { headers } }\<close>.
\<close>

datatype SchemaEntry =
    SchemaStr "string option"
  | SchemaWithHeaders string Headers

text \<open>A value of the headers object is truthy unless it is the empty string.\<close>

fun hval_truthy :: "hval \<Rightarrow> bool" where
  "hval_truthy (HStr s) = (s \<noteq> [])"
| "hval_truthy (HObj kvs) = True"

text \<open>\<open>typeof v?.headers?.serverOnly === 'object' && v?.headers?.serverOnly\<close>, to be spread.\<close>

definition serverHeaders :: "Headers option \<Rightarrow> Headers" where
  "serverHeaders hs =
     (case hs of
        None \<Rightarrow> []
      | Some h \<Rightarrow>
          (case map_of h ''serverOnly'' of
             Some (HObj so) \<Rightarrow> map (\<lambda>(n, x). (n, HStr x)) so
           | _ \<Rightarrow> []))"

text \<open>\<open>if (v?.headers?.serverOnly) { delete v.headers.serverOnly }\<close>: the client afterwards.\<close>

definition deleteServerOnly :: "GqlClient \<Rightarrow> GqlClient" where
  "deleteServerOnly v =
     (case headers v of
        None \<Rightarrow> v
      | Some h \<Rightarrow>
          (case map_of h ''serverOnly'' of
             None \<Rightarrow> v
           | Some x \<Rightarrow>
               if hval_truthy x then v\<lparr> headers := Some (delete_key ''serverOnly'' h) \<rparr> else v))"

text \<open>\<open>v?.token?.value && `${v?.token?.type} ${v?.token?.value}`.trim()\<close>\<close>

definition authValue :: "string option \<Rightarrow> string \<Rightarrow> string" where
  "authValue type' val = trim (js_str type' @ '' '' @ val)"

definition tokenHeader :: "GqlClient \<Rightarrow> string option" where
  "tokenHeader v =
     (case tokenValue v of
        None \<Rightarrow> None
      | Some val \<Rightarrow> if val = [] then None else Some (authValue (tokenType v) val))"

text \<open>\<open>...(token && { [v.token.name]: token })\<close> spread over \<open>headers\<close>.\<close>

definition withToken :: "GqlClient \<Rightarrow> Headers \<Rightarrow> Headers" where
  "withToken v hs =
     (if truthy (tokenHeader v)
      then spread hs [(js_str (tokenName v), HStr (js_str (tokenHeader v)))]
      else hs)"

text \<open>
  The callback of \<open>Object.values(options.clients).map\<close>: the element it returns and the
  client as the callback leaves it.
\<close>

definition prepareClient :: "GqlClient \<Rightarrow> SchemaEntry \<times> GqlClient" where
  "prepareClient v =
     (case (if truthy (schema v) then schema v else None) of
        Some s \<Rightarrow> (SchemaStr (Some s), v)
      | None \<Rightarrow>
          if \<not> truthy (tokenValue v) \<and> headers v = None then (SchemaStr (host v), v)
          else
            let serverHeaders' = serverHeaders (headers v);
                v' = deleteServerOnly v;
                headers' = (case headers v' of None \<Rightarrow> [] | Some h \<Rightarrow> spread h serverHeaders')
            in (SchemaWithHeaders (js_str (host v)) (withToken v headers'), v'))"

text \<open>
  \<open>prepareConfig\<close>: the \<open>schema\<close> member of the config it returns, and \<open>options.clients\<close>
  as the call leaves it. The other members (\<open>silent\<close>, \<open>documents\<close>, \<open>generates\<close>) are
  copied from \<open>options\<close> and constants.
\<close>

definition prepareConfig ::
  "(string \<times> GqlClient) list \<Rightarrow> SchemaEntry list \<times> (string \<times> GqlClient) list" where
  "prepareConfig cs =
     (map (\<lambda>(k, v). fst (prepareClient v)) cs, map (\<lambda>(k, v). (k, snd (prepareClient v))) cs)"

section \<open>Code generation config with stitching (the second \<open>generate.ts\<close>)\<close>

text \<open>\<open>StitchOptions\<close>, and \<open>stitchSchemas?: boolean | StitchOptions\<close>.\<close>

record StitchOptions =
  mergeTypes :: "bool option"
  prefixTypes :: "bool option"
  prefixFields :: "bool option"

datatype StitchCfg = StitchBool bool | StitchObj StitchOptions

text \<open>\<open>!options.stitchSchemas\<close>\<close>

definition stitchOff :: "StitchCfg option \<Rightarrow> bool" where
  "stitchOff c = (case c of None \<Rightarrow> True | Some (StitchBool b) \<Rightarrow> \<not> b | Some (StitchObj so) \<Rightarrow> False)"

text \<open>
  \<open>defu({}, options.stitchSchemas, { mergeTypes: true })\<close>: the members of the user's
  object, \<open>mergeTypes\<close> filled in with \<open>true\<close> when it is missing; \<open>true\<close> itself has no
  members.
\<close>

definition stitchOptions :: "StitchCfg \<Rightarrow> StitchOptions" where
  "stitchOptions c =
     (case c of
        StitchBool b \<Rightarrow> \<lparr> mergeTypes = Some True, prefixTypes = None, prefixFields = None \<rparr>
      | StitchObj so \<Rightarrow>
          so\<lparr> mergeTypes := (case mergeTypes so of None \<Rightarrow> Some True | Some b \<Rightarrow> Some b) \<rparr>)"

text \<open>
  A value of the record handed to \<open>prepareSchemas\<close>:
  \<open>string | { host: string, headers: Record<string, string> }\<close>.
\<close>

datatype StitchSrc = SrcStr "string option" | SrcObj "string option" Headers

text \<open>
  The callback of the \<open>reduce\<close>, before it is added to \<open>acc\<close>: what the client
  contributes and the client as the callback leaves it. \<open>resolve\<close> is
  \<open>options.resolver.resolve\<close>.
\<close>

definition stitchSource :: "(string \<Rightarrow> string) \<Rightarrow> GqlClient \<Rightarrow> StitchSrc \<times> GqlClient" where
  "stitchSource resolve v =
     (case (if truthy (schema v) then schema v else None) of
        Some s \<Rightarrow> (SrcStr (Some (resolve s)), v\<lparr> schema := Some (resolve s) \<rparr>)
      | None \<Rightarrow>
          if \<not> truthy (tokenValue v) \<and> headers v = None then (SrcStr (host v), v)
          else
            let serverHeaders' = serverHeaders (headers v);
                v' = deleteServerOnly v;
                headers' = (case headers v' of None \<Rightarrow> [] | Some h \<Rightarrow> spread h serverHeaders')
            in (SrcObj (host v) (withToken v headers'), v'))"

text \<open>An element of the array that is built when stitching is off.\<close>

fun asEntry :: "StitchSrc \<Rightarrow> SchemaEntry" where
  "asEntry (SrcStr s) = SchemaStr s"
| "asEntry (SrcObj h hs) = SchemaWithHeaders (js_str h) hs"

datatype SchemaSpec = SchemaList "SchemaEntry list" | SchemaMap "(string \<times> StitchSrc) list"

text \<open>The \<open>reduce\<close> over \<open>Object.entries(options.clients)\<close>, the clients threaded through.\<close>

fun reduceClients ::
  "(string \<Rightarrow> string) \<Rightarrow> (string \<times> GqlClient) list \<Rightarrow> SchemaSpec
     \<Rightarrow> SchemaSpec \<times> (string \<times> GqlClient) list" where
  "reduceClients resolve [] acc = (acc, [])"
| "reduceClients resolve ((k, v) # rest) acc =
     (let (src, v') = stitchSource resolve v;
          acc' = (case acc of
                    SchemaList xs \<Rightarrow> SchemaList (xs @ [asEntry src])
                  | SchemaMap m \<Rightarrow> SchemaMap (set_key k src m));
          (final, rest') = reduceClients resolve rest acc'
      in (final, (k, v') # rest'))"

section \<open>Schema stitching (\<open>prepareSchemas\<close>)\<close>

text \<open>\<open>/^(https?:)?\/\//.test(host)\<close>\<close>

definition isRemote :: "string \<Rightarrow> bool" where
  "isRemote h = (prefix ''http://'' h \<or> prefix ''https://'' h \<or> prefix ''//'' h)"

text \<open>
  Modelled from the spec: the schema values of the \<open>graphql\<close> and \<open>graphql-tools\<close>
  packages, which are not part of the repository. A schema is kept as the names it
  declares: its type names and the field names of its root types.
\<close>

record GraphQLSchema =
  typeNames :: "string list"
  rootFields :: "string list"

text \<open>The renaming callbacks: \<open>name => `${k}_${name}`\<close> and \<open>(_, fieldName) => `${k}_${fieldName}`\<close>.\<close>

definition prefixed :: "string \<Rightarrow> string \<Rightarrow> string" where
  "prefixed k name = k @ ''_'' @ name"

datatype Transform = RenameTypes "string \<Rightarrow> string" | RenameRootFields "string \<Rightarrow> string"

definition transforms :: "StitchOptions option \<Rightarrow> string \<Rightarrow> Transform list" where
  "transforms options k =
     (case options of
        None \<Rightarrow> []
      | Some so \<Rightarrow>
          (if prefixTypes so = Some True then [RenameTypes (prefixed k)] else [])
          @ (if prefixFields so = Some True then [RenameRootFields (prefixed k)] else []))"

text \<open>
  Modelled from the spec: the transforms \<open>RenameTypes\<close> and \<open>RenameRootFields\<close> of
  \<open>graphql-tools\<close>, not part of the repository; section 4.3: "Apply optional type-name and
  root-field-name prefixing per client". Each transform renames the names of its kind
  with its callback.
\<close>

fun applyTransform :: "Transform \<Rightarrow> GraphQLSchema \<Rightarrow> GraphQLSchema" where
  "applyTransform (RenameTypes f) s = s\<lparr> typeNames := map f (typeNames s) \<rparr>"
| "applyTransform (RenameRootFields f) s = s\<lparr> rootFields := map f (rootFields s) \<rparr>"

text \<open>
  Modelled from the spec: \<open>wrapSchema({ schema, transforms })\<close> of \<open>graphql-tools\<close>, not part
  of the repository; section 4.3, as above. The transforms are applied in their order.
\<close>

definition wrapSchema :: "GraphQLSchema \<Rightarrow> Transform list \<Rightarrow> GraphQLSchema" where
  "wrapSchema s ts = fold applyTransform ts s"

text \<open>
  Modelled from the spec: \<open>stitchSchemas({ subschemas, mergeTypes })\<close> of \<open>graphql-tools\<close>, not
  part of the repository; section 4.3: "merging all client schemas into one unified
  schema". The unified schema declares every name of every subschema, each name once.
\<close>

definition stitchSchemas :: "GraphQLSchema list \<Rightarrow> GraphQLSchema" where
  "stitchSchemas subschemas =
     \<lparr> typeNames = remdups (concat (map typeNames subschemas)),
       rootFields = remdups (concat (map rootFields subschemas)) \<rparr>"

text \<open>
  Modelled from the spec: \<open>printSchema\<close> of \<open>graphql\<close>, not part of the repository;
  section 4.3: "serialize that unified schema back to its textual representation". The
  text is kept as the names it declares.
\<close>

definition printSchema :: "GraphQLSchema \<Rightarrow> GraphQLSchema" where
  "printSchema s = s"

datatype GenerateError = LocalSchemaError string | IntrospectionError string

text \<open>\<open>'Unable to load local schema file: ' + v\<close>: a string as it is, an object as JavaScript prints it.\<close>

fun showSrc :: "StitchSrc \<Rightarrow> string" where
  "showSrc (SrcStr s) = js_str s"
| "showSrc (SrcObj h hs) = ''[object Object]''"

text \<open>
  The body of the loop of \<open>prepareSchemas\<close>. \<open>introspect host headers\<close> is the schema that
  \<open>introspectSchema\<close> obtains through the executor for \<open>host\<close> and \<open>headers\<close>, \<open>loadSchema v\<close>
  the schema that \<open>loadSchema(v, ...)\<close> resolves to; \<open>None\<close> when the promise rejects.
\<close>

definition clientSchema ::
  "(string \<Rightarrow> Headers \<Rightarrow> GraphQLSchema option) \<Rightarrow> (StitchSrc \<Rightarrow> GraphQLSchema option)
     \<Rightarrow> StitchOptions option \<Rightarrow> string \<Rightarrow> StitchSrc \<Rightarrow> GenerateError + GraphQLSchema" where
  "clientSchema introspect loadSchema options k v =
     (let host' = js_str (case v of SrcStr s \<Rightarrow> s | SrcObj h hs \<Rightarrow> h);
          headers' = (case v of SrcStr s \<Rightarrow> [] | SrcObj h hs \<Rightarrow> hs)
      in if isRemote host'
         then (case introspect host' headers' of
                 None \<Rightarrow> Inl (IntrospectionError host')
               | Some s \<Rightarrow> Inr (wrapSchema s (transforms options k)))
         else (case loadSchema v of
                 None \<Rightarrow> Inl (LocalSchemaError (''Unable to load local schema file: '' @ showSrc v))
               | Some s \<Rightarrow> Inr (wrapSchema s (transforms options k))))"

text \<open>
  The schema of a client before its transforms are applied: the introspected schema of
  a remote host, the loaded file of any other source.
\<close>

definition sourceSchema ::
  "(string \<Rightarrow> Headers \<Rightarrow> GraphQLSchema option) \<Rightarrow> (StitchSrc \<Rightarrow> GraphQLSchema option)
     \<Rightarrow> StitchSrc \<Rightarrow> GraphQLSchema option" where
  "sourceSchema introspect loadSchema v =
     (let host' = js_str (case v of SrcStr s \<Rightarrow> s | SrcObj h hs \<Rightarrow> h);
          headers' = (case v of SrcStr s \<Rightarrow> [] | SrcObj h hs \<Rightarrow> hs)
      in if isRemote host' then introspect host' headers' else loadSchema v)"

fun subschemasOf ::
  "(string \<Rightarrow> Headers \<Rightarrow> GraphQLSchema option) \<Rightarrow> (StitchSrc \<Rightarrow> GraphQLSchema option)
     \<Rightarrow> StitchOptions option \<Rightarrow> (string \<times> StitchSrc) list \<Rightarrow> GraphQLSchema list
     \<Rightarrow> GenerateError + GraphQLSchema list" where
  "subschemasOf introspect loadSchema options [] subschemas = Inr subschemas"
| "subschemasOf introspect loadSchema options ((k, v) # rest) subschemas =
     (case clientSchema introspect loadSchema options k v of
        Inl e \<Rightarrow> Inl e
      | Inr s \<Rightarrow> subschemasOf introspect loadSchema options rest (subschemas @ [s]))"

definition prepareSchemas ::
  "(string \<Rightarrow> Headers \<Rightarrow> GraphQLSchema option) \<Rightarrow> (StitchSrc \<Rightarrow> GraphQLSchema option)
     \<Rightarrow> (string \<times> StitchSrc) list \<Rightarrow> StitchOptions option \<Rightarrow> GenerateError + GraphQLSchema" where
  "prepareSchemas introspect loadSchema schemas options =
     (case subschemasOf introspect loadSchema options schemas [] of
        Inl e \<Rightarrow> Inl e
      | Inr subschemas \<Rightarrow> Inr (printSchema (stitchSchemas subschemas)))"

text \<open>
  The \<open>schema\<close> member of the config: the array as it is, or the text of the stitched
  schema.
\<close>

datatype ConfigSchema = Pointers "SchemaEntry list" | Stitched GraphQLSchema

text \<open>
  \<open>prepareConfig\<close> of the stitching version: the \<open>schema\<close> member of the config it
  returns, and \<open>options.clients\<close> as the call leaves it (a failed call has already
  changed the clients; the error is what the caller sees).
\<close>

definition prepareConfigStitch ::
  "(string \<Rightarrow> string) \<Rightarrow> (string \<Rightarrow> Headers \<Rightarrow> GraphQLSchema option)
     \<Rightarrow> (StitchSrc \<Rightarrow> GraphQLSchema option) \<Rightarrow> StitchCfg option \<Rightarrow> (string \<times> GqlClient) list
     \<Rightarrow> (GenerateError + ConfigSchema) \<times> (string \<times> GqlClient) list" where
  "prepareConfigStitch resolve introspect loadSchema stitch cs =
     (let (spec, cs') = reduceClients resolve cs
                          (if stitchOff stitch then SchemaList [] else SchemaMap [])
      in (case spec of
            SchemaList xs \<Rightarrow> Inr (Pointers xs)
          | SchemaMap m \<Rightarrow>
              (case prepareSchemas introspect loadSchema m (map_option stitchOptions stitch) of
                 Inl e \<Rightarrow> Inl e
               | Inr printed \<Rightarrow> Inr (Stitched printed)),
          cs'))"

section \<open>Runtime state (the composables)\<close>

text \<open>
  \<open>state.value[client].instance\<close>: the transport instance of a client, with the request
  headers it holds, each a value or \<open>undefined\<close>. \<open>ident\<close> tells one instance from
  another.
\<close>

record 'i GqlInstance =
  ident :: 'i
  requestHeaders :: "(string \<times> hval option) list"

type_synonym 'i GqlState = "string \<rightharpoonup> 'i GqlInstance"

text \<open>
  A \<open>TypeError\<close>: reading a member of \<open>undefined\<close> (the client that the state does not
  have), or \<open>Object.keys\<close> of \<open>null\<close> or \<open>undefined\<close>.
\<close>

datatype RuntimeError = TypeError string | KeysOfNull

text \<open>
  The \<open>headers\<close> member of a patch \<open>{ headers }\<close>: \<open>null\<close> or \<open>undefined\<close>, a string
  where a record is expected, or a record whose values may be \<open>undefined\<close>.
\<close>

datatype PatchHeaders =
    PatchNull
  | PatchText string
  | PatchRecord "(string \<times> hval option) list"

text \<open>
  \<open>setGqlState({ client = 'default', patch })\<close>: the default stands in for \<open>undefined\<close>
  only; reading \<open>instance\<close> of a client the state does not have throws.
  \<open>instance.setOptions(patch)\<close> belongs to the transport client, which is not part of the
  repository: it is the parameter \<open>setOptions\<close>, from the headers of the patch and the
  instance to the instance afterwards.
\<close>

definition setGqlState ::
  "(PatchHeaders \<Rightarrow> 'i GqlInstance \<Rightarrow> 'i GqlInstance) \<Rightarrow> string option \<Rightarrow> PatchHeaders
     \<Rightarrow> 'i GqlState \<Rightarrow> RuntimeError + 'i GqlState" where
  "setGqlState setOptions c patch state =
     (let c' = (case c of None \<Rightarrow> ''default'' | Some n \<Rightarrow> n)
      in case state c' of
           None \<Rightarrow> Inl (TypeError c')
         | Some inst \<Rightarrow> Inr (state(c' \<mapsto> setOptions patch inst)))"

text \<open>
  One transport that \<open>setOptions\<close> can stand for: it assigns the headers of the patch
  over its own, key by key (\<open>Object.assign(headers, patch.headers)\<close>), and a patch whose
  headers are no record changes nothing.
\<close>

definition assignHeaders :: "PatchHeaders \<Rightarrow> 'i GqlInstance \<Rightarrow> 'i GqlInstance" where
  "assignHeaders patch inst =
     (case patch of
        PatchRecord kvs \<Rightarrow> inst\<lparr> requestHeaders := spread (requestHeaders inst) kvs \<rparr>
      | _ \<Rightarrow> inst)"

text \<open>
  The arguments of \<open>useGqlHeaders\<close>: \<open>args[0]\<close> is \<open>null\<close> or \<open>undefined\<close>, a record of
  headers, or the object \<open>{ headers, client?, respectDefaults? }\<close> (an object with the key
  \<open>headers\<close>, whose value may be \<open>null\<close>); \<open>args[1]\<close> is a client name or \<open>undefined\<close>.
\<close>

record GqlHeadersOptions =
  hopt_headers :: "(string \<times> string) list option"
  hopt_client :: "string option"
  hopt_respectDefaults :: "bool option"

datatype HeadersArgs =
    HeadersNull "string option"
  | HeadersRecord "(string \<times> string) list" "string option"
  | HeadersOpts GqlHeadersOptions "string option"

text \<open>\<open>args[1] || args?.[0]?.client\<close>\<close>

fun headersClient :: "HeadersArgs \<Rightarrow> string option" where
  "headersClient (HeadersNull c) = js_or c None"
| "headersClient (HeadersRecord hs c) = js_or c (map_of hs ''client'')"
| "headersClient (HeadersOpts os c) = js_or c (hopt_client os)"

text \<open>
  \<open>(args[0] && 'headers' in args[0]) ? args[0].headers : args[0]\<close>: a record of headers
  that has a header named \<open>headers\<close> is read as the options object.
\<close>

fun headersArg :: "HeadersArgs \<Rightarrow> PatchHeaders" where
  "headersArg (HeadersNull c) = PatchNull"
| "headersArg (HeadersRecord hs c) =
     (case map_of hs ''headers'' of
        Some s \<Rightarrow> PatchText s
      | None \<Rightarrow> PatchRecord (map (\<lambda>(n, x). (n, Some (HStr x))) hs))"
| "headersArg (HeadersOpts os c) =
     (case hopt_headers os of
        None \<Rightarrow> PatchNull
      | Some hs \<Rightarrow> PatchRecord (map (\<lambda>(n, x). (n, Some (HStr x))) hs))"

text \<open>\<open>args?.[0]?.respectDefaults\<close>, as a condition.\<close>

fun respectDefaultsArg :: "HeadersArgs \<Rightarrow> bool" where
  "respectDefaultsArg (HeadersNull c) = False"
| "respectDefaultsArg (HeadersRecord hs c) = truthy (map_of hs ''respectDefaults'')"
| "respectDefaultsArg (HeadersOpts os c) = (hopt_respectDefaults os = Some True)"

text \<open>\<open>Object.keys(headers).length\<close>; \<open>Object.keys\<close> throws on \<open>null\<close> and \<open>undefined\<close>.\<close>

fun keysLength :: "PatchHeaders \<Rightarrow> nat option" where
  "keysLength PatchNull = None"
| "keysLength (PatchText s) = Some (length s)"
| "keysLength (PatchRecord kvs) = Some (length kvs)"

text \<open>
  \<open>useGqlHeaders\<close>: the state afterwards and the clients of the public runtime config
  afterwards; \<open>clientHeaders\<close> is the \<open>headers\<close> object of that config itself, and the
  \<open>delete\<close> acts on it. \<open>isServer\<close> is \<open>process.server\<close>.
\<close>

definition useGqlHeaders ::
  "(PatchHeaders \<Rightarrow> 'i GqlInstance \<Rightarrow> 'i GqlInstance) \<Rightarrow> bool \<Rightarrow> (string \<times> GqlClient) list
     \<Rightarrow> HeadersArgs \<Rightarrow> 'i GqlState
     \<Rightarrow> RuntimeError + ('i GqlState \<times> (string \<times> GqlClient) list)" where
  "useGqlHeaders setOptions isServer publicConfig args state =
     (let client' = headersClient args;
          headers' = headersArg args
      in case setGqlState setOptions client' headers' state of
           Inl e \<Rightarrow> Inl e
         | Inr state1 \<Rightarrow>
             if \<not> respectDefaultsArg args then Inr (state1, publicConfig)
             else
               (case keysLength headers' of
                  None \<Rightarrow> Inl KeysOfNull
                | Some n \<Rightarrow>
                    if n \<noteq> 0 then Inr (state1, publicConfig)
                    else
                      let k = js_str (js_or client' (Some ''default''));
                          clientConfig = map_of publicConfig k;
                          clientHeaders = (case clientConfig of None \<Rightarrow> None | Some c \<Rightarrow> headers c);
                          serverHeaders' = (if isServer then serverHeaders clientHeaders else []);
                          publicConfig' =
                            (case clientConfig of
                               None \<Rightarrow> publicConfig
                             | Some c \<Rightarrow> set_key k (deleteServerOnly c) publicConfig);
                          clientHeaders' =
                            (case clientConfig of
                               None \<Rightarrow> []
                             | Some c \<Rightarrow> (case headers (deleteServerOnly c) of None \<Rightarrow> [] | Some h \<Rightarrow> h))
                      in case setGqlState setOptions client'
                                (PatchRecord (map (\<lambda>(n, x). (n, Some x))
                                                (spread clientHeaders' serverHeaders'))) state1 of
                           Inl e \<Rightarrow> Inl e
                         | Inr state2 \<Rightarrow> Inr (state2, publicConfig')))"

text \<open>\<open>GqlTokenConfig\<close>, \<open>GqlTokenOptions\<close> (with the \<open>token\<close> of the second overload).\<close>

record GqlTokenConfig =
  cfg_name :: "string option"
  cfg_type :: "string option"

record GqlTokenOptions =
  opt_token :: "string option"
  opt_config :: "GqlTokenConfig option"
  opt_client :: "string option"

text \<open>The two overloads: \<open>useGqlToken(token, opts?)\<close> and \<open>useGqlToken(opts)\<close>.\<close>

datatype TokenArgs = Positional "string option" "GqlTokenOptions option" | Named GqlTokenOptions

text \<open>\<open>typeof args[0] === 'string' ? args[0] : args?.[0]?.token\<close>\<close>

fun tokenArg :: "TokenArgs \<Rightarrow> string option" where
  "tokenArg (Positional t opts) = t"
| "tokenArg (Named opts) = opt_token opts"

text \<open>\<open>args[0]?.client || args?.[1]?.client\<close>\<close>

fun clientArg :: "TokenArgs \<Rightarrow> string option" where
  "clientArg (Positional t opts) = js_or None (case opts of None \<Rightarrow> None | Some os \<Rightarrow> opt_client os)"
| "clientArg (Named opts) = js_or (opt_client opts) None"

text \<open>\<open>args[0]?.config || args?.[1]?.config\<close>\<close>

fun configArg :: "TokenArgs \<Rightarrow> GqlTokenConfig option" where
  "configArg (Positional t opts) = (case opts of None \<Rightarrow> None | Some os \<Rightarrow> opt_config os)"
| "configArg (Named opts) = opt_config opts"

text \<open>
  \<open>{ ...DEFAULT_AUTH, ...(clientConfig?.token?.name && { name }),
  ...(clientConfig?.token?.type !== undefined && { type }), ...config }\<close>: its \<open>name\<close> and its
  \<open>type\<close>. \<open>clientConfig\<close> is the client of the public runtime config.
\<close>

definition authName :: "GqlClient option \<Rightarrow> GqlTokenConfig option \<Rightarrow> string" where
  "authName clientConfig config =
     (case (case config of None \<Rightarrow> None | Some c \<Rightarrow> cfg_name c) of
        Some n \<Rightarrow> n
      | None \<Rightarrow>
          (case (case clientConfig of None \<Rightarrow> None | Some c \<Rightarrow> tokenName c) of
             Some n \<Rightarrow> if n = [] then ''Authorization'' else n
           | None \<Rightarrow> ''Authorization''))"

definition authType :: "GqlClient option \<Rightarrow> GqlTokenConfig option \<Rightarrow> string" where
  "authType clientConfig config =
     (case (case config of None \<Rightarrow> None | Some c \<Rightarrow> cfg_type c) of
        Some t \<Rightarrow> t
      | None \<Rightarrow>
          (case (case clientConfig of None \<Rightarrow> None | Some c \<Rightarrow> tokenType c) of
             Some t \<Rightarrow> t
           | None \<Rightarrow> ''Bearer''))"

text \<open>
  The \<open>headers\<close> of the patch:
  \<open>{ [config.name]: !token ? undefined : `${config.type} ${token}`.trim() }\<close>
\<close>

definition tokenPatch ::
  "(string \<times> GqlClient) list \<Rightarrow> TokenArgs \<Rightarrow> (string \<times> hval option) list" where
  "tokenPatch publicConfig args =
     (let token' = tokenArg args;
          clientConfig = map_of publicConfig (js_str (js_or (clientArg args) (Some ''default'')));
          name = authName clientConfig (configArg args);
          type' = authType clientConfig (configArg args)
      in [(name, case token' of
                   None \<Rightarrow> None
                 | Some t \<Rightarrow> if t = [] then None else Some (HStr (authValue (Some type') t)))])"

text \<open>\<open>useGqlToken\<close>: the state afterwards.\<close>

definition useGqlToken ::
  "(PatchHeaders \<Rightarrow> 'i GqlInstance \<Rightarrow> 'i GqlInstance) \<Rightarrow> (string \<times> GqlClient) list \<Rightarrow> TokenArgs
     \<Rightarrow> 'i GqlState \<Rightarrow> RuntimeError + 'i GqlState" where
  "useGqlToken setOptions publicConfig args state =
     setGqlState setOptions (clientArg args) (PatchRecord (tokenPatch publicConfig args)) state"

subsection \<open>The error slot (\<open>useGql\<close>, \<open>useGqlError\<close>)\<close>

text \<open>\<open>GqlError\<close>\<close>

record ('op, 'e) GqlError =
  client :: string
  status :: "nat option"
  operation :: 'op
  gqlErrors :: "'e list"

text \<open>
  What \<open>state.value.onError\<close> can hold: the handler of the caller, or the function that
  prints to the console.
\<close>

datatype 'h Handler = UserHandler 'h | ConsoleError

text \<open>
  \<open>state.value.onError\<close>, the slot \<open>useState('_gqlErrors')\<close>, and the calls of handlers
  made so far, oldest first.
\<close>

record ('h, 'op, 'e) ErrorState =
  onError :: "'h Handler option"
  errState :: "('op, 'e) GqlError option"
  calls :: "('h Handler \<times> ('op, 'e) GqlError) list"

text \<open>
  A failing response as the middleware reads it: \<open>response?.status\<close>,
  \<open>response?._data?.errors\<close> when it is an array, \<open>response?._data\<close>, and the \<open>query\<close> member
  of the request body, which the transport wrote as JSON.
\<close>

record 'e FailedResponse =
  resp_status :: "nat option"
  resp_errors :: "'e list option"
  resp_data :: 'e
  req_query :: "string option"

text \<open>The error that \<open>onResponseError\<close> captures.\<close>

definition capturedError ::
  "(string \<Rightarrow> 'op) \<Rightarrow> string \<Rightarrow> 'e FailedResponse \<Rightarrow> ('op, 'e) GqlError" where
  "capturedError extractOperation c r =
     \<lparr> client = c,
       status = resp_status r,
       operation = extractOperation (case js_or (req_query r) None of None \<Rightarrow> [] | Some q \<Rightarrow> q),
       gqlErrors = (case resp_errors r of Some es \<Rightarrow> es | None \<Rightarrow> [resp_data r]) \<rparr>"

text \<open>\<open>onResponseError\<close> of the middleware that \<open>handle(client)\<close> installs.\<close>

definition onResponseError ::
  "(string \<Rightarrow> 'op) \<Rightarrow> string \<Rightarrow> 'e FailedResponse \<Rightarrow> ('h, 'op, 'e) ErrorState
     \<Rightarrow> ('h, 'op, 'e) ErrorState" where
  "onResponseError extractOperation c r st =
     (let st1 = st\<lparr> errState := Some (capturedError extractOperation c r) \<rparr>
      in case onError st1 of
           None \<Rightarrow> st1
         | Some h \<Rightarrow> st1\<lparr> calls := calls st1 @ [(h, capturedError extractOperation c r)] \<rparr>)"

text \<open>
  \<open>useGqlError(onError)\<close>. \<open>isClient\<close> is \<open>process.client\<close>, \<open>production\<close> is
  \<open>process.env.NODE_ENV === 'production'\<close>.
\<close>

definition useGqlError ::
  "bool \<Rightarrow> bool \<Rightarrow> 'h \<Rightarrow> ('h, 'op, 'e) ErrorState \<Rightarrow> ('h, 'op, 'e) ErrorState" where
  "useGqlError isClient production handler st =
     (let st1 = st\<lparr> onError := (if isClient then Some (UserHandler handler)
                                else if \<not> production then Some ConsoleError else None) \<rparr>
      in case errState st1 of
           None \<Rightarrow> st1
         | Some e \<Rightarrow> st1\<lparr> calls := calls st1 @ [(UserHandler handler, e)] \<rparr>)"

subsection \<open>Dispatch (\<open>useAsyncGql\<close>)\<close>

text \<open>
  \<open>Object.keys(GqlOperations).find(k => GqlOperations[k].includes(operation)) ?? 'default'\<close>.
  \<open>GqlOperations\<close> is the generated record from client names to operation names, in key order.
\<close>

definition operationClient :: "(string \<times> string list) list \<Rightarrow> string \<Rightarrow> string" where
  "operationClient gqlOperations op =
     (case List.find (\<lambda>(k, names). op \<in> set names) gqlOperations of
        None \<Rightarrow> ''default''
      | Some (k, names) \<Rightarrow> k)"

text \<open>
  \<open>handle(client)\<close>: \<open>client = client || 'default'\<close>, then the instance of that client;
  destructuring a client the state does not have throws.
\<close>

definition handle :: "'i GqlState \<Rightarrow> string option \<Rightarrow> RuntimeError + 'i GqlInstance" where
  "handle state c =
     (let c' = js_str (js_or c (Some ''default''))
      in case state c' of None \<Rightarrow> Inl (TypeError c') | Some inst \<Rightarrow> Inr inst)"

text \<open>
  \<open>useAsyncGql\<close>: the instance on which the operation is invoked,
  \<open>GqlInstance().handle(client)[operation](variables)\<close>.
\<close>

definition useAsyncGql ::
  "(string \<times> string list) list \<Rightarrow> 'i GqlState \<Rightarrow> string \<Rightarrow> RuntimeError + 'i GqlInstance" where
  "useAsyncGql gqlOperations state op = handle state (Some (operationClient gqlOperations op))"

section \<open>Association lists\<close>

lemma map_of_set_key: "map_of (set_key k v kvs) = (map_of kvs)(k \<mapsto> v)"
  by (induction kvs) (auto simp: fun_eq_iff)

lemma map_of_delete_key: "map_of (delete_key k kvs) = (map_of kvs)(k := None)"
  by (induction kvs) (auto simp: delete_key_def fun_eq_iff)

section \<open>Document discovery\<close>


















section \<open>Configuration resolution\<close>

lemma resolveClient_host_truthy:
  "resolveClient upper resolve existsSync env k v = Inr conf \<Longrightarrow> truthy (host conf)"
  by (auto simp: resolveClient_def Let_def split: if_splits)

lemma resolveClient_missing:
  "\<not> hostFound upper env k v \<Longrightarrow>
     resolveClient upper resolve existsSync env k v = Inl (ClientMissingHost k)"
  by (simp add: resolveClient_def hostFound_def Let_def)

lemma resolveClient_found:
  "hostFound upper env k v \<Longrightarrow> \<exists>conf. resolveClient upper resolve existsSync env k v = Inr conf"
  by (simp add: resolveClient_def hostFound_def Let_def)

lemma setupClients_first_missing:
  assumes "\<forall>(k', v')\<in>set pre. hostFound upper env k' v'"
    and "\<not> hostFound upper env k v"
  shows "setupClients upper resolve existsSync env (pre @ (k, v) # post) r = Inl (ClientMissingHost k)"
  using assms
proof (induction pre arbitrary: r)
  case Nil
  then show ?case by (simp add: resolveClient_missing)
next
  case (Cons a pre)
  obtain k' v' where a: "a = (k', v')" by (cases a)
  with Cons.prems have "hostFound upper env k' v'" by simp
  then obtain conf where "resolveClient upper resolve existsSync env k' v' = Inr conf"
    using resolveClient_found by blast
  with Cons a show ?case by simp
qed

lemma setupClients_missing:
  assumes "(k, v) \<in> set cs" and "\<not> hostFound upper env k v"
  shows "\<exists>k' v'. (k', v') \<in> set cs \<and> \<not> hostFound upper env k' v'
           \<and> setupClients upper resolve existsSync env cs r = Inl (ClientMissingHost k')"
  using assms
proof (induction cs arbitrary: r)
  case Nil
  then show ?case by simp
next
  case (Cons a cs)
  obtain k0 v0 where a: "a = (k0, v0)" by (cases a)
  show ?case
  proof (cases "hostFound upper env k0 v0")
    case False
    then show ?thesis
      using a by (auto simp: resolveClient_missing)
  next
    case True
    then obtain conf where conf: "resolveClient upper resolve existsSync env k0 v0 = Inr conf"
      using resolveClient_found by blast
    from True Cons.prems a have "(k, v) \<in> set cs" by auto
    from Cons.IH [OF this Cons.prems(2), of "storeClient k0 v0 conf r"]
    show ?thesis using a conf by auto
  qed
qed

lemma set_set_key: "set (set_key k v kvs) \<subseteq> insert (k, v) (set kvs)"
  by (induction kvs) (auto split: if_splits)

lemma host_dropTokenValue: "host (dropTokenValue c) = host c"
  by (simp add: dropTokenValue_def)

lemma set_key_hosts:
  "\<forall>c'\<in>snd ` set (set_key k c kvs). truthy (host c')"
  if "truthy (host c)" and "\<forall>c'\<in>snd ` set kvs. truthy (host c')"
proof
  fix c' assume "c' \<in> snd ` set (set_key k c kvs)"
  then obtain k' where "(k', c') \<in> set (set_key k c kvs)" by auto
  with set_set_key [of k c kvs] have "(k', c') = (k, c) \<or> (k', c') \<in> set kvs" by blast
  then show "truthy (host c')"
  proof
    assume "(k', c') = (k, c)"
    with that(1) show ?thesis by simp
  next
    assume "(k', c') \<in> set kvs"
    then have "c' \<in> snd ` set kvs" by force
    with that(2) show ?thesis by blast
  qed
qed

lemma storeClient_hosts:
  assumes "hostsSet r" and "truthy (host conf)"
  shows "hostsSet (storeClient k v conf r)"
proof -
  from assms have c: "\<forall>c'\<in>snd ` set (clients r). truthy (host c')"
    and p: "\<forall>c'\<in>snd ` set (publicClients r). truthy (host c')"
    by (simp_all add: hostsSet_def)
  note c1 = set_key_hosts [OF assms(2) c, of k]
  note p1 = set_key_hosts [OF assms(2) p, of k]
  have "truthy (host (dropTokenValue conf))" using assms(2) by (simp add: host_dropTokenValue)
  note p2 = set_key_hosts [OF this p1, of k]
  show ?thesis
    unfolding hostsSet_def storeClient_def Let_def deepmerge_def
    using c1 p1 p2 by simp
qed

lemma setupClients_hosts:
  "setupClients upper resolve existsSync env cs r = Inr out \<Longrightarrow> hostsSet r \<Longrightarrow> hostsSet out"
proof (induction cs arbitrary: r)
  case Nil
  then show ?case by simp
next
  case (Cons a cs)
  obtain k v where a: "a = (k, v)" by (cases a)
  from Cons.prems(1) a obtain conf where
    conf: "resolveClient upper resolve existsSync env k v = Inr conf"
    and rest: "setupClients upper resolve existsSync env cs (storeClient k v conf r) = Inr out"
    by (auto split: sum.splits)
  from conf have "truthy (host conf)" by (rule resolveClient_host_truthy)
  with Cons.prems(2) have "hostsSet (storeClient k v conf r)" by (rule storeClient_hosts)
  with Cons.IH rest show ?case by blast
qed

lemma implicitClients_hosts:
  "implicitClients env publicHost publicClientHost = Inr cs \<Longrightarrow> cs \<noteq> []"
  by (auto simp: implicitClients_def Let_def split: option.splits if_splits)

lemma implicitClients_missing:
  "\<not> truthy (js_or (env ''GQL_HOST'') publicHost) \<Longrightarrow>
     implicitClients env publicHost publicClientHost = Inl GqlHostNotSet"
  by (auto simp: implicitClients_def Let_def truthy_def split: option.splits)

lemma module_setup_hosts:
  assumes "module_setup upper resolve existsSync env publicHost publicClientHost cs = Inr out"
  shows "hostsSet out"
proof -
  from assms obtain cs' where
    "setupClients upper resolve existsSync env cs'
       \<lparr> clients = [], publicClients = [], privateClients = [], clientOps = [] \<rparr> = Inr out"
    by (auto simp: module_setup_def split: sum.splits if_splits)
  moreover have "hostsSet \<lparr> clients = [], publicClients = [], privateClients = [], clientOps = [] \<rparr>"
    by (simp add: hostsSet_def)
  ultimately show ?thesis by (rule setupClients_hosts)
qed

lemma clients_storeClient:
  "clients (storeClient k v conf r) = set_key k conf (clients r)"
  by (simp add: storeClient_def Let_def deepmerge_def)

lemma setupClients_other:
  "setupClients upper resolve existsSync env cs r = Inr out \<Longrightarrow> k \<notin> fst ` set cs \<Longrightarrow>
     map_of (clients out) k = map_of (clients r) k"
proof (induction cs arbitrary: r)
  case Nil
  then show ?case by simp
next
  case (Cons a cs)
  obtain k0 v0 where a: "a = (k0, v0)" by (cases a)
  from Cons.prems(1) a obtain conf where
    rest: "setupClients upper resolve existsSync env cs (storeClient k0 v0 conf r) = Inr out"
    by (auto split: sum.splits)
  from Cons.prems(2) a have "k \<noteq> k0" and "k \<notin> fst ` set cs" by auto
  with Cons.IH [OF rest] show ?case
    by (simp add: clients_storeClient map_of_set_key)
qed

lemma setupClients_lookup:
  "setupClients upper resolve existsSync env cs r = Inr out \<Longrightarrow> distinct (map fst cs) \<Longrightarrow>
   (k, v) \<in> set cs \<Longrightarrow>
     \<exists>conf. resolveClient upper resolve existsSync env k v = Inr conf
        \<and> map_of (clients out) k = Some conf"
proof (induction cs arbitrary: r)
  case Nil
  then show ?case by simp
next
  case (Cons a cs)
  obtain k0 v0 where a: "a = (k0, v0)" by (cases a)
  from Cons.prems(1) a obtain conf where
    conf: "resolveClient upper resolve existsSync env k0 v0 = Inr conf"
    and rest: "setupClients upper resolve existsSync env cs (storeClient k0 v0 conf r) = Inr out"
    by (auto split: sum.splits)
  from Cons.prems(2) a have fresh: "k0 \<notin> fst ` set cs" and dist: "distinct (map fst cs)"
    by auto
  show ?case
  proof (cases "(k, v) = (k0, v0)")
    case True
    from setupClients_other [OF rest fresh]
    have "map_of (clients out) k0 = Some conf"
      by (simp add: clients_storeClient map_of_set_key)
    with True conf show ?thesis by auto
  next
    case False
    with Cons.prems(3) a have "(k, v) \<in> set cs" by auto
    from Cons.IH [OF rest dist this] show ?thesis .
  qed
qed

lemma precedence_host: "truthy (js_or e u) \<Longrightarrow> js_or e u = precedence e u None"
  by (simp add: js_or_def precedence_def split: if_splits)

lemma precedence_value: "(if truthy (js_or e u) then js_or e u else None) = precedence e u None"
  by (simp add: js_or_def precedence_def)

lemma precedence_name:
  "(if truthy (js_or (js_or e u) (Some ''Authorization''))
    then js_or (js_or e u) (Some ''Authorization'') else None)
   = precedence e u (Some ''Authorization'')"
  by (simp add: js_or_def precedence_def truthy_def)

lemma precedence_truthy: "truthy (precedence e u None) = truthy (js_or e u)"
  by (simp add: js_or_def precedence_def truthy_def)

lemma userObject_clientHost: "clientHost (userObject v) = userClientHost v"
  by (cases v) (simp_all add: userObject_def userClientHost_def noClient_def)

lemma resolveClient_Inr:
  assumes "resolveClient upper resolve existsSync env k v = Inr conf"
  shows "truthy (js_or (env (envName upper k ''HOST'')) (userHost v))"
    and "host conf = js_or (env (envName upper k ''HOST'')) (userHost v)"
    and "clientHost conf =
           (if truthy (js_or (env (envName upper k ''CLIENT_HOST'')) (userClientHost v))
            then js_or (env (envName upper k ''CLIENT_HOST'')) (userClientHost v)
            else userClientHost v)"
    and "token conf = Some (TokObj
           \<lparr> tok_name = (if truthy (js_or (js_or (env (envName upper k ''TOKEN_NAME'')) (userTokenName v))
                                        (Some ''Authorization''))
                          then js_or (js_or (env (envName upper k ''TOKEN_NAME'')) (userTokenName v))
                                 (Some ''Authorization'')
                          else None),
             tok_value = (if truthy (js_or (env (envName upper k ''TOKEN'')) (userToken v))
                          then js_or (env (envName upper k ''TOKEN'')) (userToken v) else None),
             tok_type = Some (userTokenType v) \<rparr>)"
proof -
  show found: "truthy (js_or (env (envName upper k ''HOST'')) (userHost v))"
    using assms by (simp add: resolveClient_def Let_def split: if_splits)
  from assms found show "host conf = js_or (env (envName upper k ''HOST'')) (userHost v)"
    by (auto simp: resolveClient_def Let_def)
  from assms found show "clientHost conf =
           (if truthy (js_or (env (envName upper k ''CLIENT_HOST'')) (userClientHost v))
            then js_or (env (envName upper k ''CLIENT_HOST'')) (userClientHost v)
            else userClientHost v)"
    by (auto simp: resolveClient_def Let_def userObject_clientHost)
  from assms found show "token conf = Some (TokObj
           \<lparr> tok_name = (if truthy (js_or (js_or (env (envName upper k ''TOKEN_NAME'')) (userTokenName v))
                                        (Some ''Authorization''))
                          then js_or (js_or (env (envName upper k ''TOKEN_NAME'')) (userTokenName v))
                                 (Some ''Authorization'')
                          else None),
             tok_value = (if truthy (js_or (env (envName upper k ''TOKEN'')) (userToken v))
                          then js_or (env (envName upper k ''TOKEN'')) (userToken v) else None),
             tok_type = Some (userTokenType v) \<rparr>)"
    by (auto simp: resolveClient_def Let_def)
qed

lemma resolveClient_fields:
  assumes "resolveClient upper resolve existsSync env k v = Inr conf"
  shows "\<exists>t. token conf = Some (TokObj t)
     \<and> host conf = precedence (env (envName upper k ''HOST'')) (userHost v) None
     \<and> (if truthy (precedence (env (envName upper k ''CLIENT_HOST'')) (userClientHost v) None)
        then clientHost conf = precedence (env (envName upper k ''CLIENT_HOST'')) (userClientHost v) None
        else \<not> truthy (clientHost conf))
     \<and> tok_value t = precedence (env (envName upper k ''TOKEN'')) (userToken v) None
     \<and> tok_name t = precedence (env (envName upper k ''TOKEN_NAME'')) (userTokenName v)
                        (Some ''Authorization'')
     \<and> tok_type t = Some (userTokenType v)"
proof -
  note r = resolveClient_Inr [OF assms]
  have h: "host conf = precedence (env (envName upper k ''HOST'')) (userHost v) None"
    using precedence_host [OF r(1)] r(2) by simp
  have c: "if truthy (precedence (env (envName upper k ''CLIENT_HOST'')) (userClientHost v) None)
        then clientHost conf = precedence (env (envName upper k ''CLIENT_HOST'')) (userClientHost v) None
        else \<not> truthy (clientHost conf)"
  proof (cases "truthy (js_or (env (envName upper k ''CLIENT_HOST'')) (userClientHost v))")
    case True
    then have "truthy (precedence (env (envName upper k ''CLIENT_HOST'')) (userClientHost v) None)"
      by (simp add: precedence_truthy)
    moreover from True have "clientHost conf
        = precedence (env (envName upper k ''CLIENT_HOST'')) (userClientHost v) None"
      using precedence_host [OF True] by (simp add: r(3))
    ultimately show ?thesis by simp
  next
    case False
    then have "\<not> truthy (precedence (env (envName upper k ''CLIENT_HOST'')) (userClientHost v) None)"
      by (simp add: precedence_truthy)
    moreover from False have "\<not> truthy (userClientHost v)"
      by (simp add: js_or_def split: if_splits)
    with False have "\<not> truthy (clientHost conf)"
      by (simp add: r(3))
    ultimately show ?thesis by simp
  qed
  let ?t = "\<lparr> tok_name = precedence (env (envName upper k ''TOKEN_NAME'')) (userTokenName v)
                           (Some ''Authorization''),
             tok_value = precedence (env (envName upper k ''TOKEN'')) (userToken v) None,
             tok_type = Some (userTokenType v) \<rparr>"
  have t: "token conf = Some (TokObj ?t)"
    unfolding r(4) precedence_name
    by (simp only: precedence_value [of "env (envName upper k ''TOKEN'')" "userToken v"])
  show ?thesis
    using h c t by (intro exI [of _ ?t]) simp
qed

lemma implicitClients_found:
  assumes "truthy (js_or (env ''GQL_HOST'') publicHost)"
  shows "\<exists>h. js_or (env ''GQL_HOST'') publicHost = Some h \<and> h \<noteq> []
     \<and> implicitClients env publicHost publicClientHost
         = Inr [(''default'',
                 if \<not> truthy (js_or (env ''GQL_CLIENT_HOST'') publicClientHost) then HostStr h
                 else ClientObj (noClient\<lparr> host := Some h,
                        clientHost := js_or (env ''GQL_CLIENT_HOST'') publicClientHost \<rparr>))]"
proof -
  from assms obtain h where h: "js_or (env ''GQL_HOST'') publicHost = Some h" and ne: "h \<noteq> []"
    by (auto simp: truthy_def split: option.splits)
  then show ?thesis
    by (simp add: implicitClients_def Let_def)
qed

lemma js_or_idem: "js_or e (js_or e p) = js_or e p"
  by (simp add: js_or_def)

lemma js_or_fallback: "\<not> truthy (js_or e p) \<Longrightarrow> \<not> truthy (js_or e None)"
  by (simp add: js_or_def truthy_def split: if_splits)

text \<open>The descriptor of the one client \<open>default\<close> that stands in for an empty configuration.\<close>

lemma resolveClient_implicit:
  assumes "js_or (env ''GQL_HOST'') publicHost = Some h" and "h \<noteq> []"
  shows "\<exists>conf. resolveClient upper resolve existsSync env ''default''
            (if \<not> truthy (js_or (env ''GQL_CLIENT_HOST'') publicClientHost) then HostStr h
             else ClientObj (noClient\<lparr> host := Some h,
                    clientHost := js_or (env ''GQL_CLIENT_HOST'') publicClientHost \<rparr>)) = Inr conf
     \<and> host conf = Some h
     \<and> clientHost conf = (if truthy (js_or (env ''GQL_CLIENT_HOST'') publicClientHost)
                           then js_or (env ''GQL_CLIENT_HOST'') publicClientHost else None)"
proof -
  have hostv: "js_or (env ''GQL_HOST'') (Some h) = Some h"
    using assms js_or_idem [of "env ''GQL_HOST''" publicHost] by simp
  have th: "truthy (Some h)" using assms(2) by (simp add: truthy_def)
  show ?thesis
  proof (cases "truthy (js_or (env ''GQL_CLIENT_HOST'') publicClientHost)")
    case True
    have ch: "js_or (env ''GQL_CLIENT_HOST'') (js_or (env ''GQL_CLIENT_HOST'') publicClientHost)
        = js_or (env ''GQL_CLIENT_HOST'') publicClientHost"
      by (rule js_or_idem)
    from True show ?thesis
      by (simp add: resolveClient_def Let_def envName_def userHost_def userClientHost_def
            userObject_def hostv th ch)
  next
    case False
    then have "\<not> truthy (js_or (env ''GQL_CLIENT_HOST'') None)"
      by (rule js_or_fallback)
    with False show ?thesis
      by (simp add: resolveClient_def Let_def envName_def userHost_def userClientHost_def
            userObject_def noClient_def hostv th)
  qed
qed

lemma storeClient_first:
  "clients (storeClient k v conf \<lparr> clients = [], publicClients = [], privateClients = [],
      clientOps = [] \<rparr>) = [(k, conf)]"
  "map fst (publicClients (storeClient k v conf \<lparr> clients = [], publicClients = [],
      privateClients = [], clientOps = [] \<rparr>)) = [k]"
  by (simp_all add: storeClient_def Let_def deepmerge_def)

lemma module_setup_implicit:
  assumes "truthy (js_or (env ''GQL_HOST'') publicHost)"
  shows "\<exists>out conf. module_setup upper resolve existsSync env publicHost publicClientHost [] = Inr out
     \<and> clients out = [(''default'', conf)]
     \<and> map fst (publicClients out) = [''default'']
     \<and> host conf = js_or (env ''GQL_HOST'') publicHost
     \<and> clientHost conf = (if truthy (js_or (env ''GQL_CLIENT_HOST'') publicClientHost)
                           then js_or (env ''GQL_CLIENT_HOST'') publicClientHost else None)"
proof -
  let ?r0 = "\<lparr> clients = [], publicClients = [], privateClients = [], clientOps = [] \<rparr>"
  let ?v = "\<lambda>h. if \<not> truthy (js_or (env ''GQL_CLIENT_HOST'') publicClientHost) then HostStr h
             else ClientObj (noClient\<lparr> host := Some h,
                    clientHost := js_or (env ''GQL_CLIENT_HOST'') publicClientHost \<rparr>)"
  note found = implicitClients_found [where env = env and publicHost = publicHost
      and publicClientHost = publicClientHost]
  from found [OF assms] obtain h where
    h: "js_or (env ''GQL_HOST'') publicHost = Some h" and ne: "h \<noteq> []"
    and imp: "implicitClients env publicHost publicClientHost = Inr [(''default'', ?v h)]"
    by (elim exE conjE)
  note implicit = resolveClient_implicit [where env = env and publicHost = publicHost and h = h
      and upper = upper and resolve = resolve and existsSync = existsSync
      and publicClientHost = publicClientHost]
  from implicit [OF h ne] obtain conf where
    conf: "resolveClient upper resolve existsSync env ''default'' (?v h) = Inr conf"
    and hc: "host conf = Some h"
    and cc: "clientHost conf = (if truthy (js_or (env ''GQL_CLIENT_HOST'') publicClientHost)
                           then js_or (env ''GQL_CLIENT_HOST'') publicClientHost else None)"
    by (elim exE conjE)
  have run: "module_setup upper resolve existsSync env publicHost publicClientHost []
      = Inr (storeClient ''default'' (?v h) conf ?r0)"
    by (simp only: module_setup_def imp conf setupClients.simps sum.case if_True simp_thms)
  show ?thesis
    using run hc cc h storeClient_first [of "''default''" "?v h" conf]
    by (intro exI [of _ "storeClient ''default'' (?v h) conf ?r0"] exI [of _ conf]) simp
qed

text \<open>
  C1 (as amended). For every configured client \<open>k\<close>: if no host is found in its
  environment variable or its configured value and every client configured before
  \<open>k\<close> has a host, \<open>setup\<close> throws the configuration error that names \<open>k\<close>: \<open>setup\<close> stops
  at the first client without a host, so whenever some client has no host it throws an
  error naming a client without a host. When no client is declared, \<open>setup\<close> falls back
  to the single client \<open>default\<close>, whose host is \<open>GQL_HOST\<close> and whose client host is
  \<open>GQL_CLIENT_HOST\<close> (of the environment, else of the public runtime config), and throws
  "GQL_HOST is not set in public runtimeConfig" if that host is still absent. When
  \<open>setup\<close> returns, every descriptor in \<open>config.clients\<close> and in the public runtime config
  has a non-empty host.
\<close>

theorem C1_missing_host:
  "(\<not> truthy (js_or (env ''GQL_HOST'') publicHost) \<longrightarrow>
      module_setup upper resolve existsSync env publicHost publicClientHost [] = Inl GqlHostNotSet)
   \<and> (truthy (js_or (env ''GQL_HOST'') publicHost) \<longrightarrow>
      (\<exists>out conf.
         module_setup upper resolve existsSync env publicHost publicClientHost [] = Inr out
         \<and> clients out = [(''default'', conf)]
         \<and> map fst (publicClients out) = [''default'']
         \<and> host conf = js_or (env ''GQL_HOST'') publicHost
         \<and> clientHost conf = (if truthy (js_or (env ''GQL_CLIENT_HOST'') publicClientHost)
                               then js_or (env ''GQL_CLIENT_HOST'') publicClientHost else None)))
   \<and> ((\<forall>(k', v')\<in>set pre. hostFound upper env k' v') \<and> \<not> hostFound upper env k v \<longrightarrow>
      module_setup upper resolve existsSync env publicHost publicClientHost (pre @ (k, v) # post)
        = Inl (ClientMissingHost k))
   \<and> ((k, v) \<in> set cs \<and> \<not> hostFound upper env k v \<longrightarrow>
      (\<exists>k' v'. (k', v') \<in> set cs \<and> \<not> hostFound upper env k' v'
         \<and> module_setup upper resolve existsSync env publicHost publicClientHost cs
             = Inl (ClientMissingHost k')))
   \<and> (module_setup upper resolve existsSync env publicHost publicClientHost cs = Inr out \<longrightarrow>
      (\<forall>c\<in>snd ` set (clients out). truthy (host c))
      \<and> (\<forall>c\<in>snd ` set (publicClients out). truthy (host c)))
   \<and> (hostFound upper env k v \<longleftrightarrow>
        truthy (js_or (env (if k = ''default'' then ''GQL_HOST''
                            else ''GQL_'' @ upper k @ ''_HOST''))
                  (case v of HostStr s \<Rightarrow> Some s | ClientObj c \<Rightarrow> host c)))
   \<and> message (ClientMissingHost k) = ''GraphQL client ('' @ k @ '') is missing it's host.''
   \<and> message GqlHostNotSet = ''GQL_HOST is not set in public runtimeConfig''"
proof -
  have none: "\<not> truthy (js_or (env ''GQL_HOST'') publicHost) \<longrightarrow>
      module_setup upper resolve existsSync env publicHost publicClientHost [] = Inl GqlHostNotSet"
    using implicitClients_missing [of env publicHost publicClientHost]
    by (simp add: module_setup_def)
  have fallback: "truthy (js_or (env ''GQL_HOST'') publicHost) \<longrightarrow>
      (\<exists>out conf.
         module_setup upper resolve existsSync env publicHost publicClientHost [] = Inr out
         \<and> clients out = [(''default'', conf)]
         \<and> map fst (publicClients out) = [''default'']
         \<and> host conf = js_or (env ''GQL_HOST'') publicHost
         \<and> clientHost conf = (if truthy (js_or (env ''GQL_CLIENT_HOST'') publicClientHost)
                               then js_or (env ''GQL_CLIENT_HOST'') publicClientHost else None))"
    using module_setup_implicit by (intro impI)
  have first: "(\<forall>(k', v')\<in>set pre. hostFound upper env k' v') \<and> \<not> hostFound upper env k v \<longrightarrow>
      module_setup upper resolve existsSync env publicHost publicClientHost (pre @ (k, v) # post)
        = Inl (ClientMissingHost k)"
    using setupClients_first_missing [of pre upper env k v resolve existsSync post]
    by (simp add: module_setup_def)
  have some: "(k, v) \<in> set cs \<and> \<not> hostFound upper env k v \<longrightarrow>
      (\<exists>k' v'. (k', v') \<in> set cs \<and> \<not> hostFound upper env k' v'
         \<and> module_setup upper resolve existsSync env publicHost publicClientHost cs
             = Inl (ClientMissingHost k'))"
  proof
    assume a: "(k, v) \<in> set cs \<and> \<not> hostFound upper env k v"
    then have "cs \<noteq> []" by auto
    then show "\<exists>k' v'. (k', v') \<in> set cs \<and> \<not> hostFound upper env k' v'
         \<and> module_setup upper resolve existsSync env publicHost publicClientHost cs
             = Inl (ClientMissingHost k')"
      using a setupClients_missing [of k v cs upper env resolve existsSync]
      by (simp add: module_setup_def)
  qed
  have hosts: "module_setup upper resolve existsSync env publicHost publicClientHost cs = Inr out \<longrightarrow>
      (\<forall>c\<in>snd ` set (clients out). truthy (host c))
      \<and> (\<forall>c\<in>snd ` set (publicClients out). truthy (host c))"
    using module_setup_hosts [of upper resolve existsSync env publicHost publicClientHost cs out]
    by (simp add: hostsSet_def)
  have found: "hostFound upper env k v \<longleftrightarrow>
        truthy (js_or (env (if k = ''default'' then ''GQL_HOST''
                            else ''GQL_'' @ upper k @ ''_HOST''))
                  (case v of HostStr s \<Rightarrow> Some s | ClientObj c \<Rightarrow> host c))"
    by (simp add: hostFound_def envName_def userHost_def)
  have msgs: "message (ClientMissingHost k) = ''GraphQL client ('' @ k @ '') is missing it's host.''"
    "message GqlHostNotSet = ''GQL_HOST is not set in public runtimeConfig''"
    by simp_all
  from none fallback first some hosts found msgs show ?thesis
    by (intro conjI)
qed

text \<open>
  No client and no \<open>GQL_HOST\<close>; no client and \<open>GQL_HOST\<close> in the environment, with
  \<open>GQL_CLIENT_HOST\<close> in the public runtime config: the one client \<open>default\<close> with these two;
  and a client \<open>blog\<close> without a host after a client with one.
\<close>

theorem C1_missing_host_witness:
  "module_setup toUpperCaseAscii (\<lambda>p. p) (\<lambda>p. False) Map.empty None None [] = Inl GqlHostNotSet
   \<and> (\<exists>out conf.
         module_setup toUpperCaseAscii (\<lambda>p. p) (\<lambda>p. False)
           [''GQL_HOST'' \<mapsto> ''https://api.a/graphql''] None (Some ''https://client.a/graphql'') []
           = Inr out
         \<and> clients out = [(''default'', conf)]
         \<and> map fst (publicClients out) = [''default'']
         \<and> host conf = Some ''https://api.a/graphql''
         \<and> clientHost conf = Some ''https://client.a/graphql'')
   \<and> module_setup toUpperCaseAscii (\<lambda>p. p) (\<lambda>p. False) Map.empty None None
        [(''default'', HostStr ''https://api.a/graphql''), (''blog'', ClientObj noClient)]
       = Inl (ClientMissingHost ''blog'')"
proof -
  let ?env = "[''GQL_HOST'' \<mapsto> ''https://api.a/graphql'']"
  note inst = C1_missing_host [where upper = toUpperCaseAscii and resolve = "\<lambda>p. p"
      and existsSync = "\<lambda>p. False"
      and env = Map.empty and publicHost = None and publicClientHost = None
      and pre = "[(''default'', HostStr ''https://api.a/graphql'')]"
      and k = "''blog''" and v = "ClientObj noClient" and post = "[]"]
  note inst2 = C1_missing_host [where upper = toUpperCaseAscii and resolve = "\<lambda>p. p"
      and existsSync = "\<lambda>p. False"
      and env = "?env" and publicHost = None
      and publicClientHost = "Some ''https://client.a/graphql''"]
  have h1: "\<not> truthy (js_or (Map.empty ''GQL_HOST'') None)"
    by (simp add: truthy_def js_or_def)
  have h2: "(\<forall>(k', v')\<in>set [(''default'', HostStr ''https://api.a/graphql'')].
               hostFound toUpperCaseAscii Map.empty k' v')
            \<and> \<not> hostFound toUpperCaseAscii Map.empty ''blog'' (ClientObj noClient)"
    by (simp add: hostFound_def envName_def truthy_def js_or_def userHost_def noClient_def)
  have h3: "truthy (js_or (?env ''GQL_HOST'') None)"
    by (simp add: truthy_def js_or_def)
  have e: "js_or (?env ''GQL_HOST'') None = Some ''https://api.a/graphql''"
    "(if truthy (js_or (?env ''GQL_CLIENT_HOST'') (Some ''https://client.a/graphql''))
      then js_or (?env ''GQL_CLIENT_HOST'') (Some ''https://client.a/graphql'') else None)
     = Some ''https://client.a/graphql''"
    by (simp_all add: truthy_def js_or_def)
  note none = inst [THEN conjunct1, THEN mp, OF h1]
  note fallback = inst2 [THEN conjunct2, THEN conjunct1, THEN mp, OF h3, unfolded e]
  note first = inst [THEN conjunct2, THEN conjunct2, THEN conjunct1, THEN mp, OF h2,
      unfolded append.simps]
  from none fallback first show ?thesis by (intro conjI)
qed

text \<open>
  C1 as stated fails where two clients have no host: the error names the first of them,
  not each.
\<close>

theorem C1_counterexample:
  "(''b'', ClientObj noClient) \<in> set [(''a'', ClientObj noClient), (''b'', ClientObj noClient)]
   \<and> \<not> truthy (js_or (Map.empty ''GQL_B_HOST'') (host noClient))
   \<and> module_setup toUpperCaseAscii (\<lambda>p. p) (\<lambda>p. False) Map.empty None None
        [(''a'', ClientObj noClient), (''b'', ClientObj noClient)] = Inl (ClientMissingHost ''a'')
   \<and> module_setup toUpperCaseAscii (\<lambda>p. p) (\<lambda>p. False) Map.empty None None
        [(''a'', ClientObj noClient), (''b'', ClientObj noClient)] \<noteq> Inl (ClientMissingHost ''b'')
   \<and> message (ClientMissingHost ''a'') = ''GraphQL client (a) is missing it's host.''"
  by (simp add: module_setup_def resolveClient_def Let_def envName_def
        js_or_def truthy_def userHost_def noClient_def)

lemma precedence_falsy: "precedence e (js_or u None) None = precedence e u None"
  by (simp add: precedence_def js_or_def)

lemma userFields_raw:
  "userHost v = (case v of HostStr s \<Rightarrow> Some s | ClientObj c \<Rightarrow> host c)"
  "userClientHost v = (case v of HostStr s \<Rightarrow> None | ClientObj c \<Rightarrow> clientHost c)"
  "precedence e (userToken v) None
     = precedence e (case v of
                       HostStr s \<Rightarrow> None
                     | ClientObj c \<Rightarrow>
                         (case token c of
                            None \<Rightarrow> None
                          | Some (TokStr s) \<Rightarrow> Some s
                          | Some (TokObj u) \<Rightarrow> tok_value u)) None"
  "userTokenName v
     = (case v of
          HostStr s \<Rightarrow> None
        | ClientObj c \<Rightarrow> (case token c of Some (TokObj u) \<Rightarrow> tok_name u | _ \<Rightarrow> None))"
  "userTokenType v
     = (case v of
          HostStr s \<Rightarrow> ''Bearer''
        | ClientObj c \<Rightarrow>
            (case token c of
               Some (TokObj u) \<Rightarrow> (case tok_type u of None \<Rightarrow> ''Bearer'' | Some ty \<Rightarrow> ty)
             | _ \<Rightarrow> ''Bearer''))"
  by (simp_all add: userHost_def userClientHost_def userToken_def userTokenName_def
        userTokenType_def tokenName_def tokenType_def precedence_falsy
      split: ClientCfg.splits option.splits TokenCfg.splits)

text \<open>
  C2. When \<open>setup\<close> returns, the descriptor of every configured client \<open>k\<close> follows the
  precedence: its host, client host, token value and token name are the client's
  environment variable when that is truthy, else the value that the user's
  configuration gives (the string itself or the \<open>host\<close> member for the host, the
  \<open>clientHost\<close> member, the \<open>token\<close> string or the \<open>value\<close> member of the \<open>token\<close> object, the
  \<open>name\<close> member of the \<open>token\<close> object) when that is truthy, else the default (none for
  the hosts and the token value, \<open>Authorization\<close> for the token name); the token type has
  no variable and is the \<open>type\<close> member of the user's \<open>token\<close> object, or \<open>Bearer\<close>. The
  variable of client \<open>default\<close> is unsuffixed (\<open>GQL_HOST\<close>), that of any other client
  carries the upper-cased name (\<open>GQL_BLOG_HOST\<close> for \<open>blog\<close>).
\<close>

theorem C2_precedence:
  assumes "module_setup upper resolve existsSync env publicHost publicClientHost cs = Inr out"
    and "cs \<noteq> []" and "distinct (map fst cs)" and "(k, v) \<in> set cs"
  shows "(\<exists>conf t. map_of (clients out) k = Some conf \<and> token conf = Some (TokObj t)
     \<and> host conf = precedence (env (envName upper k ''HOST''))
                      (case v of HostStr s \<Rightarrow> Some s | ClientObj c \<Rightarrow> host c) None
     \<and> (if truthy (precedence (env (envName upper k ''CLIENT_HOST''))
                     (case v of HostStr s \<Rightarrow> None | ClientObj c \<Rightarrow> clientHost c) None)
        then clientHost conf
               = precedence (env (envName upper k ''CLIENT_HOST''))
                   (case v of HostStr s \<Rightarrow> None | ClientObj c \<Rightarrow> clientHost c) None
        else \<not> truthy (clientHost conf))
     \<and> tok_value t = precedence (env (envName upper k ''TOKEN''))
                        (case v of
                           HostStr s \<Rightarrow> None
                         | ClientObj c \<Rightarrow>
                             (case token c of
                                None \<Rightarrow> None
                              | Some (TokStr s) \<Rightarrow> Some s
                              | Some (TokObj u) \<Rightarrow> tok_value u)) None
     \<and> tok_name t = precedence (env (envName upper k ''TOKEN_NAME''))
                        (case v of
                           HostStr s \<Rightarrow> None
                         | ClientObj c \<Rightarrow>
                             (case token c of Some (TokObj u) \<Rightarrow> tok_name u | _ \<Rightarrow> None))
                        (Some ''Authorization'')
     \<and> tok_type t = Some (case v of
                            HostStr s \<Rightarrow> ''Bearer''
                          | ClientObj c \<Rightarrow>
                              (case token c of
                                 Some (TokObj u) \<Rightarrow>
                                   (case tok_type u of None \<Rightarrow> ''Bearer'' | Some ty \<Rightarrow> ty)
                               | _ \<Rightarrow> ''Bearer'')))
   \<and> envName upper ''default'' var = ''GQL_'' @ var
   \<and> (if k = ''default'' then envName upper k var = ''GQL_'' @ var
      else envName upper k var = ''GQL_'' @ upper k @ ''_'' @ var)
   \<and> (upper ''blog'' = ''BLOG'' \<longrightarrow> envName upper ''blog'' ''HOST'' = ''GQL_BLOG_HOST'')"
proof -
  from assms(1,2) have run: "setupClients upper resolve existsSync env cs
       \<lparr> clients = [], publicClients = [], privateClients = [], clientOps = [] \<rparr> = Inr out"
    by (simp add: module_setup_def)
  from setupClients_lookup [OF run assms(3,4)] obtain conf where
    conf: "resolveClient upper resolve existsSync env k v = Inr conf"
    and look: "map_of (clients out) k = Some conf"
    by (elim exE conjE)
  from resolveClient_fields [OF conf] obtain t where
    t: "token conf = Some (TokObj t)"
      "host conf = precedence (env (envName upper k ''HOST'')) (userHost v) None"
      "if truthy (precedence (env (envName upper k ''CLIENT_HOST'')) (userClientHost v) None)
        then clientHost conf = precedence (env (envName upper k ''CLIENT_HOST'')) (userClientHost v) None
        else \<not> truthy (clientHost conf)"
      "tok_value t = precedence (env (envName upper k ''TOKEN'')) (userToken v) None"
      "tok_name t = precedence (env (envName upper k ''TOKEN_NAME'')) (userTokenName v)
                        (Some ''Authorization'')"
      "tok_type t = Some (userTokenType v)"
    by (elim exE conjE)
  note raw = t [unfolded userFields_raw]
  have names: "envName upper ''default'' var = ''GQL_'' @ var"
    "if k = ''default'' then envName upper k var = ''GQL_'' @ var
      else envName upper k var = ''GQL_'' @ upper k @ ''_'' @ var"
    "upper ''blog'' = ''BLOG'' \<longrightarrow> envName upper ''blog'' ''HOST'' = ''GQL_BLOG_HOST''"
    by (simp_all add: envName_def)
  from look raw have "\<exists>conf t. map_of (clients out) k = Some conf \<and> token conf = Some (TokObj t)
     \<and> host conf = precedence (env (envName upper k ''HOST''))
                      (case v of HostStr s \<Rightarrow> Some s | ClientObj c \<Rightarrow> host c) None
     \<and> (if truthy (precedence (env (envName upper k ''CLIENT_HOST''))
                     (case v of HostStr s \<Rightarrow> None | ClientObj c \<Rightarrow> clientHost c) None)
        then clientHost conf
               = precedence (env (envName upper k ''CLIENT_HOST''))
                   (case v of HostStr s \<Rightarrow> None | ClientObj c \<Rightarrow> clientHost c) None
        else \<not> truthy (clientHost conf))
     \<and> tok_value t = precedence (env (envName upper k ''TOKEN''))
                        (case v of
                           HostStr s \<Rightarrow> None
                         | ClientObj c \<Rightarrow>
                             (case token c of
                                None \<Rightarrow> None
                              | Some (TokStr s) \<Rightarrow> Some s
                              | Some (TokObj u) \<Rightarrow> tok_value u)) None
     \<and> tok_name t = precedence (env (envName upper k ''TOKEN_NAME''))
                        (case v of
                           HostStr s \<Rightarrow> None
                         | ClientObj c \<Rightarrow>
                             (case token c of Some (TokObj u) \<Rightarrow> tok_name u | _ \<Rightarrow> None))
                        (Some ''Authorization'')
     \<and> tok_type t = Some (case v of
                            HostStr s \<Rightarrow> ''Bearer''
                          | ClientObj c \<Rightarrow>
                              (case token c of
                                 Some (TokObj u) \<Rightarrow>
                                   (case tok_type u of None \<Rightarrow> ''Bearer'' | Some ty \<Rightarrow> ty)
                               | _ \<Rightarrow> ''Bearer''))"
    by (intro exI [of _ conf] exI [of _ t] conjI)
  with names show ?thesis by (intro conjI)
qed

lemma setupClients_all_found:
  "\<forall>(k, v)\<in>set cs. hostFound upper env k v \<Longrightarrow>
     \<exists>out. setupClients upper resolve existsSync env cs r = Inr out"
proof (induction cs arbitrary: r)
  case Nil
  then show ?case by simp
next
  case (Cons a cs)
  obtain k v where a: "a = (k, v)" by (cases a)
  with Cons.prems have "hostFound upper env k v" by simp
  then obtain conf where "resolveClient upper resolve existsSync env k v = Inr conf"
    using resolveClient_found by blast
  moreover from Cons.prems have "\<forall>(k, v)\<in>set cs. hostFound upper env k v" by simp
  ultimately show ?case using Cons.IH a by simp
qed

lemma module_setup_all_found:
  assumes "cs \<noteq> []" and "\<forall>(k, v)\<in>set cs. hostFound upper env k v"
  shows "\<exists>out. module_setup upper resolve existsSync env publicHost publicClientHost cs = Inr out"
  using assms setupClients_all_found [of cs upper env resolve existsSync]
  by (simp add: module_setup_def)

text \<open>
  Three clients. \<open>default\<close> has a token object with the name \<open>X-Auth\<close> and a value, and
  \<open>GQL_TOKEN\<close> is set: the variable gives the value, the user's name stands before the
  default name, the host is the user's. \<open>blog\<close> is a host string and \<open>GQL_BLOG_HOST\<close> is
  set: the variable gives the host, and \<open>GQL_TOKEN\<close>, the variable of \<open>default\<close>, gives
  \<open>blog\<close> no token. \<open>shop\<close> has a token string and no variable: the user's token is the
  value.
\<close>

theorem C2_precedence_witness:
  "\<exists>out.
     module_setup toUpperCaseAscii (\<lambda>p. p) (\<lambda>p. False)
       (map_of [(''GQL_BLOG_HOST'', ''https://env.b/graphql''), (''GQL_TOKEN'', ''envsecret'')])
       None None
       [(''default'', ClientObj (noClient\<lparr> host := Some ''https://api.a/graphql'',
            token := Some (TokObj \<lparr> tok_name = Some ''X-Auth'', tok_value = Some ''usersecret'',
                                     tok_type = None \<rparr>) \<rparr>)),
        (''blog'', HostStr ''https://api.b/graphql''),
        (''shop'', ClientObj (noClient\<lparr> host := Some ''https://api.c/graphql'',
            token := Some (TokStr ''shoptoken'') \<rparr>))] = Inr out
     \<and> (\<exists>conf t. map_of (clients out) ''default'' = Some conf \<and> token conf = Some (TokObj t)
          \<and> host conf = Some ''https://api.a/graphql''
          \<and> \<not> truthy (clientHost conf)
          \<and> tok_value t = Some ''envsecret''
          \<and> tok_name t = Some ''X-Auth''
          \<and> tok_type t = Some ''Bearer'')
     \<and> (\<exists>conf t. map_of (clients out) ''blog'' = Some conf \<and> token conf = Some (TokObj t)
          \<and> host conf = Some ''https://env.b/graphql''
          \<and> \<not> truthy (clientHost conf)
          \<and> tok_value t = None
          \<and> tok_name t = Some ''Authorization''
          \<and> tok_type t = Some ''Bearer'')
     \<and> (\<exists>conf t. map_of (clients out) ''shop'' = Some conf \<and> token conf = Some (TokObj t)
          \<and> host conf = Some ''https://api.c/graphql''
          \<and> \<not> truthy (clientHost conf)
          \<and> tok_value t = Some ''shoptoken''
          \<and> tok_name t = Some ''Authorization''
          \<and> tok_type t = Some ''Bearer'')"
proof -
  let ?env = "map_of [(''GQL_BLOG_HOST'', ''https://env.b/graphql''), (''GQL_TOKEN'', ''envsecret'')]"
  let ?d = "ClientObj (noClient\<lparr> host := Some ''https://api.a/graphql'',
            token := Some (TokObj \<lparr> tok_name = Some ''X-Auth'', tok_value = Some ''usersecret'',
                                     tok_type = None \<rparr>) \<rparr>)"
  let ?b = "HostStr ''https://api.b/graphql''"
  let ?s = "ClientObj (noClient\<lparr> host := Some ''https://api.c/graphql'',
            token := Some (TokStr ''shoptoken'') \<rparr>)"
  let ?cs = "[(''default'', ?d), (''blog'', ?b), (''shop'', ?s)]"
  have up: "toUpperCaseAscii ''blog'' = ''BLOG''" "toUpperCaseAscii ''shop'' = ''SHOP''"
    by (simp_all add: toUpperCaseAscii_def toUpperChar_def)
  have found: "\<forall>(k, v)\<in>set ?cs. hostFound toUpperCaseAscii ?env k v"
    by (simp add: hostFound_def envName_def up js_or_def truthy_def userHost_def noClient_def)
  have "?cs \<noteq> []" by simp
  from module_setup_all_found [where upper = toUpperCaseAscii and env = "?env" and cs = "?cs"
      and resolve = "\<lambda>p. p" and existsSync = "\<lambda>p. False" and publicHost = None
      and publicClientHost = None, OF this found]
  obtain out where
    run: "module_setup toUpperCaseAscii (\<lambda>p. p) (\<lambda>p. False) ?env None None ?cs = Inr out" ..
  have ne: "?cs \<noteq> []" and dist: "distinct (map fst ?cs)"
    and md: "(''default'', ?d) \<in> set ?cs" and mb: "(''blog'', ?b) \<in> set ?cs"
    and ms: "(''shop'', ?s) \<in> set ?cs"
    by simp_all
  note inst = C2_precedence [where upper = toUpperCaseAscii and resolve = "\<lambda>p. p"
      and existsSync = "\<lambda>p. False"
      and env = "?env" and publicHost = None and publicClientHost = None and cs = "?cs"
      and out = out and var = "''HOST''"]
  have tn: "truthy None = False" by (simp add: truthy_def)
  have vd:
    "precedence (?env (envName toUpperCaseAscii ''default'' ''HOST''))
       (case ?d of HostStr s \<Rightarrow> Some s | ClientObj c \<Rightarrow> host c) None
     = Some ''https://api.a/graphql''"
    "precedence (?env (envName toUpperCaseAscii ''default'' ''CLIENT_HOST''))
       (case ?d of HostStr s \<Rightarrow> None | ClientObj c \<Rightarrow> clientHost c) None = None"
    "precedence (?env (envName toUpperCaseAscii ''default'' ''TOKEN''))
       (case ?d of
          HostStr s \<Rightarrow> None
        | ClientObj c \<Rightarrow>
            (case token c of
               None \<Rightarrow> None
             | Some (TokStr s) \<Rightarrow> Some s
             | Some (TokObj u) \<Rightarrow> tok_value u)) None = Some ''envsecret''"
    "precedence (?env (envName toUpperCaseAscii ''default'' ''TOKEN_NAME''))
       (case ?d of
          HostStr s \<Rightarrow> None
        | ClientObj c \<Rightarrow>
            (case token c of Some (TokObj u) \<Rightarrow> tok_name u | _ \<Rightarrow> None))
       (Some ''Authorization'') = Some ''X-Auth''"
    "(case ?d of
        HostStr s \<Rightarrow> ''Bearer''
      | ClientObj c \<Rightarrow>
          (case token c of
             Some (TokObj u) \<Rightarrow> (case tok_type u of None \<Rightarrow> ''Bearer'' | Some ty \<Rightarrow> ty)
           | _ \<Rightarrow> ''Bearer'')) = ''Bearer''"
    by (simp_all add: precedence_def envName_def truthy_def noClient_def)
  have vb:
    "precedence (?env (envName toUpperCaseAscii ''blog'' ''HOST''))
       (case ?b of HostStr s \<Rightarrow> Some s | ClientObj c \<Rightarrow> host c) None
     = Some ''https://env.b/graphql''"
    "precedence (?env (envName toUpperCaseAscii ''blog'' ''CLIENT_HOST''))
       (case ?b of HostStr s \<Rightarrow> None | ClientObj c \<Rightarrow> clientHost c) None = None"
    "precedence (?env (envName toUpperCaseAscii ''blog'' ''TOKEN''))
       (case ?b of
          HostStr s \<Rightarrow> None
        | ClientObj c \<Rightarrow>
            (case token c of
               None \<Rightarrow> None
             | Some (TokStr s) \<Rightarrow> Some s
             | Some (TokObj u) \<Rightarrow> tok_value u)) None = None"
    "precedence (?env (envName toUpperCaseAscii ''blog'' ''TOKEN_NAME''))
       (case ?b of
          HostStr s \<Rightarrow> None
        | ClientObj c \<Rightarrow>
            (case token c of Some (TokObj u) \<Rightarrow> tok_name u | _ \<Rightarrow> None))
       (Some ''Authorization'') = Some ''Authorization''"
    "(case ?b of
        HostStr s \<Rightarrow> ''Bearer''
      | ClientObj c \<Rightarrow>
          (case token c of
             Some (TokObj u) \<Rightarrow> (case tok_type u of None \<Rightarrow> ''Bearer'' | Some ty \<Rightarrow> ty)
           | _ \<Rightarrow> ''Bearer'')) = ''Bearer''"
    by (simp_all add: precedence_def envName_def up truthy_def)
  have vs:
    "precedence (?env (envName toUpperCaseAscii ''shop'' ''HOST''))
       (case ?s of HostStr s \<Rightarrow> Some s | ClientObj c \<Rightarrow> host c) None
     = Some ''https://api.c/graphql''"
    "precedence (?env (envName toUpperCaseAscii ''shop'' ''CLIENT_HOST''))
       (case ?s of HostStr s \<Rightarrow> None | ClientObj c \<Rightarrow> clientHost c) None = None"
    "precedence (?env (envName toUpperCaseAscii ''shop'' ''TOKEN''))
       (case ?s of
          HostStr s \<Rightarrow> None
        | ClientObj c \<Rightarrow>
            (case token c of
               None \<Rightarrow> None
             | Some (TokStr s) \<Rightarrow> Some s
             | Some (TokObj u) \<Rightarrow> tok_value u)) None = Some ''shoptoken''"
    "precedence (?env (envName toUpperCaseAscii ''shop'' ''TOKEN_NAME''))
       (case ?s of
          HostStr s \<Rightarrow> None
        | ClientObj c \<Rightarrow>
            (case token c of Some (TokObj u) \<Rightarrow> tok_name u | _ \<Rightarrow> None))
       (Some ''Authorization'') = Some ''Authorization''"
    "(case ?s of
        HostStr s \<Rightarrow> ''Bearer''
      | ClientObj c \<Rightarrow>
          (case token c of
             Some (TokObj u) \<Rightarrow> (case tok_type u of None \<Rightarrow> ''Bearer'' | Some ty \<Rightarrow> ty)
           | _ \<Rightarrow> ''Bearer'')) = ''Bearer''"
    by (simp_all add: precedence_def envName_def up truthy_def noClient_def)
  note d = inst [where k = "''default''" and v = "?d", OF run ne dist md, THEN conjunct1,
      unfolded vd tn if_False]
  note b = inst [where k = "''blog''" and v = "?b", OF run ne dist mb, THEN conjunct1,
      unfolded vb tn if_False]
  note s = inst [where k = "''shop''" and v = "?s", OF run ne dist ms, THEN conjunct1,
      unfolded vs tn if_False]
  from run d b s show ?thesis
    by (intro exI [of _ out] conjI)
qed

section \<open>Auth header and code generation config\<close>

lemma lookup_fold_set_key:
  "map_of (fold (\<lambda>(k, v) acc. set_key k v acc) b a) n
     = (case map_of (rev b) n of None \<Rightarrow> map_of a n | Some y \<Rightarrow> Some y)"
proof (induction b arbitrary: a)
  case Nil
  then show ?case by simp
next
  case (Cons x b)
  obtain k v where x: "x = (k, v)" by (cases x)
  show ?case
    by (simp add: x Cons.IH map_of_set_key map_add_def split: option.splits)
qed

lemma map_of_spread: "map_of (spread a b) = map_of a ++ map_of (rev b)"
  by (rule ext) (simp add: spread_def lookup_fold_set_key map_add_def)

lemma withToken_lookup:
  assumes "tokenValue v = Some val" and "val \<noteq> []" and "authValue (tokenType v) val \<noteq> []"
  shows "map_of (withToken v hs) (js_str (tokenName v)) = Some (HStr (authValue (tokenType v) val))"
proof -
  from assms have "tokenHeader v = Some (authValue (tokenType v) val)"
    by (simp add: tokenHeader_def)
  with assms(3) show ?thesis
    by (simp add: withToken_def truthy_def map_of_spread js_str_def)
qed

lemma prepareClient_headers:
  assumes "\<not> truthy (schema v)" and "truthy (tokenValue v) \<or> headers v \<noteq> None"
  shows "prepareClient v =
     (SchemaWithHeaders (js_str (host v))
        (withToken v (case headers (deleteServerOnly v) of
                        None \<Rightarrow> []
                      | Some h \<Rightarrow> spread h (serverHeaders (headers v)))),
      deleteServerOnly v)"
  using assms by (auto simp: prepareClient_def Let_def)

lemma stitchSource_headers:
  assumes "\<not> truthy (schema v)" and "truthy (tokenValue v) \<or> headers v \<noteq> None"
  shows "stitchSource resolve v =
     (SrcObj (host v)
        (withToken v (case headers (deleteServerOnly v) of
                        None \<Rightarrow> []
                      | Some h \<Rightarrow> spread h (serverHeaders (headers v)))),
      deleteServerOnly v)"
  using assms by (auto simp: stitchSource_def Let_def)

lemma stripLeading_none:
  assumes "\<forall>w\<in>set ws. \<not> prefix w s"
  shows "stripLeading ws s = s"
proof -
  from assms have "List.find (\<lambda>w. w \<noteq> [] \<and> prefix w s) ws = None"
    by (simp add: find_None_iff)
  then show ?thesis by (simp add: stripLeading.simps [of ws s])
qed

lemma stripLeading_space: "stripLeading whiteSpace (CHR '' '' # s) = stripLeading whiteSpace s"
proof -
  have "List.find (\<lambda>w. w \<noteq> [] \<and> prefix w (CHR '' '' # s)) whiteSpace = Some [CHR '' '']"
    by (simp add: whiteSpace_def)
  then show ?thesis by (simp add: stripLeading.simps [of whiteSpace "CHR '' '' # s"])
qed

lemma trim_bare:
  assumes "\<forall>w\<in>set whiteSpace. \<not> prefix w val \<and> \<not> suffix w val"
  shows "trim val = val"
proof -
  from assms have "stripLeading whiteSpace val = val"
    by (simp add: stripLeading_none)
  moreover from assms have "\<forall>w\<in>set (map rev whiteSpace). \<not> prefix w (rev val)"
    by (simp add: suffix_to_prefix)
  then have "stripLeading (map rev whiteSpace) (rev val) = rev val"
    by (rule stripLeading_none)
  ultimately show ?thesis by (simp add: trim_def)
qed

lemma authValue_empty_scheme: "authValue (Some []) val = trim val"
  by (simp add: authValue_def trim_def js_str_def stripLeading_space)

lemma authValue_examples:
  "authValue (Some ''Bearer'') ''abc'' = ''Bearer abc''"
  "authValue (Some []) (''abc'' @ [CHR 0xC2, CHR 0xA0]) = ''abc''"
  "authValue None ''abc'' = ''undefined abc''"
  by (simp_all add: authValue_def trim_def js_str_def stripLeading.simps whiteSpace_def)

lemma authValue_Some: "authValue (Some x) t = trim (x @ '' '' @ t)"
  by (simp add: authValue_def js_str_def)

lemma tokenFields_raw:
  assumes "token v = Some (TokObj t)"
  shows "tokenValue v = tok_value t" and "tokenType v = tok_type t" and "tokenName v = tok_name t"
  using assms by (simp_all add: tokenValue_def tokenType_def tokenName_def)

text \<open>What \<open>useGqlToken\<close> reads from its arguments and from the public runtime config.\<close>

lemma clientArg_raw:
  "clientArg args
     = (case args of
          Positional t os \<Rightarrow> (case os of None \<Rightarrow> None | Some x \<Rightarrow> opt_client x)
        | Named os \<Rightarrow> (if truthy (opt_client os) then opt_client os else None))"
  by (cases args) (simp_all add: js_or_def truthy_def)

lemma configArg_raw:
  "configArg args
     = (case args of
          Positional t os \<Rightarrow> (case os of None \<Rightarrow> None | Some x \<Rightarrow> opt_config x)
        | Named os \<Rightarrow> opt_config os)"
  by (cases args) simp_all

lemma tokenArg_raw:
  "tokenArg args = (case args of Positional t os \<Rightarrow> t | Named os \<Rightarrow> opt_token os)"
  by (cases args) simp_all

lemma configKey_raw:
  "js_str (js_or cl (Some ''default''))
     = (case cl of None \<Rightarrow> ''default'' | Some n \<Rightarrow> if n = [] then ''default'' else n)"
  by (simp add: js_str_def js_or_def truthy_def split: option.splits)

lemma authName_raw:
  "authName cc cfg
     = (case (case cfg of None \<Rightarrow> None | Some g \<Rightarrow> cfg_name g) of
          Some n \<Rightarrow> n
        | None \<Rightarrow>
            (case (case (case cc of
                           None \<Rightarrow> None
                         | Some c \<Rightarrow> (case token c of Some (TokObj u) \<Rightarrow> Some u | _ \<Rightarrow> None)) of
                     None \<Rightarrow> None
                   | Some u \<Rightarrow> tok_name u) of
               Some n \<Rightarrow> if n = [] then ''Authorization'' else n
             | None \<Rightarrow> ''Authorization''))"
  by (simp add: authName_def tokenName_def split: option.splits TokenCfg.splits)

lemma authType_raw:
  "authType cc cfg
     = (case (case cfg of None \<Rightarrow> None | Some g \<Rightarrow> cfg_type g) of
          Some x \<Rightarrow> x
        | None \<Rightarrow>
            (case (case (case cc of
                           None \<Rightarrow> None
                         | Some c \<Rightarrow> (case token c of Some (TokObj u) \<Rightarrow> Some u | _ \<Rightarrow> None)) of
                     None \<Rightarrow> None
                   | Some u \<Rightarrow> tok_type u) of
               Some x \<Rightarrow> x
             | None \<Rightarrow> ''Bearer''))"
  by (simp add: authType_def tokenType_def split: option.splits TokenCfg.splits)

lemma useGqlToken_patch:
  assumes "state (case clientArg args of None \<Rightarrow> ''default'' | Some n \<Rightarrow> n) = Some inst"
  shows "useGqlToken setOptions publicConfig args state
     = Inr (state((case clientArg args of None \<Rightarrow> ''default'' | Some n \<Rightarrow> n) \<mapsto>
         setOptions
           (PatchRecord
              [(authName (map_of publicConfig (js_str (js_or (clientArg args) (Some ''default''))))
                  (configArg args),
                case tokenArg args of
                  None \<Rightarrow> None
                | Some t \<Rightarrow>
                    if t = [] then None
                    else Some (HStr (trim
                      (authType (map_of publicConfig
                                   (js_str (js_or (clientArg args) (Some ''default''))))
                         (configArg args) @ '' '' @ t))))]) inst))"
  using assms
  by (simp add: useGqlToken_def setGqlState_def tokenPatch_def Let_def authValue_Some
        cong: option.case_cong if_cong)

text \<open>
  C4 (as amended). The auth header value is \<open>`${type} ${value}`.trim()\<close>: with an empty
  scheme it is the trimmed token, the bare token when that has no white space at either
  end; \<open>Bearer\<close> and \<open>abc\<close> give \<open>Bearer abc\<close>, and a no-break space after the token is
  trimmed away. A client with no schema path and a \<open>token\<close> object with a truthy value,
  whose header value is not blank after trimming, gets that value under its token name
  in the headers that \<open>prepareConfig\<close> builds for introspection, in both versions of
  \<open>generate.ts\<close>. \<open>useGqlToken\<close>, called for a client that the state has, hands the transport
  one patch with one header: its name is the \<open>name\<close> of the config argument, else the
  truthy token name of the client in the public runtime config, else \<open>Authorization\<close>; its
  type is the \<open>type\<close> of the config argument, else the token type of that client, else
  \<open>Bearer\<close>; its value is \<open>`${type} ${token}`.trim()\<close> when the token is truthy and
  \<open>undefined\<close>, never a blank string, when the token is empty or null. The state
  afterwards is what the transport's \<open>setOptions\<close> makes of that patch.
\<close>

theorem C4_auth_header:
  "authValue type' val = trim (js_str type' @ '' '' @ val)
   \<and> authValue (Some []) val = trim val
   \<and> ((\<forall>w\<in>set whiteSpace. \<not> prefix w val \<and> \<not> suffix w val) \<longrightarrow> authValue (Some []) val = val)
   \<and> authValue (Some ''Bearer'') ''abc'' = ''Bearer abc''
   \<and> authValue (Some []) (''abc'' @ [CHR 0xC2, CHR 0xA0]) = ''abc''
   \<and> (\<not> truthy (schema v) \<and> token v = Some (TokObj u) \<and> tok_value u = Some tok \<and> tok \<noteq> []
        \<and> trim (js_str (tok_type u) @ '' '' @ tok) \<noteq> [] \<longrightarrow>
        (\<exists>hs. fst (prepareClient v) = SchemaWithHeaders (js_str (host v)) hs
            \<and> map_of hs (js_str (tok_name u))
                = Some (HStr (trim (js_str (tok_type u) @ '' '' @ tok))))
        \<and> (\<exists>hs. fst (stitchSource resolve v) = SrcObj (host v) hs
            \<and> map_of hs (js_str (tok_name u))
                = Some (HStr (trim (js_str (tok_type u) @ '' '' @ tok)))))
   \<and> (cl = (case args of
               Positional t os \<Rightarrow> (case os of None \<Rightarrow> None | Some x \<Rightarrow> opt_client x)
             | Named os \<Rightarrow> (if truthy (opt_client os) then opt_client os else None))
        \<and> cfg = (case args of
                   Positional t os \<Rightarrow> (case os of None \<Rightarrow> None | Some x \<Rightarrow> opt_config x)
                 | Named os \<Rightarrow> opt_config os)
        \<and> ct = (case map_of publicConfig
                        (case cl of
                           None \<Rightarrow> ''default''
                         | Some n \<Rightarrow> if n = [] then ''default'' else n) of
                  None \<Rightarrow> None
                | Some c \<Rightarrow> (case token c of Some (TokObj x) \<Rightarrow> Some x | _ \<Rightarrow> None))
        \<and> name = (case (case cfg of None \<Rightarrow> None | Some g \<Rightarrow> cfg_name g) of
                    Some n \<Rightarrow> n
                  | None \<Rightarrow>
                      (case (case ct of None \<Rightarrow> None | Some x \<Rightarrow> tok_name x) of
                         Some n \<Rightarrow> if n = [] then ''Authorization'' else n
                       | None \<Rightarrow> ''Authorization''))
        \<and> ty = (case (case cfg of None \<Rightarrow> None | Some g \<Rightarrow> cfg_type g) of
                  Some x \<Rightarrow> x
                | None \<Rightarrow>
                    (case (case ct of None \<Rightarrow> None | Some x \<Rightarrow> tok_type x) of
                       Some x \<Rightarrow> x
                     | None \<Rightarrow> ''Bearer''))
        \<and> state (case cl of None \<Rightarrow> ''default'' | Some n \<Rightarrow> n) = Some inst \<longrightarrow>
        useGqlToken setOptions publicConfig args state
          = Inr (state((case cl of None \<Rightarrow> ''default'' | Some n \<Rightarrow> n) \<mapsto>
              setOptions
                (PatchRecord
                   [(name,
                     case (case args of Positional t os \<Rightarrow> t | Named os \<Rightarrow> opt_token os) of
                       None \<Rightarrow> None
                     | Some t \<Rightarrow>
                         if t = [] then None else Some (HStr (trim (ty @ '' '' @ t))))])
                inst)))
   \<and> (state ''default'' = Some inst \<and> tok \<noteq> [] \<longrightarrow>
        useGqlToken setOptions [] (Positional (Some tok) None) state
          = Inr (state(''default'' \<mapsto>
              setOptions (PatchRecord [(''Authorization'', Some (HStr (trim (''Bearer '' @ tok))))])
                inst)))
   \<and> (state ''default'' = Some inst \<longrightarrow>
        useGqlToken setOptions [] (Positional None None) state
          = Inr (state(''default'' \<mapsto> setOptions (PatchRecord [(''Authorization'', None)]) inst))
        \<and> useGqlToken setOptions [] (Positional (Some []) None) state
          = Inr (state(''default'' \<mapsto> setOptions (PatchRecord [(''Authorization'', None)]) inst)))"
proof -
  have c1: "authValue type' val = trim (js_str type' @ '' '' @ val)"
    by (simp add: authValue_def)
  have c2: "authValue (Some []) val = trim val"
    by (rule authValue_empty_scheme)
  have c3: "(\<forall>w\<in>set whiteSpace. \<not> prefix w val \<and> \<not> suffix w val) \<longrightarrow> authValue (Some []) val = val"
    by (simp add: authValue_empty_scheme trim_bare)
  note c4 = authValue_examples(1) and c5 = authValue_examples(2)
  have c6: "\<not> truthy (schema v) \<and> token v = Some (TokObj u) \<and> tok_value u = Some tok \<and> tok \<noteq> []
        \<and> trim (js_str (tok_type u) @ '' '' @ tok) \<noteq> [] \<longrightarrow>
        (\<exists>hs. fst (prepareClient v) = SchemaWithHeaders (js_str (host v)) hs
            \<and> map_of hs (js_str (tok_name u))
                = Some (HStr (trim (js_str (tok_type u) @ '' '' @ tok))))
        \<and> (\<exists>hs. fst (stitchSource resolve v) = SrcObj (host v) hs
            \<and> map_of hs (js_str (tok_name u))
                = Some (HStr (trim (js_str (tok_type u) @ '' '' @ tok))))"
  proof
    assume a: "\<not> truthy (schema v) \<and> token v = Some (TokObj u) \<and> tok_value u = Some tok \<and> tok \<noteq> []
        \<and> trim (js_str (tok_type u) @ '' '' @ tok) \<noteq> []"
    then have tk: "token v = Some (TokObj u)" by simp
    note f = tokenFields_raw [OF tk]
    from a have val: "tokenValue v = Some tok" and ne: "tok \<noteq> []"
      and av: "authValue (tokenType v) tok \<noteq> []"
      by (simp_all add: f authValue_def)
    from val ne have t: "truthy (tokenValue v) \<or> headers v \<noteq> None"
      by (simp add: truthy_def)
    from a have ns: "\<not> truthy (schema v)" by simp
    have look: "map_of (withToken v hs) (js_str (tok_name u))
        = Some (HStr (trim (js_str (tok_type u) @ '' '' @ tok)))" for hs
      using withToken_lookup [OF val ne av, of hs] by (simp add: f authValue_def)
    show "(\<exists>hs. fst (prepareClient v) = SchemaWithHeaders (js_str (host v)) hs
            \<and> map_of hs (js_str (tok_name u))
                = Some (HStr (trim (js_str (tok_type u) @ '' '' @ tok))))
        \<and> (\<exists>hs. fst (stitchSource resolve v) = SrcObj (host v) hs
            \<and> map_of hs (js_str (tok_name u))
                = Some (HStr (trim (js_str (tok_type u) @ '' '' @ tok))))"
      by (simp add: prepareClient_headers [OF ns t] stitchSource_headers [OF ns t] look)
  qed
  have c7: "cl = (case args of
               Positional t os \<Rightarrow> (case os of None \<Rightarrow> None | Some x \<Rightarrow> opt_client x)
             | Named os \<Rightarrow> (if truthy (opt_client os) then opt_client os else None))
        \<and> cfg = (case args of
                   Positional t os \<Rightarrow> (case os of None \<Rightarrow> None | Some x \<Rightarrow> opt_config x)
                 | Named os \<Rightarrow> opt_config os)
        \<and> ct = (case map_of publicConfig
                        (case cl of
                           None \<Rightarrow> ''default''
                         | Some n \<Rightarrow> if n = [] then ''default'' else n) of
                  None \<Rightarrow> None
                | Some c \<Rightarrow> (case token c of Some (TokObj x) \<Rightarrow> Some x | _ \<Rightarrow> None))
        \<and> name = (case (case cfg of None \<Rightarrow> None | Some g \<Rightarrow> cfg_name g) of
                    Some n \<Rightarrow> n
                  | None \<Rightarrow>
                      (case (case ct of None \<Rightarrow> None | Some x \<Rightarrow> tok_name x) of
                         Some n \<Rightarrow> if n = [] then ''Authorization'' else n
                       | None \<Rightarrow> ''Authorization''))
        \<and> ty = (case (case cfg of None \<Rightarrow> None | Some g \<Rightarrow> cfg_type g) of
                  Some x \<Rightarrow> x
                | None \<Rightarrow>
                    (case (case ct of None \<Rightarrow> None | Some x \<Rightarrow> tok_type x) of
                       Some x \<Rightarrow> x
                     | None \<Rightarrow> ''Bearer''))
        \<and> state (case cl of None \<Rightarrow> ''default'' | Some n \<Rightarrow> n) = Some inst \<longrightarrow>
        useGqlToken setOptions publicConfig args state
          = Inr (state((case cl of None \<Rightarrow> ''default'' | Some n \<Rightarrow> n) \<mapsto>
              setOptions
                (PatchRecord
                   [(name,
                     case (case args of Positional t os \<Rightarrow> t | Named os \<Rightarrow> opt_token os) of
                       None \<Rightarrow> None
                     | Some t \<Rightarrow>
                         if t = [] then None else Some (HStr (trim (ty @ '' '' @ t))))])
                inst))"
  proof
    assume a: "cl = (case args of
               Positional t os \<Rightarrow> (case os of None \<Rightarrow> None | Some x \<Rightarrow> opt_client x)
             | Named os \<Rightarrow> (if truthy (opt_client os) then opt_client os else None))
        \<and> cfg = (case args of
                   Positional t os \<Rightarrow> (case os of None \<Rightarrow> None | Some x \<Rightarrow> opt_config x)
                 | Named os \<Rightarrow> opt_config os)
        \<and> ct = (case map_of publicConfig
                        (case cl of
                           None \<Rightarrow> ''default''
                         | Some n \<Rightarrow> if n = [] then ''default'' else n) of
                  None \<Rightarrow> None
                | Some c \<Rightarrow> (case token c of Some (TokObj x) \<Rightarrow> Some x | _ \<Rightarrow> None))
        \<and> name = (case (case cfg of None \<Rightarrow> None | Some g \<Rightarrow> cfg_name g) of
                    Some n \<Rightarrow> n
                  | None \<Rightarrow>
                      (case (case ct of None \<Rightarrow> None | Some x \<Rightarrow> tok_name x) of
                         Some n \<Rightarrow> if n = [] then ''Authorization'' else n
                       | None \<Rightarrow> ''Authorization''))
        \<and> ty = (case (case cfg of None \<Rightarrow> None | Some g \<Rightarrow> cfg_type g) of
                  Some x \<Rightarrow> x
                | None \<Rightarrow>
                    (case (case ct of None \<Rightarrow> None | Some x \<Rightarrow> tok_type x) of
                       Some x \<Rightarrow> x
                     | None \<Rightarrow> ''Bearer''))
        \<and> state (case cl of None \<Rightarrow> ''default'' | Some n \<Rightarrow> n) = Some inst"
    note a1 = a [THEN conjunct1]
      and a2 = a [THEN conjunct2, THEN conjunct1]
      and a3 = a [THEN conjunct2, THEN conjunct2, THEN conjunct1]
      and a4 = a [THEN conjunct2, THEN conjunct2, THEN conjunct2, THEN conjunct1]
      and a5 = a [THEN conjunct2, THEN conjunct2, THEN conjunct2, THEN conjunct2, THEN conjunct1]
      and a6 = a [THEN conjunct2, THEN conjunct2, THEN conjunct2, THEN conjunct2, THEN conjunct2]
    have cl: "cl = clientArg args"
      unfolding clientArg_raw by (rule a1)
    have cfg: "cfg = configArg args"
      unfolding configArg_raw by (rule a2)
    have ct: "ct = (case map_of publicConfig (js_str (js_or (clientArg args) (Some ''default''))) of
                  None \<Rightarrow> None
                | Some c \<Rightarrow> (case token c of Some (TokObj x) \<Rightarrow> Some x | _ \<Rightarrow> None))"
      unfolding configKey_raw cl [symmetric] by (rule a3)
    have name: "name = authName (map_of publicConfig
          (js_str (js_or (clientArg args) (Some ''default'')))) (configArg args)"
      unfolding authName_raw cfg [symmetric] ct [symmetric] by (rule a4)
    have ty: "ty = authType (map_of publicConfig
          (js_str (js_or (clientArg args) (Some ''default'')))) (configArg args)"
      unfolding authType_raw cfg [symmetric] ct [symmetric] by (rule a5)
    have st: "state (case clientArg args of None \<Rightarrow> ''default'' | Some n \<Rightarrow> n) = Some inst"
      unfolding cl [symmetric] by (rule a6)
    show "useGqlToken setOptions publicConfig args state
          = Inr (state((case cl of None \<Rightarrow> ''default'' | Some n \<Rightarrow> n) \<mapsto>
              setOptions
                (PatchRecord
                   [(name,
                     case (case args of Positional t os \<Rightarrow> t | Named os \<Rightarrow> opt_token os) of
                       None \<Rightarrow> None
                     | Some t \<Rightarrow>
                         if t = [] then None else Some (HStr (trim (ty @ '' '' @ t))))])
                inst))"
      unfolding useGqlToken_patch [where state = state and args = args and inst = inst
          and setOptions = setOptions and publicConfig = publicConfig, OF st]
        cl name ty tokenArg_raw ..
  qed
  have c8: "state ''default'' = Some inst \<and> tok \<noteq> [] \<longrightarrow>
        useGqlToken setOptions [] (Positional (Some tok) None) state
          = Inr (state(''default'' \<mapsto>
              setOptions (PatchRecord [(''Authorization'', Some (HStr (trim (''Bearer '' @ tok))))])
                inst))"
    by (simp add: useGqlToken_def setGqlState_def tokenPatch_def Let_def authValue_def js_str_def
          js_or_def truthy_def authName_def authType_def)
  have c9: "state ''default'' = Some inst \<longrightarrow>
        useGqlToken setOptions [] (Positional None None) state
          = Inr (state(''default'' \<mapsto> setOptions (PatchRecord [(''Authorization'', None)]) inst))
        \<and> useGqlToken setOptions [] (Positional (Some []) None) state
          = Inr (state(''default'' \<mapsto> setOptions (PatchRecord [(''Authorization'', None)]) inst))"
    by (simp add: useGqlToken_def setGqlState_def tokenPatch_def Let_def authValue_def js_str_def
          js_or_def truthy_def authName_def authType_def)
  from c1 c2 c3 c4 c5 c6 c7 c8 c9 show ?thesis
    by (intro conjI)
qed

text \<open>
  A client with the token \<open>abc\<close> of type \<open>Bearer\<close> is introspected with
  \<open>Authorization: Bearer abc\<close>. With a transport that assigns the headers of a patch
  over its own: \<open>useGqlToken({ token: 'abc', config: { type: 'Basic' }, client: 'blog' })\<close>,
  where the public runtime config names the header of \<open>blog\<close> \<open>X-Auth\<close>, sets
  \<open>X-Auth: Basic abc\<close> and keeps \<open>X-A\<close>; \<open>useGqlToken(null)\<close> leaves \<open>Authorization\<close> of
  \<open>default\<close> without a value.
\<close>

theorem C4_auth_header_witness:
  "authValue (Some []) ''abc'' = ''abc''
   \<and> (\<exists>hs. fst (prepareClient (noClient\<lparr> host := Some ''https://api.a/graphql'',
               token := Some (TokObj \<lparr> tok_name = Some ''Authorization'',
                  tok_value = Some ''abc'', tok_type = Some ''Bearer'' \<rparr>) \<rparr>))
           = SchemaWithHeaders ''https://api.a/graphql'' hs
         \<and> map_of hs ''Authorization'' = Some (HStr ''Bearer abc''))
   \<and> useGqlToken assignHeaders
        [(''blog'', noClient\<lparr> token := Some (TokObj \<lparr> tok_name = Some ''X-Auth'',
                      tok_value = None, tok_type = Some ''Token'' \<rparr>) \<rparr>)]
        (Named \<lparr> opt_token = Some ''abc'',
                 opt_config = Some \<lparr> cfg_name = None, cfg_type = Some ''Basic'' \<rparr>,
                 opt_client = Some ''blog'' \<rparr>)
        [''blog'' \<mapsto> \<lparr> ident = 1::nat, requestHeaders = [(''X-A'', Some (HStr ''1''))] \<rparr>]
      = Inr [''blog'' \<mapsto> \<lparr> ident = 1::nat,
               requestHeaders = [(''X-A'', Some (HStr ''1'')),
                                 (''X-Auth'', Some (HStr ''Basic abc''))] \<rparr>]
   \<and> useGqlToken assignHeaders [] (Positional None None)
        [''default'' \<mapsto> \<lparr> ident = 0::nat,
            requestHeaders = [(''Authorization'', Some (HStr ''Bearer old'')),
                              (''X-A'', Some (HStr ''1''))] \<rparr>]
      = Inr [''default'' \<mapsto> \<lparr> ident = 0::nat,
               requestHeaders = [(''Authorization'', None), (''X-A'', Some (HStr ''1''))] \<rparr>]"
proof -
  let ?u = "\<lparr> tok_name = Some ''Authorization'', tok_value = Some ''abc'',
              tok_type = Some ''Bearer'' \<rparr>"
  let ?v = "noClient\<lparr> host := Some ''https://api.a/graphql'', token := Some (TokObj ?u) \<rparr>"
  let ?bt = "\<lparr> tok_name = Some ''X-Auth'', tok_value = None, tok_type = Some ''Token'' \<rparr>"
  let ?pc = "[(''blog'', noClient\<lparr> token := Some (TokObj ?bt) \<rparr>)]"
  let ?cfg = "\<lparr> cfg_name = None, cfg_type = Some ''Basic'' \<rparr>"
  let ?args = "Named \<lparr> opt_token = Some ''abc'', opt_config = Some ?cfg,
                        opt_client = Some ''blog'' \<rparr>"
  let ?ib = "\<lparr> ident = 1::nat, requestHeaders = [(''X-A'', Some (HStr ''1''))] \<rparr>"
  let ?id = "\<lparr> ident = 0::nat,
               requestHeaders = [(''Authorization'', Some (HStr ''Bearer old'')),
                                 (''X-A'', Some (HStr ''1''))] \<rparr>"
  have tr: "trim ''Bearer abc'' = ''Bearer abc''" "trim ''Basic abc'' = ''Basic abc''"
    by (simp_all add: trim_def stripLeading.simps whiteSpace_def)
  note codegen = C4_auth_header [where v = "?v" and u = "?u" and tok = "''abc''"
      and val = "''abc''" and resolve = "\<lambda>p. p" and type' = None
      and args = "Positional None None" and publicConfig = "[]" and cl = None
      and state = "[''default'' \<mapsto> ?id]" and inst = "?id" and setOptions = assignHeaders]
  note runtime = C4_auth_header [where args = "?args" and publicConfig = "?pc"
      and cl = "Some ''blog''" and cfg = "Some ?cfg" and ct = "Some ?bt"
      and name = "''X-Auth''" and ty = "''Basic''"
      and state = "[''blog'' \<mapsto> ?ib]" and inst = "?ib" and setOptions = assignHeaders]
  have h3: "\<forall>w\<in>set whiteSpace. \<not> prefix w ''abc'' \<and> \<not> suffix w ''abc''"
    by (simp add: whiteSpace_def suffix_to_prefix)
  have h6: "\<not> truthy (schema ?v) \<and> token ?v = Some (TokObj ?u) \<and> tok_value ?u = Some ''abc''
        \<and> ''abc'' \<noteq> [] \<and> trim (js_str (tok_type ?u) @ '' '' @ ''abc'') \<noteq> []"
    by (simp add: noClient_def truthy_def js_str_def tr)
  have h7: "Some ''blog'' = (case ?args of
               Positional t os \<Rightarrow> (case os of None \<Rightarrow> None | Some x \<Rightarrow> opt_client x)
             | Named os \<Rightarrow> (if truthy (opt_client os) then opt_client os else None))
        \<and> Some ?cfg = (case ?args of
                   Positional t os \<Rightarrow> (case os of None \<Rightarrow> None | Some x \<Rightarrow> opt_config x)
                 | Named os \<Rightarrow> opt_config os)
        \<and> Some ?bt = (case map_of ?pc
                        (case Some ''blog'' of
                           None \<Rightarrow> ''default''
                         | Some n \<Rightarrow> if n = [] then ''default'' else n) of
                  None \<Rightarrow> None
                | Some c \<Rightarrow> (case token c of Some (TokObj x) \<Rightarrow> Some x | _ \<Rightarrow> None))
        \<and> ''X-Auth'' = (case (case Some ?cfg of None \<Rightarrow> None | Some g \<Rightarrow> cfg_name g) of
                    Some n \<Rightarrow> n
                  | None \<Rightarrow>
                      (case (case Some ?bt of None \<Rightarrow> None | Some x \<Rightarrow> tok_name x) of
                         Some n \<Rightarrow> if n = [] then ''Authorization'' else n
                       | None \<Rightarrow> ''Authorization''))
        \<and> ''Basic'' = (case (case Some ?cfg of None \<Rightarrow> None | Some g \<Rightarrow> cfg_type g) of
                  Some x \<Rightarrow> x
                | None \<Rightarrow>
                    (case (case Some ?bt of None \<Rightarrow> None | Some x \<Rightarrow> tok_type x) of
                       Some x \<Rightarrow> x
                     | None \<Rightarrow> ''Bearer''))
        \<and> [''blog'' \<mapsto> ?ib] (case Some ''blog'' of None \<Rightarrow> ''default'' | Some n \<Rightarrow> n) = Some ?ib"
    by (simp add: truthy_def)
  have h9: "[''default'' \<mapsto> ?id] ''default'' = Some ?id"
    by simp
  note bare = codegen [THEN conjunct2, THEN conjunct2, THEN conjunct1, THEN mp, OF h3]
  note intro = codegen [THEN conjunct2, THEN conjunct2, THEN conjunct2, THEN conjunct2,
      THEN conjunct2, THEN conjunct1, THEN mp, OF h6, THEN conjunct1]
  note set = runtime [THEN conjunct2, THEN conjunct2, THEN conjunct2, THEN conjunct2,
      THEN conjunct2, THEN conjunct2, THEN conjunct1, THEN mp, OF h7]
  note unset = codegen [THEN conjunct2, THEN conjunct2, THEN conjunct2, THEN conjunct2,
      THEN conjunct2, THEN conjunct2, THEN conjunct2, THEN conjunct2, THEN mp, OF h9,
      THEN conjunct1]
  from intro have w2: "\<exists>hs. fst (prepareClient ?v) = SchemaWithHeaders ''https://api.a/graphql'' hs
         \<and> map_of hs ''Authorization'' = Some (HStr ''Bearer abc'')"
    by (simp add: js_str_def tr)
  from set have w3: "useGqlToken assignHeaders ?pc ?args [''blog'' \<mapsto> ?ib]
      = Inr [''blog'' \<mapsto> \<lparr> ident = 1::nat,
               requestHeaders = [(''X-A'', Some (HStr ''1'')),
                                 (''X-Auth'', Some (HStr ''Basic abc''))] \<rparr>]"
    by (simp add: assignHeaders_def spread_def tr)
  from unset have w4: "useGqlToken assignHeaders [] (Positional None None) [''default'' \<mapsto> ?id]
      = Inr [''default'' \<mapsto> \<lparr> ident = 0::nat,
               requestHeaders = [(''Authorization'', None), (''X-A'', Some (HStr ''1''))] \<rparr>]"
    by (simp add: assignHeaders_def spread_def)
  from bare w2 w3 w4 show ?thesis by (intro conjI)
qed

text \<open>
  C4 as stated fails for a transport that assigns the headers of a patch over its own:
  after \<open>useGqlToken(null)\<close> the key \<open>Authorization\<close> is still among the headers of the
  client, without a value. What \<open>useGqlToken\<close> itself does is hand over the patch
  \<open>{ Authorization: undefined }\<close>.
\<close>

theorem C4_counterexample:
  "useGqlToken assignHeaders [] (Positional None None)
        [''default'' \<mapsto> \<lparr> ident = 0::nat,
            requestHeaders = [(''Authorization'', Some (HStr ''Bearer old''))] \<rparr>]
      = Inr [''default'' \<mapsto> \<lparr> ident = 0::nat, requestHeaders = [(''Authorization'', None)] \<rparr>]
   \<and> ''Authorization''
        \<in> fst ` set (requestHeaders \<lparr> ident = 0::nat, requestHeaders = [(''Authorization'', None)] \<rparr>)
   \<and> tokenPatch [] (Positional None None) = [(''Authorization'', None)]"
  by (simp add: useGqlToken_def setGqlState_def tokenPatch_def Let_def js_or_def truthy_def
        authName_def authType_def assignHeaders_def spread_def)

lemma deleteServerOnly_object:
  assumes "headers v = Some h" and "map_of h ''serverOnly'' = Some (HObj so)"
  shows "deleteServerOnly v = v\<lparr> headers := Some (delete_key ''serverOnly'' h) \<rparr>"
    and "serverHeaders (headers v) = map (\<lambda>(n, x). (n, HStr x)) so"
  using assms by (simp_all add: deleteServerOnly_def serverHeaders_def)

lemma deleteServerOnly_gone:
  assumes "map_of h ''serverOnly'' = None"
  shows "deleteServerOnly (v\<lparr> headers := Some h \<rparr>) = v\<lparr> headers := Some h \<rparr>"
    and "serverHeaders (Some h) = []"
  using assms by (simp_all add: deleteServerOnly_def serverHeaders_def)

lemma token_fields_headers:
  "tokenValue (v\<lparr> headers := x \<rparr>) = tokenValue v"
  "tokenType (v\<lparr> headers := x \<rparr>) = tokenType v"
  "tokenName (v\<lparr> headers := x \<rparr>) = tokenName v"
  by (simp_all add: tokenValue_def tokenType_def tokenName_def)

lemma tokenHeader_headers: "tokenHeader (v\<lparr> headers := x \<rparr>) = tokenHeader v"
  by (simp add: tokenHeader_def token_fields_headers split: option.splits)

lemma withToken_headers: "withToken (v\<lparr> headers := x \<rparr>) hs = withToken v hs"
  by (simp add: withToken_def tokenHeader_headers token_fields_headers)

lemma snd_reduceClients:
  "snd (reduceClients resolve cs acc) = map (\<lambda>(k, v). (k, snd (stitchSource resolve v))) cs"
proof (induction cs arbitrary: acc)
  case Nil
  then show ?case by simp
next
  case (Cons a cs)
  obtain k v where a: "a = (k, v)" by (cases a)
  show ?case
    by (simp add: a Let_def case_prod_beta Cons.IH)
qed

lemma snd_prepareConfigStitch:
  "snd (prepareConfigStitch resolve introspect loadSchema stitch cs)
     = map (\<lambda>(k, v). (k, snd (stitchSource resolve v))) cs"
  by (simp add: prepareConfigStitch_def Let_def case_prod_beta snd_reduceClients)

lemma spread_nil: "spread a [] = a"
  by (simp add: spread_def)

text \<open>
  C10 (as amended). For a client with no schema path whose headers hold a \<open>serverOnly\<close>
  record, \<open>prepareConfig\<close> (both versions) leaves the client in \<open>options.clients\<close> with
  that record deleted from its headers, so the clients after the call differ from the
  clients before it: the first pass builds the headers with the server-only entries
  spread in, a second pass over the same clients builds them without, and deletes
  nothing more. The stitching version overwrites the \<open>schema\<close> of a client that has a
  schema path with the resolved path.
\<close>

theorem C10_prepareConfig_mutates:
  assumes "(k, v) \<in> set cs" and "\<not> truthy (schema v)" and "headers v = Some h"
    and "map_of h ''serverOnly'' = Some (HObj so)"
  shows "(k, v\<lparr> headers := Some (delete_key ''serverOnly'' h) \<rparr>) \<in> set (snd (prepareConfig cs))
     \<and> (k, v\<lparr> headers := Some (delete_key ''serverOnly'' h) \<rparr>)
          \<in> set (snd (prepareConfigStitch resolve introspect loadSchema stitch cs))
     \<and> map_of (delete_key ''serverOnly'' h) ''serverOnly'' = None
     \<and> map fst (snd (prepareConfig cs)) = map fst cs
     \<and> snd (prepareConfig cs) \<noteq> cs
     \<and> fst (prepareClient v)
         = SchemaWithHeaders (js_str (host v))
             (withToken v (spread (delete_key ''serverOnly'' h) (map (\<lambda>(n, x). (n, HStr x)) so)))
     \<and> fst (prepareClient (v\<lparr> headers := Some (delete_key ''serverOnly'' h) \<rparr>))
         = SchemaWithHeaders (js_str (host v)) (withToken v (delete_key ''serverOnly'' h))
     \<and> snd (prepareClient (v\<lparr> headers := Some (delete_key ''serverOnly'' h) \<rparr>))
         = v\<lparr> headers := Some (delete_key ''serverOnly'' h) \<rparr>
     \<and> (\<forall>k' w s. (k', w) \<in> set cs \<and> schema w = Some s \<and> s \<noteq> [] \<longrightarrow>
          (k', w\<lparr> schema := Some (resolve s) \<rparr>)
            \<in> set (snd (prepareConfigStitch resolve introspect loadSchema stitch cs)))"
proof -
  let ?v' = "v\<lparr> headers := Some (delete_key ''serverOnly'' h) \<rparr>"
  have gone: "map_of (delete_key ''serverOnly'' h) ''serverOnly'' = None"
    by (simp add: map_of_delete_key)
  have hv: "truthy (tokenValue v) \<or> headers v \<noteq> None"
    using assms(3) by simp
  have hv': "truthy (tokenValue ?v') \<or> headers ?v' \<noteq> None" and sv': "\<not> truthy (schema ?v')"
    using assms(2) by simp_all
  note d = deleteServerOnly_object [OF assms(3,4)]
  have p1: "prepareClient v
      = (SchemaWithHeaders (js_str (host v))
           (withToken v (spread (delete_key ''serverOnly'' h) (map (\<lambda>(n, x). (n, HStr x)) so))),
         ?v')"
    by (simp add: prepareClient_headers [OF assms(2) hv] d)
  have s1: "stitchSource resolve v
      = (SrcObj (host v)
           (withToken v (spread (delete_key ''serverOnly'' h) (map (\<lambda>(n, x). (n, HStr x)) so))),
         ?v')"
    by (simp add: stitchSource_headers [OF assms(2) hv] d)
  have p2: "prepareClient ?v'
      = (SchemaWithHeaders (js_str (host v)) (withToken v (delete_key ''serverOnly'' h)), ?v')"
    using deleteServerOnly_gone(1) [OF gone, of v] deleteServerOnly_gone(2) [OF gone]
    by (simp add: prepareClient_headers [OF sv' hv'] withToken_headers spread_nil)
  have m1: "(k, ?v') \<in> set (snd (prepareConfig cs))"
  proof -
    from assms(1) have "(\<lambda>(k, v). (k, snd (prepareClient v))) (k, v)
        \<in> (\<lambda>(k, v). (k, snd (prepareClient v))) ` set cs"
      by (rule imageI)
    then show ?thesis by (simp add: prepareConfig_def p1)
  qed
  have m2: "(k, ?v') \<in> set (snd (prepareConfigStitch resolve introspect loadSchema stitch cs))"
  proof -
    from assms(1) have "(\<lambda>(k, v). (k, snd (stitchSource resolve v))) (k, v)
        \<in> (\<lambda>(k, v). (k, snd (stitchSource resolve v))) ` set cs"
      by (rule imageI)
    then show ?thesis by (simp add: snd_prepareConfigStitch s1)
  qed
  have keys: "map fst (snd (prepareConfig cs)) = map fst cs"
    by (simp add: prepareConfig_def case_prod_beta comp_def)
  have changed: "snd (prepareConfig cs) \<noteq> cs"
  proof
    assume "snd (prepareConfig cs) = cs"
    then have "map (\<lambda>(k, v). (k, snd (prepareClient v))) cs = map (\<lambda>x. x) cs"
      by (simp add: prepareConfig_def)
    then have "\<forall>x\<in>set cs. (\<lambda>(k, v). (k, snd (prepareClient v))) x = x"
      by (simp only: map_eq_conv)
    with assms(1) have "snd (prepareClient v) = v" by auto
    with p1 have "headers ?v' = headers v" by simp
    with assms(3) have "delete_key ''serverOnly'' h = h" by simp
    with gone assms(4) show False by simp
  qed
  have sch: "(k', w\<lparr> schema := Some (resolve s) \<rparr>)
            \<in> set (snd (prepareConfigStitch resolve introspect loadSchema stitch cs))"
    if "(k', w) \<in> set cs" and "schema w = Some s" and "s \<noteq> []" for k' w s
  proof -
    from that(2,3) have "snd (stitchSource resolve w) = w\<lparr> schema := Some (resolve s) \<rparr>"
      by (simp add: stitchSource_def truthy_def)
    moreover from that(1) have "(\<lambda>(k, v). (k, snd (stitchSource resolve v))) (k', w)
        \<in> (\<lambda>(k, v). (k, snd (stitchSource resolve v))) ` set cs"
      by (rule imageI)
    ultimately show ?thesis by (simp add: snd_prepareConfigStitch)
  qed
  have sch': "\<forall>k' w s. (k', w) \<in> set cs \<and> schema w = Some s \<and> s \<noteq> [] \<longrightarrow>
          (k', w\<lparr> schema := Some (resolve s) \<rparr>)
            \<in> set (snd (prepareConfigStitch resolve introspect loadSchema stitch cs))"
    using sch by blast
  from m1 m2 gone keys changed p1 p2 sch' show ?thesis
    by simp
qed

text \<open>
  Two passes over the same clients: the first sends \<open>X-Secret\<close>, the second does not;
  the stitching version resolves the schema path of \<open>local\<close>.
\<close>

theorem C10_prepareConfig_mutates_witness:
  "fst (prepareConfig
      [(''default'', noClient\<lparr> host := Some ''https://api.a/graphql'',
          headers := Some [(''X-Public'', HStr ''1''),
                           (''serverOnly'', HObj [(''X-Secret'', ''s3cret'')])] \<rparr>),
       (''local'', noClient\<lparr> host := Some ''https://api.b/graphql'',
          schema := Some ''schema.graphql'' \<rparr>)])
     = [SchemaWithHeaders ''https://api.a/graphql''
          [(''X-Public'', HStr ''1''), (''X-Secret'', HStr ''s3cret'')],
        SchemaStr (Some ''schema.graphql'')]
   \<and> fst (prepareConfig (snd (prepareConfig
      [(''default'', noClient\<lparr> host := Some ''https://api.a/graphql'',
          headers := Some [(''X-Public'', HStr ''1''),
                           (''serverOnly'', HObj [(''X-Secret'', ''s3cret'')])] \<rparr>),
       (''local'', noClient\<lparr> host := Some ''https://api.b/graphql'',
          schema := Some ''schema.graphql'' \<rparr>)])))
     = [SchemaWithHeaders ''https://api.a/graphql'' [(''X-Public'', HStr ''1'')],
        SchemaStr (Some ''schema.graphql'')]
   \<and> snd (prepareConfig
      [(''default'', noClient\<lparr> host := Some ''https://api.a/graphql'',
          headers := Some [(''X-Public'', HStr ''1''),
                           (''serverOnly'', HObj [(''X-Secret'', ''s3cret'')])] \<rparr>),
       (''local'', noClient\<lparr> host := Some ''https://api.b/graphql'',
          schema := Some ''schema.graphql'' \<rparr>)])
     \<noteq> [(''default'', noClient\<lparr> host := Some ''https://api.a/graphql'',
          headers := Some [(''X-Public'', HStr ''1''),
                           (''serverOnly'', HObj [(''X-Secret'', ''s3cret'')])] \<rparr>),
       (''local'', noClient\<lparr> host := Some ''https://api.b/graphql'',
          schema := Some ''schema.graphql'' \<rparr>)]
   \<and> (''local'', noClient\<lparr> host := Some ''https://api.b/graphql'',
          schema := Some ''schema.graphql'' \<rparr>\<lparr> schema := Some ''/app/schema.graphql'' \<rparr>)
       \<in> set (snd (prepareConfigStitch (\<lambda>p. ''/app/'' @ p) (\<lambda>h hs. None) (\<lambda>v. None) None
      [(''default'', noClient\<lparr> host := Some ''https://api.a/graphql'',
          headers := Some [(''X-Public'', HStr ''1''),
                           (''serverOnly'', HObj [(''X-Secret'', ''s3cret'')])] \<rparr>),
       (''local'', noClient\<lparr> host := Some ''https://api.b/graphql'',
          schema := Some ''schema.graphql'' \<rparr>)]))"
proof -
  let ?h = "[(''X-Public'', HStr ''1''), (''serverOnly'', HObj [(''X-Secret'', ''s3cret'')])]"
  let ?v = "noClient\<lparr> host := Some ''https://api.a/graphql'', headers := Some ?h \<rparr>"
  let ?w = "noClient\<lparr> host := Some ''https://api.b/graphql'', schema := Some ''schema.graphql'' \<rparr>"
  let ?cs = "[(''default'', ?v), (''local'', ?w)]"
  note inst = C10_prepareConfig_mutates [where k = "''default''" and v = "?v" and cs = "?cs"
      and h = "?h" and so = "[(''X-Secret'', ''s3cret'')]" and resolve = "\<lambda>p. ''/app/'' @ p"
      and introspect = "\<lambda>h hs. None" and loadSchema = "\<lambda>v. None" and stitch = None]
  have h1: "(''default'', ?v) \<in> set ?cs" by simp
  have h2: "\<not> truthy (schema ?v)" by (simp add: noClient_def truthy_def)
  have h3: "headers ?v = Some ?h" by simp
  have h4: "map_of ?h ''serverOnly'' = Some (HObj [(''X-Secret'', ''s3cret'')])" by simp
  have h5: "(''local'', ?w) \<in> set ?cs \<and> schema ?w = Some ''schema.graphql''
      \<and> ''schema.graphql'' \<noteq> []" by simp
  note changed = inst [OF h1 h2 h3 h4, THEN conjunct2, THEN conjunct2, THEN conjunct2,
      THEN conjunct2, THEN conjunct1]
  note resolved = inst [OF h1 h2 h3 h4, THEN conjunct2, THEN conjunct2, THEN conjunct2,
      THEN conjunct2, THEN conjunct2, THEN conjunct2, THEN conjunct2, THEN conjunct2,
      THEN spec, THEN spec, THEN spec, THEN mp, OF h5]
  have first: "fst (prepareConfig ?cs)
     = [SchemaWithHeaders ''https://api.a/graphql''
          [(''X-Public'', HStr ''1''), (''X-Secret'', HStr ''s3cret'')],
        SchemaStr (Some ''schema.graphql'')]"
    by (simp add: prepareConfig_def prepareClient_def Let_def noClient_def truthy_def
          tokenValue_def serverHeaders_def deleteServerOnly_def delete_key_def spread_def
          withToken_def tokenHeader_def js_str_def)
  have second: "fst (prepareConfig (snd (prepareConfig ?cs)))
     = [SchemaWithHeaders ''https://api.a/graphql'' [(''X-Public'', HStr ''1'')],
        SchemaStr (Some ''schema.graphql'')]"
    by (simp add: prepareConfig_def prepareClient_def Let_def noClient_def truthy_def
          tokenValue_def serverHeaders_def deleteServerOnly_def delete_key_def spread_def
          withToken_def tokenHeader_def js_str_def)
  from resolved have "(''local'', ?w\<lparr> schema := Some ''/app/schema.graphql'' \<rparr>)
       \<in> set (snd (prepareConfigStitch (\<lambda>p. ''/app/'' @ p) (\<lambda>h hs. None) (\<lambda>v. None) None ?cs))"
    by simp
  with first second changed show ?thesis by (intro conjI)
qed

text \<open>
  C10 as stated fails for a client that has a schema path: \<open>prepareConfig\<close> returns the
  path before it reaches the headers, and the \<open>serverOnly\<close> record stays.
\<close>

theorem C10_counterexample:
  "map_option (\<lambda>h. map_of h ''serverOnly'')
     (headers (noClient\<lparr> host := Some ''https://api.a/graphql'',
        schema := Some ''/app/schema.graphql'',
        headers := Some [(''serverOnly'', HObj [(''X-Secret'', ''s3cret'')])] \<rparr>))
     = Some (Some (HObj [(''X-Secret'', ''s3cret'')]))
   \<and> prepareConfig [(''default'', noClient\<lparr> host := Some ''https://api.a/graphql'',
        schema := Some ''/app/schema.graphql'',
        headers := Some [(''serverOnly'', HObj [(''X-Secret'', ''s3cret'')])] \<rparr>)]
     = ([SchemaStr (Some ''/app/schema.graphql'')],
        [(''default'', noClient\<lparr> host := Some ''https://api.a/graphql'',
            schema := Some ''/app/schema.graphql'',
            headers := Some [(''serverOnly'', HObj [(''X-Secret'', ''s3cret'')])] \<rparr>)])
   \<and> snd (prepareConfigStitch (\<lambda>p. p) (\<lambda>h hs. None) (\<lambda>v. None) None
        [(''default'', noClient\<lparr> host := Some ''https://api.a/graphql'',
            schema := Some ''/app/schema.graphql'',
            headers := Some [(''serverOnly'', HObj [(''X-Secret'', ''s3cret'')])] \<rparr>)])
     = [(''default'', noClient\<lparr> host := Some ''https://api.a/graphql'',
            schema := Some ''/app/schema.graphql'',
            headers := Some [(''serverOnly'', HObj [(''X-Secret'', ''s3cret'')])] \<rparr>)]"
  by (simp add: prepareConfig_def prepareClient_def prepareConfigStitch_def stitchSource_def
        stitchOff_def Let_def noClient_def truthy_def)

section \<open>Server-only headers\<close>

lemma publicClients_storeClient:
  "map_of (publicClients (storeClient k v conf r))
     = (map_of (publicClients r))
         (k \<mapsto> if truthy (tokenValue conf) \<and> \<not> userRetainToken v
                then dropTokenValue conf else conf)"
  by (simp add: storeClient_def Let_def deepmerge_def map_of_set_key)

lemma headers_dropTokenValue: "headers (dropTokenValue c) = headers c"
  by (simp add: dropTokenValue_def)

lemma headers_resolveClient:
  "resolveClient upper resolve existsSync env k v = Inr conf \<Longrightarrow>
     headers conf = headers (userObject v)"
  by (auto simp: resolveClient_def Let_def split: if_splits)

lemma setupClients_other_public:
  "setupClients upper resolve existsSync env cs r = Inr out \<Longrightarrow> k \<notin> fst ` set cs \<Longrightarrow>
     map_of (publicClients out) k = map_of (publicClients r) k"
proof (induction cs arbitrary: r)
  case Nil
  then show ?case by simp
next
  case (Cons a cs)
  obtain k0 v0 where a: "a = (k0, v0)" by (cases a)
  from Cons.prems(1) a obtain conf where
    rest: "setupClients upper resolve existsSync env cs (storeClient k0 v0 conf r) = Inr out"
    by (auto split: sum.splits)
  from Cons.prems(2) a have "k \<noteq> k0" and "k \<notin> fst ` set cs" by auto
  with Cons.IH [OF rest] show ?case
    by (simp add: publicClients_storeClient)
qed

text \<open>The client of the public runtime config has the headers of the user's object.\<close>

lemma setupClients_public_headers:
  "setupClients upper resolve existsSync env cs r = Inr out \<Longrightarrow> distinct (map fst cs) \<Longrightarrow>
   (k, v) \<in> set cs \<Longrightarrow>
     \<exists>conf. map_of (publicClients out) k = Some conf \<and> headers conf = headers (userObject v)"
proof (induction cs arbitrary: r)
  case Nil
  then show ?case by simp
next
  case (Cons a cs)
  obtain k0 v0 where a: "a = (k0, v0)" by (cases a)
  from Cons.prems(1) a obtain conf where
    conf: "resolveClient upper resolve existsSync env k0 v0 = Inr conf"
    and rest: "setupClients upper resolve existsSync env cs (storeClient k0 v0 conf r) = Inr out"
    by (auto split: sum.splits)
  from Cons.prems(2) a have fresh: "k0 \<notin> fst ` set cs" and dist: "distinct (map fst cs)"
    by auto
  show ?case
  proof (cases "(k, v) = (k0, v0)")
    case True
    let ?pub = "if truthy (tokenValue conf) \<and> \<not> userRetainToken v0
                then dropTokenValue conf else conf"
    from setupClients_other_public [OF rest fresh]
    have "map_of (publicClients out) k0 = Some ?pub"
      by (simp add: publicClients_storeClient)
    moreover have "headers ?pub = headers (userObject v0)"
      using headers_resolveClient [OF conf] by (simp add: headers_dropTokenValue)
    ultimately show ?thesis using True by blast
  next
    case False
    with Cons.prems(3) a have "(k, v) \<in> set cs" by auto
    from Cons.IH [OF rest dist this] show ?thesis .
  qed
qed

lemma js_or_None: "js_or None b = b"
  by (simp add: js_or_def truthy_def)

lemma spread_nil_right: "spread a [] = a"
  by (simp add: spread_def)

text \<open>
  \<open>useGqlHeaders({ headers: {}, client, respectDefaults: true })\<close> for a client whose
  headers in the public runtime config hold a \<open>serverOnly\<close> record.
\<close>

lemma useGqlHeaders_defaults:
  assumes "state (case cl of None \<Rightarrow> ''default'' | Some n \<Rightarrow> n) = Some inst"
    and "map_of pc (case cl of None \<Rightarrow> ''default'' | Some n \<Rightarrow> if n = [] then ''default'' else n)
           = Some cc"
    and "headers cc = Some h" and "map_of h ''serverOnly'' = Some (HObj so)"
  shows "useGqlHeaders setOptions isServer pc
           (HeadersOpts \<lparr> hopt_headers = Some [], hopt_client = cl,
                          hopt_respectDefaults = Some True \<rparr> None) state
     = Inr (state((case cl of None \<Rightarrow> ''default'' | Some n \<Rightarrow> n) \<mapsto>
              setOptions
                (PatchRecord
                   (map (\<lambda>(n, x). (n, Some x))
                      (if isServer
                       then spread (delete_key ''serverOnly'' h) (map (\<lambda>(n, x). (n, HStr x)) so)
                       else delete_key ''serverOnly'' h)))
                (setOptions (PatchRecord []) inst)),
            set_key (case cl of None \<Rightarrow> ''default'' | Some n \<Rightarrow> if n = [] then ''default'' else n)
              (cc\<lparr> headers := Some (delete_key ''serverOnly'' h) \<rparr>) pc)"
proof -
  let ?sk = "case cl of None \<Rightarrow> ''default'' | Some n \<Rightarrow> n"
  let ?ck = "case cl of None \<Rightarrow> ''default'' | Some n \<Rightarrow> if n = [] then ''default'' else n"
  let ?state1 = "state(?sk \<mapsto> setOptions (PatchRecord []) inst)"
  have first: "setGqlState setOptions cl (PatchRecord []) state = Inr ?state1"
    using assms(1) by (simp add: setGqlState_def Let_def)
  have second: "setGqlState setOptions cl p ?state1
      = Inr (state(?sk \<mapsto> setOptions p (setOptions (PatchRecord []) inst)))" for p
    by (simp add: setGqlState_def Let_def)
  have key: "js_str (js_or cl (Some ''default'')) = ?ck"
    by (simp add: js_str_def js_or_def truthy_def split: option.splits)
  note d = deleteServerOnly_object [OF assms(3,4)]
  have sh: "serverHeaders (Some h) = map (\<lambda>(n, x). (n, HStr x)) so"
    using d(2) assms(3) by simp
  show ?thesis
    by (simp add: useGqlHeaders_def Let_def js_or_None first second key assms(2,3) d(1) sh
          spread_nil_right)
qed

text \<open>
  C3 (as amended). For a client whose headers contain a \<open>serverOnly\<close> record: \<open>setup\<close>
  copies the headers of the user's object, the record with them, into the client of
  the public runtime config. Its entries are merged into outgoing headers on the
  server-context path only. \<open>prepareConfig\<close> (both versions), for a client with no schema
  path, spreads them over the other headers of the introspection request and deletes
  the record from the client. \<open>useGqlHeaders\<close>, called with empty headers and
  \<open>respectDefaults\<close>, deletes the record from the headers of the public runtime config
  and patches the transport with the other headers, the entries of the record spread
  over them only when \<open>process.server\<close> holds; the headers it leaves in the config have
  no \<open>serverOnly\<close> key.
\<close>

theorem C3_serverOnly_paths:
  "(module_setup upper resolve existsSync env publicHost publicClientHost cs = Inr out
      \<and> cs \<noteq> [] \<and> distinct (map fst cs) \<and> (k, ClientObj c) \<in> set cs \<longrightarrow>
      (\<exists>conf. map_of (publicClients out) k = Some conf \<and> headers conf = headers c))
   \<and> (\<not> truthy (schema v) \<and> headers v = Some h \<and> map_of h ''serverOnly'' = Some (HObj so) \<longrightarrow>
        prepareClient v
          = (SchemaWithHeaders (js_str (host v))
               (withToken v (spread (delete_key ''serverOnly'' h)
                               (map (\<lambda>(n, x). (n, HStr x)) so))),
             v\<lparr> headers := Some (delete_key ''serverOnly'' h) \<rparr>)
        \<and> stitchSource resolve v
          = (SrcObj (host v)
               (withToken v (spread (delete_key ''serverOnly'' h)
                               (map (\<lambda>(n, x). (n, HStr x)) so))),
             v\<lparr> headers := Some (delete_key ''serverOnly'' h) \<rparr>))
   \<and> (state (case cl of None \<Rightarrow> ''default'' | Some n \<Rightarrow> n) = Some inst
        \<and> map_of pc (case cl of None \<Rightarrow> ''default'' | Some n \<Rightarrow> if n = [] then ''default'' else n)
            = Some cc
        \<and> headers cc = Some h \<and> map_of h ''serverOnly'' = Some (HObj so) \<longrightarrow>
        useGqlHeaders setOptions isServer pc
           (HeadersOpts \<lparr> hopt_headers = Some [], hopt_client = cl,
                          hopt_respectDefaults = Some True \<rparr> None) state
          = Inr (state((case cl of None \<Rightarrow> ''default'' | Some n \<Rightarrow> n) \<mapsto>
              setOptions
                (PatchRecord
                   (map (\<lambda>(n, x). (n, Some x))
                      (if isServer
                       then spread (delete_key ''serverOnly'' h) (map (\<lambda>(n, x). (n, HStr x)) so)
                       else delete_key ''serverOnly'' h)))
                (setOptions (PatchRecord []) inst)),
            set_key (case cl of None \<Rightarrow> ''default'' | Some n \<Rightarrow> if n = [] then ''default'' else n)
              (cc\<lparr> headers := Some (delete_key ''serverOnly'' h) \<rparr>) pc))
   \<and> map_of (delete_key ''serverOnly'' h) ''serverOnly'' = None"
proof -
  have a: "module_setup upper resolve existsSync env publicHost publicClientHost cs = Inr out
      \<and> cs \<noteq> [] \<and> distinct (map fst cs) \<and> (k, ClientObj c) \<in> set cs \<longrightarrow>
      (\<exists>conf. map_of (publicClients out) k = Some conf \<and> headers conf = headers c)"
  proof
    assume h: "module_setup upper resolve existsSync env publicHost publicClientHost cs = Inr out
      \<and> cs \<noteq> [] \<and> distinct (map fst cs) \<and> (k, ClientObj c) \<in> set cs"
    note ms = h [THEN conjunct1] and ne = h [THEN conjunct2, THEN conjunct1]
    from ms ne have run: "setupClients upper resolve existsSync env cs
       \<lparr> clients = [], publicClients = [], privateClients = [], clientOps = [] \<rparr> = Inr out"
      by (simp add: module_setup_def)
    from h have dist: "distinct (map fst cs)" and mem: "(k, ClientObj c) \<in> set cs"
      by simp_all
    from setupClients_public_headers [OF run dist mem]
    show "\<exists>conf. map_of (publicClients out) k = Some conf \<and> headers conf = headers c"
      by (simp add: userObject_def)
  qed
  have b: "\<not> truthy (schema v) \<and> headers v = Some h \<and> map_of h ''serverOnly'' = Some (HObj so) \<longrightarrow>
        prepareClient v
          = (SchemaWithHeaders (js_str (host v))
               (withToken v (spread (delete_key ''serverOnly'' h)
                               (map (\<lambda>(n, x). (n, HStr x)) so))),
             v\<lparr> headers := Some (delete_key ''serverOnly'' h) \<rparr>)
        \<and> stitchSource resolve v
          = (SrcObj (host v)
               (withToken v (spread (delete_key ''serverOnly'' h)
                               (map (\<lambda>(n, x). (n, HStr x)) so))),
             v\<lparr> headers := Some (delete_key ''serverOnly'' h) \<rparr>)"
  proof
    assume h: "\<not> truthy (schema v) \<and> headers v = Some h
        \<and> map_of h ''serverOnly'' = Some (HObj so)"
    then have ns: "\<not> truthy (schema v)" and hv: "headers v = Some h"
      and so: "map_of h ''serverOnly'' = Some (HObj so)"
      by simp_all
    from hv have t: "truthy (tokenValue v) \<or> headers v \<noteq> None" by simp
    note d = deleteServerOnly_object [OF hv so]
    show "prepareClient v
          = (SchemaWithHeaders (js_str (host v))
               (withToken v (spread (delete_key ''serverOnly'' h)
                               (map (\<lambda>(n, x). (n, HStr x)) so))),
             v\<lparr> headers := Some (delete_key ''serverOnly'' h) \<rparr>)
        \<and> stitchSource resolve v
          = (SrcObj (host v)
               (withToken v (spread (delete_key ''serverOnly'' h)
                               (map (\<lambda>(n, x). (n, HStr x)) so))),
             v\<lparr> headers := Some (delete_key ''serverOnly'' h) \<rparr>)"
      by (simp add: prepareClient_headers [OF ns t] stitchSource_headers [OF ns t] d)
  qed
  have c: "state (case cl of None \<Rightarrow> ''default'' | Some n \<Rightarrow> n) = Some inst
        \<and> map_of pc (case cl of None \<Rightarrow> ''default'' | Some n \<Rightarrow> if n = [] then ''default'' else n)
            = Some cc
        \<and> headers cc = Some h \<and> map_of h ''serverOnly'' = Some (HObj so) \<longrightarrow>
        useGqlHeaders setOptions isServer pc
           (HeadersOpts \<lparr> hopt_headers = Some [], hopt_client = cl,
                          hopt_respectDefaults = Some True \<rparr> None) state
          = Inr (state((case cl of None \<Rightarrow> ''default'' | Some n \<Rightarrow> n) \<mapsto>
              setOptions
                (PatchRecord
                   (map (\<lambda>(n, x). (n, Some x))
                      (if isServer
                       then spread (delete_key ''serverOnly'' h) (map (\<lambda>(n, x). (n, HStr x)) so)
                       else delete_key ''serverOnly'' h)))
                (setOptions (PatchRecord []) inst)),
            set_key (case cl of None \<Rightarrow> ''default'' | Some n \<Rightarrow> if n = [] then ''default'' else n)
              (cc\<lparr> headers := Some (delete_key ''serverOnly'' h) \<rparr>) pc)"
  proof
    assume h: "state (case cl of None \<Rightarrow> ''default'' | Some n \<Rightarrow> n) = Some inst
        \<and> map_of pc (case cl of None \<Rightarrow> ''default'' | Some n \<Rightarrow> if n = [] then ''default'' else n)
            = Some cc
        \<and> headers cc = Some h \<and> map_of h ''serverOnly'' = Some (HObj so)"
    note h1 = h [THEN conjunct1] and h2 = h [THEN conjunct2, THEN conjunct1]
      and h3 = h [THEN conjunct2, THEN conjunct2, THEN conjunct1]
      and h4 = h [THEN conjunct2, THEN conjunct2, THEN conjunct2]
    note run = useGqlHeaders_defaults [where state = state and cl = cl and inst = inst
        and pc = pc and cc = cc and h = h and so = so and setOptions = setOptions
        and isServer = isServer]
    from run [OF h1 h2 h3 h4]
    show "useGqlHeaders setOptions isServer pc
           (HeadersOpts \<lparr> hopt_headers = Some [], hopt_client = cl,
                          hopt_respectDefaults = Some True \<rparr> None) state
          = Inr (state((case cl of None \<Rightarrow> ''default'' | Some n \<Rightarrow> n) \<mapsto>
              setOptions
                (PatchRecord
                   (map (\<lambda>(n, x). (n, Some x))
                      (if isServer
                       then spread (delete_key ''serverOnly'' h) (map (\<lambda>(n, x). (n, HStr x)) so)
                       else delete_key ''serverOnly'' h)))
                (setOptions (PatchRecord []) inst)),
            set_key (case cl of None \<Rightarrow> ''default'' | Some n \<Rightarrow> if n = [] then ''default'' else n)
              (cc\<lparr> headers := Some (delete_key ''serverOnly'' h) \<rparr>) pc)" .
  qed
  have d: "map_of (delete_key ''serverOnly'' h) ''serverOnly'' = None"
    by (simp add: map_of_delete_key)
  from a b c d show ?thesis by (intro conjI)
qed

text \<open>
  One client with the public header \<open>X-Public\<close> and the server-only header \<open>X-Secret\<close>.
  After \<open>setup\<close> the public runtime config holds both. With a transport that assigns the
  headers of a patch over its own, \<open>useGqlHeaders({ headers: {}, respectDefaults: true })\<close>
  on the client applies \<open>X-Public\<close> alone, on the server both; either way the config is
  left without the \<open>serverOnly\<close> record.
\<close>

theorem C3_serverOnly_paths_witness:
  "(\<exists>out conf.
      module_setup toUpperCaseAscii (\<lambda>p. p) (\<lambda>p. False) Map.empty None None
       [(''default'', ClientObj (noClient\<lparr> host := Some ''https://api.a/graphql'',
           headers := Some [(''X-Public'', HStr ''1''),
                            (''serverOnly'', HObj [(''X-Secret'', ''s3cret'')])] \<rparr>))] = Inr out
      \<and> map_of (publicClients out) ''default'' = Some conf
      \<and> headers conf = Some [(''X-Public'', HStr ''1''),
                              (''serverOnly'', HObj [(''X-Secret'', ''s3cret'')])])
   \<and> useGqlHeaders assignHeaders False
        [(''default'', noClient\<lparr> host := Some ''https://api.a/graphql'',
           headers := Some [(''X-Public'', HStr ''1''),
                            (''serverOnly'', HObj [(''X-Secret'', ''s3cret'')])] \<rparr>)]
        (HeadersOpts \<lparr> hopt_headers = Some [], hopt_client = None,
                       hopt_respectDefaults = Some True \<rparr> None)
        [''default'' \<mapsto> \<lparr> ident = 0::nat, requestHeaders = [] \<rparr>]
      = Inr ([''default'' \<mapsto> \<lparr> ident = 0::nat,
                 requestHeaders = [(''X-Public'', Some (HStr ''1''))] \<rparr>],
             [(''default'', noClient\<lparr> host := Some ''https://api.a/graphql'',
                 headers := Some [(''X-Public'', HStr ''1'')] \<rparr>)])
   \<and> useGqlHeaders assignHeaders True
        [(''default'', noClient\<lparr> host := Some ''https://api.a/graphql'',
           headers := Some [(''X-Public'', HStr ''1''),
                            (''serverOnly'', HObj [(''X-Secret'', ''s3cret'')])] \<rparr>)]
        (HeadersOpts \<lparr> hopt_headers = Some [], hopt_client = None,
                       hopt_respectDefaults = Some True \<rparr> None)
        [''default'' \<mapsto> \<lparr> ident = 0::nat, requestHeaders = [] \<rparr>]
      = Inr ([''default'' \<mapsto> \<lparr> ident = 0::nat,
                 requestHeaders = [(''X-Public'', Some (HStr ''1'')),
                                   (''X-Secret'', Some (HStr ''s3cret''))] \<rparr>],
             [(''default'', noClient\<lparr> host := Some ''https://api.a/graphql'',
                 headers := Some [(''X-Public'', HStr ''1'')] \<rparr>)])"
proof -
  let ?h = "[(''X-Public'', HStr ''1''), (''serverOnly'', HObj [(''X-Secret'', ''s3cret'')])]"
  let ?c = "noClient\<lparr> host := Some ''https://api.a/graphql'', headers := Some ?h \<rparr>"
  let ?cs = "[(''default'', ClientObj ?c)]"
  let ?inst = "\<lparr> ident = 0::nat, requestHeaders = [] \<rparr>"
  have found: "\<forall>(k, v)\<in>set ?cs. hostFound toUpperCaseAscii Map.empty k v"
    by (simp add: hostFound_def envName_def js_or_def truthy_def userHost_def noClient_def)
  have ne: "?cs \<noteq> []" by simp
  from module_setup_all_found [where upper = toUpperCaseAscii and env = Map.empty and cs = "?cs"
      and resolve = "\<lambda>p. p" and existsSync = "\<lambda>p. False" and publicHost = None
      and publicClientHost = None, OF ne found]
  obtain out where
    run: "module_setup toUpperCaseAscii (\<lambda>p. p) (\<lambda>p. False) Map.empty None None ?cs = Inr out" ..
  note inst = C3_serverOnly_paths [where upper = toUpperCaseAscii and resolve = "\<lambda>p. p"
      and existsSync = "\<lambda>p. False" and env = Map.empty and publicHost = None
      and publicClientHost = None and cs = "?cs" and out = out and k = "''default''"
      and c = "?c" and state = "[''default'' \<mapsto> ?inst]" and cl = None and inst = "?inst"
      and pc = "[(''default'', ?c)]" and cc = "?c" and h = "?h"
      and so = "[(''X-Secret'', ''s3cret'')]" and setOptions = assignHeaders]
  have h1: "module_setup toUpperCaseAscii (\<lambda>p. p) (\<lambda>p. False) Map.empty None None ?cs = Inr out
      \<and> ?cs \<noteq> [] \<and> distinct (map fst ?cs) \<and> (''default'', ClientObj ?c) \<in> set ?cs"
    using run by simp
  have h3: "[''default'' \<mapsto> ?inst] (case None of None \<Rightarrow> ''default'' | Some n \<Rightarrow> n) = Some ?inst
        \<and> map_of [(''default'', ?c)]
            (case None of None \<Rightarrow> ''default'' | Some n \<Rightarrow> if n = [] then ''default'' else n)
            = Some ?c
        \<and> headers ?c = Some ?h
        \<and> map_of ?h ''serverOnly'' = Some (HObj [(''X-Secret'', ''s3cret'')])"
    by simp
  from inst [THEN conjunct1, THEN mp, OF h1] obtain conf where
    pub: "map_of (publicClients out) ''default'' = Some conf \<and> headers conf = headers ?c" ..
  then have "map_of (publicClients out) ''default'' = Some conf \<and> headers conf = Some ?h"
    by simp
  with run have w1: "\<exists>out conf.
      module_setup toUpperCaseAscii (\<lambda>p. p) (\<lambda>p. False) Map.empty None None ?cs = Inr out
      \<and> map_of (publicClients out) ''default'' = Some conf
      \<and> headers conf = Some ?h"
    by (intro exI [of _ out] exI [of _ conf]) simp
  note client = inst [where isServer = False, THEN conjunct2, THEN conjunct2, THEN conjunct1,
      THEN mp, OF h3]
  note server = inst [where isServer = True, THEN conjunct2, THEN conjunct2, THEN conjunct1,
      THEN mp, OF h3]
  have w2: "useGqlHeaders assignHeaders False [(''default'', ?c)]
        (HeadersOpts \<lparr> hopt_headers = Some [], hopt_client = None,
                       hopt_respectDefaults = Some True \<rparr> None)
        [''default'' \<mapsto> ?inst]
      = Inr ([''default'' \<mapsto> \<lparr> ident = 0::nat,
                 requestHeaders = [(''X-Public'', Some (HStr ''1''))] \<rparr>],
             [(''default'', noClient\<lparr> host := Some ''https://api.a/graphql'',
                 headers := Some [(''X-Public'', HStr ''1'')] \<rparr>)])"
    using client
    by (simp add: assignHeaders_def spread_def delete_key_def noClient_def)
  have w3: "useGqlHeaders assignHeaders True [(''default'', ?c)]
        (HeadersOpts \<lparr> hopt_headers = Some [], hopt_client = None,
                       hopt_respectDefaults = Some True \<rparr> None)
        [''default'' \<mapsto> ?inst]
      = Inr ([''default'' \<mapsto> \<lparr> ident = 0::nat,
                 requestHeaders = [(''X-Public'', Some (HStr ''1'')),
                                   (''X-Secret'', Some (HStr ''s3cret''))] \<rparr>],
             [(''default'', noClient\<lparr> host := Some ''https://api.a/graphql'',
                 headers := Some [(''X-Public'', HStr ''1'')] \<rparr>)])"
    using server
    by (simp add: assignHeaders_def spread_def delete_key_def noClient_def)
  from w1 w2 w3 show ?thesis by (intro conjI)
qed

text \<open>
  C3 as stated fails at the first client with a \<open>serverOnly\<close> record: after \<open>setup\<close> the
  client of the public runtime config, which is what the application on the client
  side receives, holds the record with its entries.
\<close>

theorem C3_counterexample:
  "\<exists>out. module_setup toUpperCaseAscii (\<lambda>p. p) (\<lambda>p. False) Map.empty None None
       [(''default'', ClientObj (noClient\<lparr> host := Some ''https://api.a/graphql'',
           headers := Some [(''X-Public'', HStr ''1''),
                            (''serverOnly'', HObj [(''X-Secret'', ''s3cret'')])] \<rparr>))] = Inr out
     \<and> map_option headers (map_of (publicClients out) ''default'')
         = Some (Some [(''X-Public'', HStr ''1''),
                       (''serverOnly'', HObj [(''X-Secret'', ''s3cret'')])])"
  by (simp add: module_setup_def resolveClient_def storeClient_def Let_def envName_def
        js_or_def truthy_def userHost_def userClientHost_def userToken_def userTokenName_def
        userTokenType_def userSchema_def userObject_def noClient_def deepmerge_def
        tokenValue_def tokenName_def tokenType_def userRetainToken_def)

section \<open>Dispatch and the error slot\<close>

lemma find_none_default:
  "\<forall>(k, names)\<in>set ops. op \<notin> set names \<Longrightarrow> operationClient ops op = ''default''"
proof -
  assume "\<forall>(k, names)\<in>set ops. op \<notin> set names"
  then have "List.find (\<lambda>(k, names). op \<in> set names) ops = None"
    by (induction ops) auto
  then show ?thesis by (simp add: operationClient_def)
qed

lemma find_owner:
  "(k, names) \<in> set ops \<Longrightarrow> op \<in> set names \<Longrightarrow>
     \<exists>k' names'. List.find (\<lambda>(k, names). op \<in> set names) ops = Some (k', names')
        \<and> (k', names') \<in> set ops \<and> op \<in> set names'"
  by (induction ops) auto

lemma find_some_owner:
  assumes "(k, names) \<in> set ops" and "op \<in> set names"
  shows "\<exists>k' names'. List.find (\<lambda>(k, names). op \<in> set names) ops = Some (k', names')
           \<and> (k', names') \<in> set ops \<and> op \<in> set names' \<and> operationClient ops op = k'"
proof -
  from find_owner [OF assms] obtain k' names' where
    f: "List.find (\<lambda>(k, names). op \<in> set names) ops = Some (k', names')"
      "(k', names') \<in> set ops" "op \<in> set names'"
    by blast
  then show ?thesis by (simp add: operationClient_def)
qed

lemma handle_named:
  "k \<noteq> [] \<Longrightarrow> handle state (Some k)
      = (case state k of None \<Rightarrow> Inl (TypeError k) | Some inst \<Rightarrow> Inr inst)"
  by (simp add: handle_def js_or_def truthy_def js_str_def)

text \<open>
  C5. With \<open>GetUser\<close> in the operation set of \<open>default\<close> and \<open>GetPost\<close> in that of \<open>blog\<close>,
  \<open>GetPost\<close> is dispatched to \<open>blog\<close> and invoked on the instance the state holds for
  \<open>blog\<close>. An operation name in no client's set is dispatched to \<open>default\<close>. An operation
  name in some client's set is dispatched to the first client, in key order, whose set
  contains it, and invoked on that client's instance when the client's name is not
  empty.
\<close>

theorem C5_dispatch:
  "operationClient [(''default'', [''GetUser'']), (''blog'', [''GetPost''])] ''GetPost'' = ''blog''
   \<and> (state ''blog'' = Some inst \<longrightarrow>
        useAsyncGql [(''default'', [''GetUser'']), (''blog'', [''GetPost''])] state ''GetPost''
          = Inr inst)
   \<and> ((\<forall>(k, names)\<in>set ops. op \<notin> set names) \<longrightarrow>
        operationClient ops op = ''default''
        \<and> useAsyncGql ops state op
            = (case state ''default'' of
                 None \<Rightarrow> Inl (TypeError ''default'') | Some inst \<Rightarrow> Inr inst))
   \<and> ((k, names) \<in> set ops \<and> op \<in> set names \<longrightarrow>
        (\<exists>k' names'. List.find (\<lambda>(k, names). op \<in> set names) ops = Some (k', names')
           \<and> (k', names') \<in> set ops \<and> op \<in> set names'
           \<and> operationClient ops op = k'
           \<and> (k' \<noteq> [] \<longrightarrow>
                useAsyncGql ops state op
                  = (case state k' of None \<Rightarrow> Inl (TypeError k') | Some inst \<Rightarrow> Inr inst))))"
proof -
  have scen: "operationClient [(''default'', [''GetUser'']), (''blog'', [''GetPost''])] ''GetPost''
       = ''blog''"
    by (simp add: operationClient_def)
  have blog: "useAsyncGql [(''default'', [''GetUser'']), (''blog'', [''GetPost''])] state ''GetPost''
          = Inr inst" if "state ''blog'' = Some inst"
    using that by (simp add: useAsyncGql_def scen handle_named)
  have dflt: "operationClient ops op = ''default''
        \<and> useAsyncGql ops state op
            = (case state ''default'' of
                 None \<Rightarrow> Inl (TypeError ''default'') | Some inst \<Rightarrow> Inr inst)"
    if "\<forall>(k, names)\<in>set ops. op \<notin> set names"
    using find_none_default [OF that] by (simp add: useAsyncGql_def handle_named)
  have own: "\<exists>k' names'. List.find (\<lambda>(k, names). op \<in> set names) ops = Some (k', names')
           \<and> (k', names') \<in> set ops \<and> op \<in> set names'
           \<and> operationClient ops op = k'
           \<and> (k' \<noteq> [] \<longrightarrow>
                useAsyncGql ops state op
                  = (case state k' of None \<Rightarrow> Inl (TypeError k') | Some inst \<Rightarrow> Inr inst))"
    if "(k, names) \<in> set ops" and "op \<in> set names"
  proof -
    from find_some_owner [OF that] obtain k' names' where
      f: "List.find (\<lambda>(k, names). op \<in> set names) ops = Some (k', names')"
        "(k', names') \<in> set ops" "op \<in> set names'" "operationClient ops op = k'"
      by blast
    then have "k' \<noteq> [] \<longrightarrow> useAsyncGql ops state op
                  = (case state k' of None \<Rightarrow> Inl (TypeError k') | Some inst \<Rightarrow> Inr inst)"
      by (simp add: useAsyncGql_def handle_named)
    with f show ?thesis by (intro exI [of _ k'] exI [of _ names']) simp
  qed
  show ?thesis
  proof (intro conjI impI)
    show "operationClient [(''default'', [''GetUser'']), (''blog'', [''GetPost''])] ''GetPost''
       = ''blog''" by (rule scen)
  next
    assume "state ''blog'' = Some inst"
    then show "useAsyncGql [(''default'', [''GetUser'']), (''blog'', [''GetPost''])] state ''GetPost''
          = Inr inst" by (rule blog)
  next
    assume "\<forall>(k, names)\<in>set ops. op \<notin> set names"
    from dflt [OF this] show "operationClient ops op = ''default''" ..
  next
    assume "\<forall>(k, names)\<in>set ops. op \<notin> set names"
    from dflt [OF this] show "useAsyncGql ops state op
            = (case state ''default'' of
                 None \<Rightarrow> Inl (TypeError ''default'') | Some inst \<Rightarrow> Inr inst)" ..
  next
    assume "(k, names) \<in> set ops \<and> op \<in> set names"
    then have "(k, names) \<in> set ops" and "op \<in> set names" by simp_all
    then show "\<exists>k' names'. List.find (\<lambda>(k, names). op \<in> set names) ops = Some (k', names')
           \<and> (k', names') \<in> set ops \<and> op \<in> set names'
           \<and> operationClient ops op = k'
           \<and> (k' \<noteq> [] \<longrightarrow>
                useAsyncGql ops state op
                  = (case state k' of None \<Rightarrow> Inl (TypeError k') | Some inst \<Rightarrow> Inr inst))"
      by (rule own)
  qed
qed

text \<open>
  The two-client scenario: \<open>GetPost\<close> runs on the instance of \<open>blog\<close>, the unknown
  \<open>GetOrders\<close> on that of \<open>default\<close>.
\<close>

theorem C5_dispatch_witness:
  "useAsyncGql [(''default'', [''GetUser'']), (''blog'', [''GetPost''])]
      [''default'' \<mapsto> \<lparr> ident = 0::nat, requestHeaders = [] \<rparr>,
       ''blog'' \<mapsto> \<lparr> ident = 1, requestHeaders = [] \<rparr>] ''GetPost''
     = Inr \<lparr> ident = 1, requestHeaders = [] \<rparr>
   \<and> useAsyncGql [(''default'', [''GetUser'']), (''blog'', [''GetPost''])]
      [''default'' \<mapsto> \<lparr> ident = 0::nat, requestHeaders = [] \<rparr>,
       ''blog'' \<mapsto> \<lparr> ident = 1, requestHeaders = [] \<rparr>] ''GetOrders''
     = Inr \<lparr> ident = 0, requestHeaders = [] \<rparr>"
proof -
  let ?ops = "[(''default'', [''GetUser'']), (''blog'', [''GetPost''])]"
  let ?state = "[''default'' \<mapsto> \<lparr> ident = 0::nat, requestHeaders = [] \<rparr>,
       ''blog'' \<mapsto> \<lparr> ident = 1, requestHeaders = [] \<rparr>]"
  note inst = C5_dispatch [where state = "?state" and inst = "\<lparr> ident = 1, requestHeaders = [] \<rparr>"
      and ops = "?ops" and op = "''GetOrders''"]
  have h1: "?state ''blog'' = Some \<lparr> ident = 1, requestHeaders = [] \<rparr>" by simp
  have h2: "\<forall>(k, names)\<in>set ?ops. ''GetOrders'' \<notin> set names" by simp
  note a = inst [THEN conjunct2, THEN conjunct1, THEN mp, OF h1]
  note b = inst [THEN conjunct2, THEN conjunct2, THEN conjunct1, THEN mp, OF h2, THEN conjunct2]
  from a b show ?thesis by simp
qed

text \<open>
  C8. Every failing response overwrites the error slot with the error captured from it
  (client, status, operation, GraphQL errors), whatever the slot held; it calls the
  handler in \<open>state.onError\<close> once when there is one, and no handler otherwise.
  \<open>useGqlError\<close> leaves the slot as it is and, when the slot holds an error, calls the
  handler it is given once with that error; when the slot is empty it calls nothing.
\<close>

theorem C8_error_slot:
  "errState (onResponseError extractOperation c r st) = Some (capturedError extractOperation c r)
   \<and> errState (onResponseError extractOperation c2 r2 (onResponseError extractOperation c r st))
       = Some (capturedError extractOperation c2 r2)
   \<and> client (capturedError extractOperation c r) = c
   \<and> status (capturedError extractOperation c r) = resp_status r
   \<and> operation (capturedError extractOperation c r)
       = extractOperation (case req_query r of None \<Rightarrow> [] | Some q \<Rightarrow> q)
   \<and> gqlErrors (capturedError extractOperation c r)
       = (case resp_errors r of Some es \<Rightarrow> es | None \<Rightarrow> [resp_data r])
   \<and> calls (onResponseError extractOperation c r st)
       = calls st @ (case onError st of
                       None \<Rightarrow> []
                     | Some h \<Rightarrow> [(h, capturedError extractOperation c r)])
   \<and> length (calls (onResponseError extractOperation c r st)) \<le> length (calls st) + 1
   \<and> onError (onResponseError extractOperation c r st) = onError st
   \<and> (errState st = Some e \<longrightarrow>
        calls (useGqlError isClient production handler st) = calls st @ [(UserHandler handler, e)])
   \<and> (errState st = None \<longrightarrow> calls (useGqlError isClient production handler st) = calls st)
   \<and> errState (useGqlError isClient production handler st) = errState st
   \<and> onError (useGqlError True production handler st) = Some (UserHandler handler)"
proof -
  have q: "(case js_or (req_query r) None of None \<Rightarrow> [] | Some q \<Rightarrow> q)
           = (case req_query r of None \<Rightarrow> [] | Some q \<Rightarrow> q)"
    by (simp add: js_or_def truthy_def split: option.splits)
  show ?thesis
    by (simp add: onResponseError_def useGqlError_def capturedError_def Let_def q
          split: option.splits)
qed

text \<open>
  A failure with no handler registered, then a registration: the handler is called
  once, with the stored error. A registration with the slot empty calls nothing.
\<close>

theorem C8_error_slot_witness:
  "calls (useGqlError True False (7::nat)
            (onResponseError (\<lambda>q. q) ''blog''
               \<lparr> resp_status = Some 500, resp_errors = Some [''boom''], resp_data = ''{}'',
                 req_query = Some ''query GetPost { post }'' \<rparr>
               \<lparr> onError = None, errState = None, calls = [] \<rparr>))
     = [(UserHandler 7,
         \<lparr> client = ''blog'', status = Some 500, operation = ''query GetPost { post }'',
           gqlErrors = [''boom''] \<rparr>)]
   \<and> calls (useGqlError True False (7::nat)
              (\<lparr> onError = None, errState = None, calls = [] \<rparr>
                 :: (nat, string, string) ErrorState)) = []"
proof -
  let ?r = "\<lparr> resp_status = Some 500, resp_errors = Some [''boom''], resp_data = ''{}'',
                 req_query = Some ''query GetPost { post }'' \<rparr>"
  let ?st0 = "\<lparr> onError = None, errState = None, calls = [] \<rparr> :: (nat, string, string) ErrorState"
  let ?e = "\<lparr> client = ''blog'', status = Some 500, operation = ''query GetPost { post }'',
           gqlErrors = [''boom''] \<rparr>"
  let ?st1 = "onResponseError (\<lambda>q. q) ''blog'' ?r ?st0"
  have h1: "errState ?st1 = Some ?e"
    by (simp add: onResponseError_def capturedError_def js_or_def truthy_def)
  have c1: "calls ?st1 = []"
    by (simp add: onResponseError_def)
  have h0: "errState ?st0 = None" by simp
  note replay = C8_error_slot [where st = "?st1" and e = "?e" and isClient = True
      and production = False and handler = "7::nat" and extractOperation = "\<lambda>q. q"
      and c = "''blog''" and r = "?r" and ?c2.0 = "''blog''" and ?r2.0 = "?r"]
  note quiet = C8_error_slot [where st = "?st0" and e = "?e" and isClient = True
      and production = False and handler = "7::nat" and extractOperation = "\<lambda>q. q"
      and c = "''blog''" and r = "?r" and ?c2.0 = "''blog''" and ?r2.0 = "?r"]
  note a = replay [THEN conjunct2, THEN conjunct2, THEN conjunct2, THEN conjunct2, THEN conjunct2,
      THEN conjunct2, THEN conjunct2, THEN conjunct2, THEN conjunct2, THEN conjunct1, THEN mp, OF h1]
  note b = quiet [THEN conjunct2, THEN conjunct2, THEN conjunct2, THEN conjunct2, THEN conjunct2,
      THEN conjunct2, THEN conjunct2, THEN conjunct2, THEN conjunct2, THEN conjunct2,
      THEN conjunct1, THEN mp, OF h0]
  from a b show ?thesis by (simp add: c1)
qed

section \<open>Schema stitching\<close>

lemma clientSchema_sourceSchema:
  "clientSchema introspect loadSchema options k v =
     (case sourceSchema introspect loadSchema v of
        Some s \<Rightarrow> Inr (wrapSchema s (transforms options k))
      | None \<Rightarrow>
          if isRemote (js_str (case v of SrcStr s \<Rightarrow> s | SrcObj h hs \<Rightarrow> h))
          then Inl (IntrospectionError (js_str (case v of SrcStr s \<Rightarrow> s | SrcObj h hs \<Rightarrow> h)))
          else Inl (LocalSchemaError (''Unable to load local schema file: '' @ showSrc v)))"
  by (simp add: clientSchema_def sourceSchema_def Let_def split: option.splits)

lemma subschemasOf_first_failure:
  assumes "\<forall>(k', v')\<in>set pre. sourceSchema introspect loadSchema v' \<noteq> None"
    and "clientSchema introspect loadSchema options k v = Inl e"
  shows "subschemasOf introspect loadSchema options (pre @ (k, v) # post) subs = Inl e"
  using assms
proof (induction pre arbitrary: subs)
  case Nil
  then show ?case by simp
next
  case (Cons a pre)
  obtain k' v' where a: "a = (k', v')" by (cases a)
  with Cons.prems obtain s where "sourceSchema introspect loadSchema v' = Some s" by auto
  then have "clientSchema introspect loadSchema options k' v'
      = Inr (wrapSchema s (transforms options k'))"
    by (simp add: clientSchema_sourceSchema)
  with Cons a show ?case by simp
qed

lemma subschemasOf_all_loaded:
  "subschemasOf introspect loadSchema options schemas subs = Inr out \<Longrightarrow>
     (\<forall>(k, v)\<in>set schemas. sourceSchema introspect loadSchema v \<noteq> None)
     \<and> length out = length subs + length schemas"
proof (induction schemas arbitrary: subs)
  case Nil
  then show ?case by simp
next
  case (Cons a schemas)
  obtain k v where a: "a = (k, v)" by (cases a)
  from Cons.prems a obtain s where
    s: "clientSchema introspect loadSchema options k v = Inr s"
    and rest: "subschemasOf introspect loadSchema options schemas (subs @ [s]) = Inr out"
    by (auto split: sum.splits)
  from s have "sourceSchema introspect loadSchema v \<noteq> None"
    by (auto simp: clientSchema_sourceSchema split: option.splits if_splits)
  with Cons.IH [OF rest] a show ?case by simp
qed

text \<open>
  A local source that cannot be loaded stops \<open>prepareSchemas\<close> when the loop reaches it:
  the call throws, no schema is printed.
\<close>

lemma prepareSchemas_local_failure:
  assumes "\<forall>(k', v')\<in>set pre. sourceSchema introspect loadSchema v' \<noteq> None"
    and "\<not> isRemote (js_str (case v of SrcStr s \<Rightarrow> s | SrcObj h hs \<Rightarrow> h))"
    and "loadSchema v = None"
  shows "prepareSchemas introspect loadSchema (pre @ (k, v) # post) options
     = Inl (LocalSchemaError (''Unable to load local schema file: '' @ showSrc v))"
proof -
  from assms(2,3) have "clientSchema introspect loadSchema options k v
      = Inl (LocalSchemaError (''Unable to load local schema file: '' @ showSrc v))"
    by (simp add: clientSchema_def Let_def)
  from subschemasOf_first_failure [OF assms(1) this] show ?thesis
    by (simp add: prepareSchemas_def)
qed

text \<open>When \<open>prepareSchemas\<close> returns, the schema of every client was obtained: none was skipped.\<close>

lemma prepareSchemas_none_skipped:
  assumes "prepareSchemas introspect loadSchema schemas options = Inr printed"
  shows "\<forall>(k, v)\<in>set schemas. sourceSchema introspect loadSchema v \<noteq> None"
proof -
  from assms obtain out where
    "subschemasOf introspect loadSchema options schemas [] = Inr out"
    by (auto simp: prepareSchemas_def split: sum.splits)
  from subschemasOf_all_loaded [OF this] show ?thesis by simp
qed

text \<open>
  C7. A client with a token and a host that is no URL, under stitching: its source is
  the object \<open>{ host, headers }\<close>, the file cannot be loaded, and the error that
  \<open>prepareConfig\<close> throws reads "Unable to load local schema file: [object Object]".
\<close>

theorem C7_object_source_message:
  "fst (prepareConfigStitch (\<lambda>p. p) (\<lambda>h hs. None) (\<lambda>v. None) (Some (StitchBool True))
        [(''api'', noClient\<lparr> host := Some ''schema.graphql'',
            token := Some (TokObj \<lparr> tok_name = Some ''Authorization'', tok_value = Some ''t'',
                                     tok_type = Some ''Bearer'' \<rparr>) \<rparr>)])
     = Inl (LocalSchemaError ''Unable to load local schema file: [object Object]'')
   \<and> prepareSchemas (\<lambda>h hs. None) (\<lambda>v. None)
        [(''api'', SrcObj (Some ''schema.graphql'') [(''Authorization'', HStr ''Bearer t'')])]
        (Some \<lparr> mergeTypes = Some True, prefixTypes = None, prefixFields = None \<rparr>)
     = Inl (LocalSchemaError ''Unable to load local schema file: [object Object]'')"
  by (simp add: prepareConfigStitch_def stitchSource_def stitchOff_def stitchOptions_def
        prepareSchemas_def clientSchema_def isRemote_def Let_def noClient_def truthy_def
        tokenValue_def js_str_def)

lemma rootFields_wrapSchema:
  "prefixFields so = Some True \<Longrightarrow>
     rootFields (wrapSchema s (transforms (Some so) k)) = map (prefixed k) (rootFields s)"
  by (simp add: wrapSchema_def transforms_def)

lemma prefixed_collision_iff:
  "(\<exists>f g. prefixed a f = prefixed b g)
     \<longleftrightarrow> prefix (a @ ''_'') (b @ ''_'') \<or> prefix (b @ ''_'') (a @ ''_'')"
proof
  assume "\<exists>f g. prefixed a f = prefixed b g"
  then obtain f g where "(a @ ''_'') @ f = (b @ ''_'') @ g"
    by (auto simp: prefixed_def)
  then have "prefix (a @ ''_'') ((b @ ''_'') @ g)" and "prefix (b @ ''_'') ((b @ ''_'') @ g)"
    by (metis prefixI)+
  then show "prefix (a @ ''_'') (b @ ''_'') \<or> prefix (b @ ''_'') (a @ ''_'')"
    by (rule prefix_same_cases)
next
  assume "prefix (a @ ''_'') (b @ ''_'') \<or> prefix (b @ ''_'') (a @ ''_'')"
  then show "\<exists>f g. prefixed a f = prefixed b g"
  proof
    assume "prefix (a @ ''_'') (b @ ''_'')"
    then obtain r where "b @ ''_'' = (a @ ''_'') @ r" by (auto simp: prefix_def)
    then have "prefixed a r = prefixed b []" by (simp add: prefixed_def)
    then show ?thesis by blast
  next
    assume "prefix (b @ ''_'') (a @ ''_'')"
    then obtain r where "a @ ''_'' = (b @ ''_'') @ r" by (auto simp: prefix_def)
    then have "prefixed a [] = prefixed b r" by (simp add: prefixed_def)
    then show ?thesis by blast
  qed
qed

lemma no_underscore_no_prefix:
  assumes "a \<noteq> b" and "CHR ''_'' \<notin> set a" and "CHR ''_'' \<notin> set b"
  shows "\<not> prefix (a @ ''_'') (b @ ''_'')"
proof
  assume "prefix (a @ ''_'') (b @ ''_'')"
  then obtain r where r: "b @ ''_'' = a @ ''_'' @ r" by (auto simp: prefix_def)
  show False
  proof (cases r rule: rev_cases)
    case Nil
    with r assms(1) show False by simp
  next
    case (snoc r' c)
    with r have "b = a @ ''_'' @ r'" by simp
    with assms(3) show False by simp
  qed
qed

text \<open>
  C9 (as amended). Two clients \<open>a\<close> and \<open>b\<close> stitched with root-field prefixing on, the
  schema of each obtained: the printed schema holds every root field \<open>f\<close> of the schema
  of \<open>a\<close> as \<open>a_f\<close> and every root field \<open>g\<close> of the schema of \<open>b\<close> as \<open>b_g\<close>, and no
  other root field. The prefixed names of the two clients never collide when neither
  \<open>a_\<close> is a prefix of \<open>b_\<close> nor \<open>b_\<close> of \<open>a_\<close>, in particular when neither client name
  contains an underscore.
\<close>

theorem C9_stitch_prefixes:
  assumes "a \<noteq> b" and "prefixFields so = Some True"
    and "sourceSchema introspect loadSchema va = Some sa"
    and "sourceSchema introspect loadSchema vb = Some sb"
  shows "\<exists>printed. prepareSchemas introspect loadSchema [(a, va), (b, vb)] (Some so) = Inr printed
     \<and> (\<forall>f\<in>set (rootFields sa). prefixed a f \<in> set (rootFields printed))
     \<and> (\<forall>g\<in>set (rootFields sb). prefixed b g \<in> set (rootFields printed))
     \<and> set (rootFields printed)
         = prefixed a ` set (rootFields sa) \<union> prefixed b ` set (rootFields sb)
     \<and> (\<not> prefix (a @ ''_'') (b @ ''_'') \<and> \<not> prefix (b @ ''_'') (a @ ''_'') \<longrightarrow>
          (\<forall>f g. prefixed a f \<noteq> prefixed b g))
     \<and> (CHR ''_'' \<notin> set a \<and> CHR ''_'' \<notin> set b \<longrightarrow> (\<forall>f g. prefixed a f \<noteq> prefixed b g))"
proof -
  let ?wa = "wrapSchema sa (transforms (Some so) a)"
  let ?wb = "wrapSchema sb (transforms (Some so) b)"
  let ?printed = "printSchema (stitchSchemas [?wa, ?wb])"
  have run: "prepareSchemas introspect loadSchema [(a, va), (b, vb)] (Some so) = Inr ?printed"
    by (simp add: prepareSchemas_def clientSchema_sourceSchema assms(3,4))
  have fields: "set (rootFields ?printed)
      = prefixed a ` set (rootFields sa) \<union> prefixed b ` set (rootFields sb)"
    by (simp add: printSchema_def stitchSchemas_def rootFields_wrapSchema [OF assms(2)])
  have apart: "\<forall>f g. prefixed a f \<noteq> prefixed b g"
    if "\<not> prefix (a @ ''_'') (b @ ''_'') \<and> \<not> prefix (b @ ''_'') (a @ ''_'')"
    using that prefixed_collision_iff [of a b] by blast
  have plain: "\<forall>f g. prefixed a f \<noteq> prefixed b g"
    if "CHR ''_'' \<notin> set a \<and> CHR ''_'' \<notin> set b"
  proof -
    from that assms(1) have "\<not> prefix (a @ ''_'') (b @ ''_'')" and "\<not> prefix (b @ ''_'') (a @ ''_'')"
      using no_underscore_no_prefix [of a b] no_underscore_no_prefix [of b a] by auto
    then show ?thesis using apart by blast
  qed
  show ?thesis
  proof (intro exI [of _ ?printed] conjI impI)
    show "prepareSchemas introspect loadSchema [(a, va), (b, vb)] (Some so) = Inr ?printed"
      by (rule run)
    show "\<forall>f\<in>set (rootFields sa). prefixed a f \<in> set (rootFields ?printed)"
      unfolding fields by blast
    show "\<forall>g\<in>set (rootFields sb). prefixed b g \<in> set (rootFields ?printed)"
      unfolding fields by blast
    show "set (rootFields ?printed)
      = prefixed a ` set (rootFields sa) \<union> prefixed b ` set (rootFields sb)"
      by (rule fields)
    show "\<forall>f g. prefixed a f \<noteq> prefixed b g"
      if "\<not> prefix (a @ ''_'') (b @ ''_'') \<and> \<not> prefix (b @ ''_'') (a @ ''_'')"
      using that by (rule apart)
    show "\<forall>f g. prefixed a f \<noteq> prefixed b g"
      if "CHR ''_'' \<notin> set a \<and> CHR ''_'' \<notin> set b"
      using that by (rule plain)
  qed
qed

text \<open>
  The clients \<open>default\<close> and \<open>blog\<close>, both with a root field \<open>user\<close>: the printed
  schema holds \<open>default_user\<close>, \<open>blog_user\<close> and \<open>blog_post\<close>.
\<close>

theorem C9_stitch_prefixes_witness:
  "prepareSchemas (\<lambda>h hs. None)
     (\<lambda>v. if v = SrcStr (Some ''a.graphql'')
           then Some \<lparr> typeNames = [''Query''], rootFields = [''user''] \<rparr>
           else if v = SrcStr (Some ''b.graphql'')
           then Some \<lparr> typeNames = [''Query''], rootFields = [''user'', ''post''] \<rparr>
           else None)
     [(''default'', SrcStr (Some ''a.graphql'')), (''blog'', SrcStr (Some ''b.graphql''))]
     (Some \<lparr> mergeTypes = Some True, prefixTypes = None, prefixFields = Some True \<rparr>)
   = Inr \<lparr> typeNames = [''Query''],
           rootFields = [''default_user'', ''blog_user'', ''blog_post''] \<rparr>
   \<and> (\<forall>f g. prefixed ''default'' f \<noteq> prefixed ''blog'' g)"
proof -
  let ?load = "\<lambda>v. if v = SrcStr (Some ''a.graphql'')
           then Some \<lparr> typeNames = [''Query''], rootFields = [''user''] \<rparr>
           else if v = SrcStr (Some ''b.graphql'')
           then Some \<lparr> typeNames = [''Query''], rootFields = [''user'', ''post''] \<rparr>
           else None"
  let ?so = "\<lparr> mergeTypes = Some True, prefixTypes = None, prefixFields = Some True \<rparr>"
  note inst = C9_stitch_prefixes [where a = "''default''" and b = "''blog''" and so = "?so"
      and introspect = "\<lambda>h hs. None" and loadSchema = "?load"
      and va = "SrcStr (Some ''a.graphql'')" and vb = "SrcStr (Some ''b.graphql'')"
      and sa = "\<lparr> typeNames = [''Query''], rootFields = [''user''] \<rparr>"
      and sb = "\<lparr> typeNames = [''Query''], rootFields = [''user'', ''post''] \<rparr>"]
  have h1: "''default'' \<noteq> ''blog''" by simp
  have h2: "prefixFields ?so = Some True" by simp
  have h3: "sourceSchema (\<lambda>h hs. None) ?load (SrcStr (Some ''a.graphql''))
      = Some \<lparr> typeNames = [''Query''], rootFields = [''user''] \<rparr>"
    by (simp add: sourceSchema_def isRemote_def js_str_def)
  have h4: "sourceSchema (\<lambda>h hs. None) ?load (SrcStr (Some ''b.graphql''))
      = Some \<lparr> typeNames = [''Query''], rootFields = [''user'', ''post''] \<rparr>"
    by (simp add: sourceSchema_def isRemote_def js_str_def)
  have h5: "CHR ''_'' \<notin> set ''default'' \<and> CHR ''_'' \<notin> set ''blog''" by simp
  from inst [OF h1 h2 h3 h4] obtain printed where
    p: "prepareSchemas (\<lambda>h hs. None) ?load
          [(''default'', SrcStr (Some ''a.graphql'')), (''blog'', SrcStr (Some ''b.graphql''))]
          (Some ?so) = Inr printed"
    and q: "CHR ''_'' \<notin> set ''default'' \<and> CHR ''_'' \<notin> set ''blog'' \<longrightarrow>
          (\<forall>f g. prefixed ''default'' f \<noteq> prefixed ''blog'' g)"
    by blast
  have e: "prepareSchemas (\<lambda>h hs. None) ?load
          [(''default'', SrcStr (Some ''a.graphql'')), (''blog'', SrcStr (Some ''b.graphql''))]
          (Some ?so)
      = Inr \<lparr> typeNames = [''Query''],
           rootFields = [''default_user'', ''blog_user'', ''blog_post''] \<rparr>"
    by (simp add: prepareSchemas_def clientSchema_def isRemote_def js_str_def Let_def
          wrapSchema_def transforms_def stitchSchemas_def printSchema_def prefixed_def)
  from q h5 have "\<forall>f g. prefixed ''default'' f \<noteq> prefixed ''blog'' g" by (rule mp)
  with e show ?thesis by (rule conjI)
qed

text \<open>
  C9 as stated fails for the clients \<open>x\<close> and \<open>x_y\<close>: the field \<open>y_z\<close> of the first and
  the field \<open>z\<close> of the second are both renamed to \<open>x_y_z\<close>, and the stitched schema has
  that one name.
\<close>

theorem C9_counterexample:
  "''x'' \<noteq> ''x_y''
   \<and> prefixed ''x'' ''y_z'' = prefixed ''x_y'' ''z''
   \<and> prepareSchemas (\<lambda>h hs. None)
     (\<lambda>v. if v = SrcStr (Some ''x.graphql'')
           then Some \<lparr> typeNames = [''Query''], rootFields = [''y_z''] \<rparr>
           else if v = SrcStr (Some ''x_y.graphql'')
           then Some \<lparr> typeNames = [''Query''], rootFields = [''z''] \<rparr>
           else None)
     [(''x'', SrcStr (Some ''x.graphql'')), (''x_y'', SrcStr (Some ''x_y.graphql''))]
     (Some \<lparr> mergeTypes = Some True, prefixTypes = None, prefixFields = Some True \<rparr>)
   = Inr \<lparr> typeNames = [''Query''], rootFields = [''x_y_z''] \<rparr>"
  by (simp add: prepareSchemas_def clientSchema_def isRemote_def js_str_def Let_def
        wrapSchema_def transforms_def stitchSchemas_def printSchema_def prefixed_def)

end
